theory Spec2Isabelle
  imports Main "HOL-Library.Sublist"
begin

section \<open>The admin panel script \<^verbatim>\<open>static/js/atlas-admin.js\<close>\<close>

text \<open>
  The script is a set of \<^verbatim>\<open>async\<close> functions over three pieces of browser state:
  the document (elements looked up by id), the network (\<^verbatim>\<open>fetch\<close>) and the window
  (\<^verbatim>\<open>alert\<close>, \<^verbatim>\<open>confirm\<close>, \<^verbatim>\<open>location.href\<close>). The embedding threads a record of that
  state through every function; a \<^verbatim>\<open>throw\<close> or a rejected promise is the \<open>Inl\<close> branch of
  the result. One handler is run to completion: what other events do to the document
  while a handler is suspended at an \<^verbatim>\<open>await\<close> is outside the model.

  Strings are \<^typ>\<open>string\<close>, one \<^typ>\<open>char\<close> per UTF-16 code unit, for code units below 256.
\<close>

subsection \<open>Values, exceptions, conversions\<close>

datatype jsval =
    JUndef
  | JNull
  | JBool bool
  | JNum int
  | JStr string
  | JArr "jsval list"
  | JObj "(string \<times> jsval) list"

text \<open>
  \<open>JNum\<close> holds the integer-valued numbers up to \<^verbatim>\<open>2^53\<close> in magnitude, the range in which a
  number is the integer it is written as; fractions, \<^verbatim>\<open>NaN\<close>, the infinities and the larger
  numbers are not modelled. \<open>JObj\<close> lists the properties of an object in insertion order, each
  key once (as \<^verbatim>\<open>JSON.parse\<close> leaves them).
\<close>

datatype exn =
    Error string
  | TypeError string
  | SyntaxError string

text \<open>\<^verbatim>\<open>String(e)\<close> for an error object: the name, then the message when there is one.\<close>

definition with_name :: "string \<Rightarrow> string \<Rightarrow> string" where
  "with_name n m = (if m = [] then n else n @ '': '' @ m)"

fun String_exn :: "exn \<Rightarrow> string" where
  "String_exn (Error m) = with_name ''Error'' m"
| "String_exn (TypeError m) = with_name ''TypeError'' m"
| "String_exn (SyntaxError m) = with_name ''SyntaxError'' m"

fun message :: "exn \<Rightarrow> string" where
  "message (Error m) = m"
| "message (TypeError m) = m"
| "message (SyntaxError m) = m"

text \<open>The conversion to boolean that \<^verbatim>\<open>!x\<close>, \<^verbatim>\<open>x || y\<close> and \<^verbatim>\<open>if(x)\<close> apply.\<close>

fun truthy :: "jsval \<Rightarrow> bool" where
  "truthy JUndef = False"
| "truthy JNull = False"
| "truthy (JBool b) = b"
| "truthy (JNum n) = (n \<noteq> 0)"
| "truthy (JStr s) = (s \<noteq> [])"
| "truthy (JArr xs) = True"
| "truthy (JObj kvs) = True"

text \<open>\<^verbatim>\<open>a || b\<close>\<close>

definition or_else :: "jsval \<Rightarrow> jsval \<Rightarrow> jsval" where
  "or_else a b = (if truthy a then a else b)"

fun digits :: "nat \<Rightarrow> string" where
  "digits n = (if n < 10 then [''0123456789'' ! n]
               else digits (n div 10) @ [''0123456789'' ! (n mod 10)])"

declare digits.simps [simp del]

definition show_int :: "int \<Rightarrow> string" where
  "show_int i = (if i < 0 then ''-'' @ digits (nat (- i)) else digits (nat i))"

fun join :: "string \<Rightarrow> string list \<Rightarrow> string" where
  "join sep [] = []"
| "join sep [x] = x"
| "join sep (x # y # ys) = x @ sep @ join sep (y # ys)"

text \<open>
  The conversion to string of a template literal's \<^verbatim>\<open>${x}\<close> and of \<^verbatim>\<open>new Error(x)\<close>.
  An array joins its elements with commas, \<^verbatim>\<open>null\<close> and \<^verbatim>\<open>undefined\<close> elements as the
  empty string. An object is converted by the \<^verbatim>\<open>toString\<close> it inherits; an object that has a
  property of its own with that name (which JSON cannot make a function) is not converted at
  all: the conversion throws a \<^verbatim>\<open>TypeError\<close> (the message is V8's), also when the object is an
  element of an array that is converted. \<open>toStr\<close> is the text of a value that converts,
  \<open>converts\<close> says which values do, and \<open>ToString\<close> is the conversion with its exception.
\<close>

fun toStr :: "jsval \<Rightarrow> string" where
  "toStr JUndef = ''undefined''"
| "toStr JNull = ''null''"
| "toStr (JBool b) = (if b then ''true'' else ''false'')"
| "toStr (JNum n) = show_int n"
| "toStr (JStr s) = s"
| "toStr (JArr xs) =
     join '','' (map (\<lambda>x. case x of JUndef \<Rightarrow> [] | JNull \<Rightarrow> [] | _ \<Rightarrow> toStr x) xs)"
| "toStr (JObj kvs) = ''[object Object]''"

fun converts :: "jsval \<Rightarrow> bool" where
  "converts (JArr xs) = list_all converts xs"
| "converts (JObj kvs) = (''toString'' \<notin> set (map fst kvs))"
| "converts v = True"

definition not_primitive :: exn where
  "not_primitive = TypeError ''Cannot convert object to primitive value''"

definition ToString :: "jsval \<Rightarrow> exn + string" where
  "ToString v = (if converts v then Inr (toStr v) else Inl not_primitive)"

text \<open>What \<^verbatim>\<open>throw new Error(x)\<close> throws: the error with \<open>x\<close> as its message, or what converting \<open>x\<close> throws.\<close>

definition throw_Error :: "jsval \<Rightarrow> exn" where
  "throw_Error x = (case ToString x of Inl e \<Rightarrow> e | Inr m \<Rightarrow> Error m)"

text \<open>
  Reading a property \<^verbatim>\<open>v.k\<close>, for the keys this script reads (none of them is a built-in
  property of a string, array, number or boolean): \<^verbatim>\<open>null\<close> and \<^verbatim>\<open>undefined\<close> throw, an
  object gives the property or \<^verbatim>\<open>undefined\<close>, every other value gives \<^verbatim>\<open>undefined\<close>.
  The message is V8's.
\<close>

definition null_read :: "string \<Rightarrow> string \<Rightarrow> exn" where
  "null_read what k =
     TypeError (''Cannot read properties of '' @ what @ '' (reading '' @ [CHR 0x27] @ k @ [CHR 0x27] @ '')'')"

definition null_write :: "string \<Rightarrow> exn" where
  "null_write k =
     TypeError (''Cannot set properties of null (setting '' @ [CHR 0x27] @ k @ [CHR 0x27] @ '')'')"

fun getProp :: "jsval \<Rightarrow> string \<Rightarrow> exn + jsval" where
  "getProp JUndef k = Inl (null_read ''undefined'' k)"
| "getProp JNull k = Inl (null_read ''null'' k)"
| "getProp (JObj kvs) k = Inr (case map_of kvs k of None \<Rightarrow> JUndef | Some v \<Rightarrow> v)"
| "getProp v k = Inr JUndef"

text \<open>
  \<^verbatim>\<open>String.prototype.trim\<close>: on code units below 256 the white space and line terminators
  are TAB, LF, VT, FF, CR, SPACE and NBSP.
\<close>

definition is_space :: "char \<Rightarrow> bool" where
  "is_space c = (of_char c \<in> {9, 10, 11, 12, 13, 32, 160 :: nat})"

definition trim :: "string \<Rightarrow> string" where
  "trim s = rev (dropWhile is_space (rev (dropWhile is_space s)))"

subsection \<open>The network\<close>

datatype jsfile = FileObj (file_name: string) (file_bytes: "nat list")

datatype form_entry = Text string | Blob jsfile

text \<open>
  A request body is absent, the text \<^verbatim>\<open>JSON.stringify\<close> makes of a value (kept as the value),
  or a \<^verbatim>\<open>FormData\<close> (its entries in the order they were appended).
\<close>

datatype payload = NoBody | JsonText jsval | FormData "(string \<times> form_entry) list"

record request =
  meth :: string
  url :: string
  headers :: "(string \<times> string) list"
  body :: payload

text \<open>
  \<^verbatim>\<open>fetch\<close> rejects (a network failure) or resolves to a response with a status;
  \<^verbatim>\<open>r.json()\<close> then rejects (the body is not JSON) or resolves to the parsed value.
\<close>

datatype body_json = Unparseable exn | Parsed jsval

datatype outcome = Rejected exn | Response nat body_json

definition ok :: "nat \<Rightarrow> bool" where
  "ok st = (200 \<le> st \<and> st \<le> 299)"

subsection \<open>The browser state\<close>

text \<open>
  An element, as far as the script touches it: \<^verbatim>\<open>style.display\<close>, the last value assigned to
  \<^verbatim>\<open>innerHTML\<close>, \<^verbatim>\<open>value\<close> (of an input, select or textarea) and \<^verbatim>\<open>files\<close> (of a file
  input).
\<close>

record element =
  display :: string
  innerHTML :: string
  val :: string
  files :: "jsfile list"

definition blank :: element where
  "blank = \<lparr>display = [], innerHTML = [], val = [], files = []\<rparr>"

definition input :: "string \<Rightarrow> element" where
  "input v = blank\<lparr>val := v\<rparr>"

text \<open>
  What the script does to the outside, in the order it does it: a call of \<^verbatim>\<open>fetch\<close>, a text
  shown by \<^verbatim>\<open>alert\<close>, a question asked by \<^verbatim>\<open>confirm\<close> with the answer given.
\<close>

datatype event = Fetched request | Alerted string | Confirmed string bool

fun requests :: "event list \<Rightarrow> request list" where
  "requests [] = []"
| "requests (Fetched rq # es) = rq # requests es"
| "requests (e # es) = requests es"

text \<open>
  \<open>dom\<close> maps an id to its element (\<^verbatim>\<open>document.getElementById\<close>), \<open>href\<close> is
  \<^verbatim>\<open>window.location.href\<close>, \<open>log\<close> the events so far, and \<open>unhandled\<close> the rejections of
  promises nobody awaits.
\<close>

record world =
  dom :: "string \<rightharpoonup> element"
  href :: string
  log :: "event list"
  unhandled :: "exn list"

definition reqs :: "world \<Rightarrow> request list" where
  "reqs w = requests (log w)"

text \<open>
  What the script cannot see: the server (the outcome of a request, given the requests
  before it), the operator's answer to a \<^verbatim>\<open>confirm\<close>, and two built-ins whose output depends
  on the locale or is only displayed: \<^verbatim>\<open>new Date(x).toLocaleString()\<close> and
  \<^verbatim>\<open>JSON.stringify(x, null, 2)\<close>; and the HTML parser's reading of a quoted attribute
  value (\<open>attrText\<close>, which resolves character references).
\<close>

record env =
  net :: "request list \<Rightarrow> request \<Rightarrow> outcome"
  answer :: "string \<Rightarrow> bool"
  localeDate :: "jsval \<Rightarrow> string"
  prettyJSON :: "jsval \<Rightarrow> string"
  attrText :: "string \<Rightarrow> string"

type_synonym 'a js = "world \<Rightarrow> (exn + 'a) \<times> world"

definition ret :: "'a \<Rightarrow> 'a js" where
  "ret x = (\<lambda>w. (Inr x, w))"

definition throw :: "exn \<Rightarrow> 'a js" where
  "throw e = (\<lambda>w. (Inl e, w))"

definition lift :: "exn + 'a \<Rightarrow> 'a js" where
  "lift r = (\<lambda>w. (r, w))"

text \<open>Sequencing (\<^verbatim>\<open>;\<close> and \<^verbatim>\<open>await\<close>): an exception skips the rest.\<close>

definition andThen :: "'a js \<Rightarrow> ('a \<Rightarrow> 'b js) \<Rightarrow> 'b js" where
  "andThen m f = (\<lambda>w. case m w of (Inl e, w') \<Rightarrow> (Inl e, w') | (Inr a, w') \<Rightarrow> f a w')"

text \<open>\<^verbatim>\<open>try { m } catch(e) { h e }\<close>\<close>

definition tryCatch :: "'a js \<Rightarrow> (exn \<Rightarrow> 'a js) \<Rightarrow> 'a js" where
  "tryCatch m h = (\<lambda>w. case m w of (Inl e, w') \<Rightarrow> h e w' | (Inr a, w') \<Rightarrow> (Inr a, w'))"

text \<open>
  An \<^verbatim>\<open>async\<close> function called without \<^verbatim>\<open>await\<close>: the caller goes on whatever happens, and a
  rejection is reported as unhandled.
\<close>

definition detached :: "'a js \<Rightarrow> unit js" where
  "detached m = (\<lambda>w. case m w of
       (Inl e, w') \<Rightarrow> (Inr (), w'\<lparr>unhandled := unhandled w' @ [e]\<rparr>)
     | (Inr a, w') \<Rightarrow> (Inr (), w'))"

text \<open>\<^verbatim>\<open>document.getElementById(i).value\<close>\<close>

definition valueOf :: "string \<Rightarrow> string js" where
  "valueOf i = (\<lambda>w. case dom w i of
       None \<Rightarrow> (Inl (null_read ''null'' ''value''), w)
     | Some e \<Rightarrow> (Inr (val e), w))"

text \<open>\<^verbatim>\<open>document.getElementById(i).files[0]\<close>, \<^verbatim>\<open>undefined\<close> (here \<open>None\<close>) when no file is chosen.\<close>

definition firstFile :: "string \<Rightarrow> jsfile option js" where
  "firstFile i = (\<lambda>w. case dom w i of
       None \<Rightarrow> (Inl (null_read ''null'' ''files''), w)
     | Some e \<Rightarrow> (Inr (case files e of [] \<Rightarrow> None | f # _ \<Rightarrow> Some f), w))"

text \<open>\<^verbatim>\<open>document.getElementById(i).style.display = d\<close>\<close>

definition setDisplay :: "string \<Rightarrow> string \<Rightarrow> unit js" where
  "setDisplay i d = (\<lambda>w. case dom w i of
       None \<Rightarrow> (Inl (null_read ''null'' ''style''), w)
     | Some e \<Rightarrow> (Inr (), w\<lparr>dom := (dom w)(i \<mapsto> e\<lparr>display := d\<rparr>)\<rparr>))"

text \<open>
  The ids of the elements that the script's own templates put below an element: assigning
  \<^verbatim>\<open>innerHTML\<close> removes them. Markup inside displayed data is not parsed for ids.
\<close>

definition below :: "string \<Rightarrow> string list" where
  "below i =
    (if i = ''tab_onboarding'' then [''ob_status'', ''ob_table'', ''ob_detail'', ''set_status'', ''set_notes'']
     else if i = ''ob_detail'' then [''set_status'', ''set_notes'']
     else if i = ''tab_vault'' then
       [''v_source'', ''v_org'', ''v_tenant'', ''v_schema'', ''v_manifest'', ''v_file'', ''v_msg'', ''v_table'']
     else if i = ''tab_owners'' then
       [''o_name'', ''o_type'', ''o_jur'', ''o_email'', ''o_addr'', ''o_phone'', ''o_msg'', ''o_table'']
     else if i = ''tab_assets'' then
       [''a_owner'', ''a_title'', ''a_type'', ''a_reg'', ''a_desc'', ''a_msg'', ''a_table'']
     else [])"

text \<open>
  \<^verbatim>\<open>el.innerHTML = html\<close> for the element \<open>i\<close> (already looked up, so it exists): the
  elements below it go, the elements \<open>kids\<close> that \<open>html\<close> declares with an id come.
\<close>

definition assignInner :: "string \<Rightarrow> string \<Rightarrow> (string \<times> element) list \<Rightarrow> world \<Rightarrow> world" where
  "assignInner i html kids w =
     w\<lparr>dom := (\<lambda>k. if k = i then map_option (\<lambda>e. e\<lparr>innerHTML := html\<rparr>) (dom w i)
                     else case map_of kids k of
                            Some e \<Rightarrow> Some e
                          | None \<Rightarrow> if k \<in> set (below i) then None else dom w k)\<rparr>"

text \<open>\<^verbatim>\<open>document.getElementById(i).innerHTML = html\<close>\<close>

definition setInner :: "string \<Rightarrow> string \<Rightarrow> (string \<times> element) list \<Rightarrow> unit js" where
  "setInner i html kids = (\<lambda>w. case dom w i of
       None \<Rightarrow> (Inl (null_write ''innerHTML''), w)
     | Some e \<Rightarrow> (Inr (), assignInner i html kids w))"

text \<open>\<^verbatim>\<open>fetch(path, opts)\<close>: the call is logged, the server decides the outcome.\<close>

definition fetch :: "env \<Rightarrow> request \<Rightarrow> world \<Rightarrow> outcome \<times> world" where
  "fetch E rq w = (net E (reqs w) rq, w\<lparr>log := log w @ [Fetched rq]\<rparr>)"

definition GET :: "string \<Rightarrow> request" where
  "GET path = \<lparr>meth = ''GET'', url = path, headers = [], body = NoBody\<rparr>"

definition POST :: "string \<Rightarrow> request" where
  "POST path = \<lparr>meth = ''POST'', url = path, headers = [], body = NoBody\<rparr>"

definition POST_json :: "string \<Rightarrow> jsval \<Rightarrow> request" where
  "POST_json path v =
     \<lparr>meth = ''POST'', url = path, headers = [(''Content-Type'', ''application/json'')], body = JsonText v\<rparr>"

subsection \<open>\<^verbatim>\<open>api\<close>\<close>

text \<open>
  \<^verbatim>\<open>
  async function api(path, opts={}){
    const r = await fetch(path, opts);
    const j = await r.json().catch(()=> ({}));
    if(!r.ok) throw new Error(j.detail || `HTTP ${r.status}`);
    return j;
  }
  \<close>
\<close>

definition api :: "env \<Rightarrow> request \<Rightarrow> jsval js" where
  "api E rq = (\<lambda>w. case fetch E rq w of
       (Rejected e, w') \<Rightarrow> (Inl e, w')
     | (Response st b, w') \<Rightarrow>
         (let j = (case b of Unparseable _ \<Rightarrow> JObj [] | Parsed v \<Rightarrow> v) in
          if \<not> ok st then
            (case getProp j ''detail'' of
               Inl e \<Rightarrow> (Inl e, w')
             | Inr d \<Rightarrow> (Inl (throw_Error (or_else d (JStr (''HTTP '' @ digits st)))), w'))
          else (Inr j, w')))"

subsection \<open>Rendering helpers\<close>

definition bindE :: "exn + 'a \<Rightarrow> ('a \<Rightarrow> exn + 'b) \<Rightarrow> exn + 'b" where
  "bindE r f = (case r of Inl e \<Rightarrow> Inl e | Inr a \<Rightarrow> f a)"

fun mapE :: "('a \<Rightarrow> exn + 'b) \<Rightarrow> 'a list \<Rightarrow> exn + 'b list" where
  "mapE f [] = Inr []"
| "mapE f (x # xs) = bindE (f x) (\<lambda>y. bindE (mapE f xs) (\<lambda>ys. Inr (y # ys)))"

text \<open>
  \<^verbatim>\<open>rows.map(f).join("")\<close>: only an array has \<^verbatim>\<open>map\<close>; on any other value the call throws.
\<close>

definition map_join :: "(jsval \<Rightarrow> exn + string) \<Rightarrow> jsval \<Rightarrow> exn + string" where
  "map_join f rows = (case rows of
       JArr rs \<Rightarrow> bindE (mapE f rs) (\<lambda>ss. Inr (join [] ss))
     | _ \<Rightarrow> Inl (TypeError ''rows.map is not a function''))"

text \<open>
  \<^verbatim>\<open>new Date(x).toLocaleString()\<close>: the constructor first converts an object or an array to a
  primitive value, which throws when the conversion to string does; the text is the
  environment's.
\<close>

definition localeString :: "env \<Rightarrow> jsval \<Rightarrow> exn + string" where
  "localeString E x = (if converts x then Inr (localeDate E x) else Inl not_primitive)"

text \<open>
  \<^verbatim>\<open>encodeURIComponent\<close>: letters, digits and \<^verbatim>\<open>-_.!~*'()\<close> stay, every other code unit is
  written as the percent-escaped bytes of its UTF-8 encoding.
\<close>

definition hex2 :: "nat \<Rightarrow> string" where
  "hex2 n = [''0123456789ABCDEF'' ! (n div 16), ''0123456789ABCDEF'' ! (n mod 16)]"

definition unreserved :: "char \<Rightarrow> bool" where
  "unreserved c =
     (c \<in> set ''ABCDEFGHIJKLMNOPQRSTUVWXYZabcdefghijklmnopqrstuvwxyz0123456789-_.!~*()'' \<or> c = CHR 0x27)"

definition encodeURIComponent :: "string \<Rightarrow> string" where
  "encodeURIComponent s = concat (map (\<lambda>c.
       let n = (of_char c :: nat) in
       if unreserved c then [c]
       else if n < 128 then ''%'' @ hex2 n
       else ''%'' @ hex2 (192 + n div 64) @ ''%'' @ hex2 (128 + n mod 64)) s)"

subsection \<open>The markup of the four tabs\<close>

text \<open>The template literals of the script, character by character.\<close>

definition onboarding_shell :: string where
  \<open>onboarding_shell =
     ''<h4>Onboarding Submissions</h4>\<newline>''
     @ ''    <div class="d-flex gap-2 mb-3">\<newline>''
     @ ''      <select id="ob_status" class="form-select form-select-sm" style="max-width:220px" onchange="renderOnboarding()">\<newline>''
     @ ''        <option value="submitted">submitted</option>\<newline>''
     @ ''        <option value="needs_more">needs_more</option>\<newline>''
     @ ''        <option value="approved">approved</option>\<newline>''
     @ ''        <option value="rejected">rejected</option>\<newline>''
     @ ''        <option value="all">all</option>\<newline>''
     @ ''      </select>\<newline>''
     @ ''    </div>\<newline>''
     @ ''    <div id="ob_table"></div>\<newline>''
     @ ''    <div id="ob_detail" class="mt-3"></div>\<newline>''
     @ ''  ''\<close>

definition vault_shell :: string where
  \<open>vault_shell =
     ''\<newline>''
     @ ''    <h4>Vault</h4>\<newline>''
     @ ''    <div class="muted mb-3">Upload a sealed bundle (ZIP/JSONL) and Atlas stores + hashes it forever.</div>\<newline>''
     @ ''\<newline>''
     @ ''    <div class="row g-2 mb-3">\<newline>''
     @ ''      <div class="col-md-2"><input id="v_source" class="form-control form-control-sm" value="dossier"/></div>\<newline>''
     @ ''      <div class="col-md-2"><input id="v_org" class="form-control form-control-sm" placeholder="org_id"/></div>\<newline>''
     @ ''      <div class="col-md-2"><input id="v_tenant" class="form-control form-control-sm" placeholder="tenant_id"/></div>\<newline>''
     @ ''      <div class="col-md-2"><input id="v_schema" class="form-control form-control-sm" placeholder="schema_version"/></div>\<newline>''
     @ ''      <div class="col-md-4"><input id="v_manifest" class="form-control form-control-sm" placeholder='' @ [CHR 0x27] @ ''manifest_json (optional JSON)'' @ [CHR 0x27] @ ''/></div>\<newline>''
     @ ''    </div>\<newline>''
     @ ''\<newline>''
     @ ''    <div class="d-flex gap-2 align-items-center mb-3">\<newline>''
     @ ''      <input id="v_file" type="file" class="form-control form-control-sm"/>\<newline>''
     @ ''      <button class="btn btn-success btn-sm" onclick="vaultUpload()">Ingest</button>\<newline>''
     @ ''    </div>\<newline>''
     @ ''\<newline>''
     @ ''    <div id="v_msg"></div>\<newline>''
     @ ''    <div id="v_table" class="mt-3"></div>\<newline>''
     @ ''  ''\<close>

definition owners_shell :: string where
  \<open>owners_shell =
     ''\<newline>''
     @ ''    <h4>IP Owners</h4>\<newline>''
     @ ''    <div class="row g-2 mb-3">\<newline>''
     @ ''      <div class="col-md-4"><input id="o_name" class="form-control form-control-sm" placeholder="legal_name"/></div>\<newline>''
     @ ''      <div class="col-md-2"><input id="o_type" class="form-control form-control-sm" placeholder="entity_type"/></div>\<newline>''
     @ ''      <div class="col-md-2"><input id="o_jur" class="form-control form-control-sm" placeholder="jurisdiction"/></div>\<newline>''
     @ ''      <div class="col-md-4"><input id="o_email" class="form-control form-control-sm" placeholder="email"/></div>\<newline>''
     @ ''      <div class="col-md-8"><input id="o_addr" class="form-control form-control-sm" placeholder="address"/></div>\<newline>''
     @ ''      <div class="col-md-2"><input id="o_phone" class="form-control form-control-sm" placeholder="phone"/></div>\<newline>''
     @ ''      <div class="col-md-2"><button class="btn btn-success btn-sm w-100" onclick="createOwner()">Create</button></div>\<newline>''
     @ ''    </div>\<newline>''
     @ ''    <div id="o_msg"></div>\<newline>''
     @ ''    <div id="o_table" class="mt-3"></div>\<newline>''
     @ ''  ''\<close>

definition assets_shell :: string where
  \<open>assets_shell =
     ''\<newline>''
     @ ''    <h4>IP Assets</h4>\<newline>''
     @ ''    <div class="muted mb-2">Create assets here (you can link an Owner ID or leave null until verified).</div>\<newline>''
     @ ''    <div class="row g-2 mb-3">\<newline>''
     @ ''      <div class="col-md-3"><input id="a_owner" class="form-control form-control-sm" placeholder="owner_id (optional)"/></div>\<newline>''
     @ ''      <div class="col-md-4"><input id="a_title" class="form-control form-control-sm" placeholder="title"/></div>\<newline>''
     @ ''      <div class="col-md-2"><input id="a_type" class="form-control form-control-sm" placeholder="asset_type"/></div>\<newline>''
     @ ''      <div class="col-md-3"><input id="a_reg" class="form-control form-control-sm" placeholder="reg_no"/></div>\<newline>''
     @ ''      <div class="col-md-12"><textarea id="a_desc" class="form-control form-control-sm" rows="2" placeholder="description"></textarea></div>\<newline>''
     @ ''      <div class="col-md-2"><button class="btn btn-success btn-sm w-100" onclick="createAsset()">Create</button></div>\<newline>''
     @ ''    </div>\<newline>''
     @ ''    <div id="a_msg"></div>\<newline>''
     @ ''    <div id="a_table" class="mt-3"></div>\<newline>''
     @ ''  ''\<close>

definition onboarding_head :: string where
  \<open>onboarding_head =
     ''\<newline>''
     @ ''    <table class="table table-dark table-sm">\<newline>''
     @ ''      <thead><tr>\<newline>''
     @ ''        <th>Created</th><th>Status</th><th>Owner</th><th>Email</th><th>Assets</th><th></th>\<newline>''
     @ ''      </tr></thead>\<newline>''
     @ ''      <tbody>\<newline>''
     @ ''        ''\<close>

definition onboarding_foot :: string where
  \<open>onboarding_foot =
     ''\<newline>''
     @ ''      </tbody>\<newline>''
     @ ''    </table>''\<close>

definition vault_head :: string where
  \<open>vault_head =
     ''\<newline>''
     @ ''    <table class="table table-dark table-sm">\<newline>''
     @ ''      <thead><tr>\<newline>''
     @ ''        <th>Created</th><th>Source</th><th>Org</th><th>File</th><th>Bytes</th><th>SHA256</th><th></th>\<newline>''
     @ ''      </tr></thead>\<newline>''
     @ ''      <tbody>\<newline>''
     @ ''        ''\<close>

definition vault_foot :: string where
  \<open>vault_foot =
     ''\<newline>''
     @ ''      </tbody>\<newline>''
     @ ''    </table>''\<close>

definition owners_head :: string where
  \<open>owners_head =
     ''\<newline>''
     @ ''    <table class="table table-dark table-sm">\<newline>''
     @ ''      <thead><tr><th>Created</th><th>Name</th><th>Type</th><th>Jurisdiction</th><th>Email</th><th class="mono">ID</th></tr></thead>\<newline>''
     @ ''      <tbody>''\<close>

definition owners_foot :: string where
  \<open>owners_foot =
     ''</tbody>\<newline>''
     @ ''    </table>''\<close>

definition assets_head :: string where
  \<open>assets_head =
     ''\<newline>''
     @ ''    <table class="table table-dark table-sm">\<newline>''
     @ ''      <thead><tr><th>Created</th><th>Title</th><th>Type</th><th>Status</th><th>Reg No</th><th>Owner</th><th class="mono">ID</th></tr></thead>\<newline>''
     @ ''      <tbody>''\<close>

definition assets_foot :: string where
  \<open>assets_foot =
     ''</tbody>\<newline>''
     @ ''    </table>''\<close>


subsection \<open>Table rows\<close>

text \<open>One row of the onboarding table: the body of \<^verbatim>\<open>rows.map(r => ...)\<close> in \<^verbatim>\<open>renderOnboarding\<close>.\<close>

definition onboarding_row :: "env \<Rightarrow> jsval \<Rightarrow> exn + string" where
  \<open>onboarding_row E r =
     bindE (getProp r ''created_at'') (\<lambda>created_at.
     bindE (localeString E created_at) (\<lambda>created_at_text.
     bindE (getProp r ''status'') (\<lambda>status.
     bindE (ToString status) (\<lambda>status_text.
     bindE (getProp r ''owner_name'') (\<lambda>owner_name.
     bindE (ToString (or_else owner_name (JStr []))) (\<lambda>owner_name_text.
     bindE (getProp r ''owner_email'') (\<lambda>owner_email.
     bindE (ToString (or_else owner_email (JStr []))) (\<lambda>owner_email_text.
     bindE (getProp r ''ip_assets_count'') (\<lambda>ip_assets_count.
     bindE (ToString ip_assets_count) (\<lambda>ip_assets_count_text.
     bindE (getProp r ''id'') (\<lambda>rid.
     bindE (ToString rid) (\<lambda>rid_text.
     Inr (''\<newline>          <tr>\<newline>            <td>''
        @ created_at_text
        @ ''</td>\<newline>            <td>''
        @ status_text
        @ ''</td>\<newline>            <td>''
        @ owner_name_text
        @ ''</td>\<newline>            <td>''
        @ owner_email_text
        @ ''</td>\<newline>            <td>''
        @ ip_assets_count_text
        @ ''</td>\<newline>            <td><button class="btn btn-outline-light btn-sm" onclick="openOnboarding('' @ [CHR 0x27]
        @ rid_text
        @ [CHR 0x27] @ '')">Open</button></td>\<newline>          </tr>\<newline>        '')))))))))))))\<close>

text \<open>One row of the vault table: the body of \<^verbatim>\<open>rows.map(r => ...)\<close> in \<^verbatim>\<open>refreshVaultList\<close>.\<close>

definition vault_row :: "env \<Rightarrow> jsval \<Rightarrow> exn + string" where
  \<open>vault_row E r =
     bindE (getProp r ''created_at'') (\<lambda>created_at.
     bindE (localeString E created_at) (\<lambda>created_at_text.
     bindE (getProp r ''source_key'') (\<lambda>source_key.
     bindE (ToString source_key) (\<lambda>source_key_text.
     bindE (getProp r ''org_id'') (\<lambda>org_id.
     bindE (ToString (or_else org_id (JStr []))) (\<lambda>org_id_text.
     bindE (getProp r ''filename'') (\<lambda>filename.
     bindE (ToString filename) (\<lambda>filename_text.
     bindE (getProp r ''byte_size'') (\<lambda>byte_size.
     bindE (ToString byte_size) (\<lambda>byte_size_text.
     bindE (getProp r ''sha256'') (\<lambda>sha256.
     bindE (ToString sha256) (\<lambda>sha256_text.
     bindE (getProp r ''id'') (\<lambda>rid.
     bindE (ToString rid) (\<lambda>rid_text.
     Inr (''\<newline>          <tr>\<newline>            <td>''
        @ created_at_text
        @ ''</td>\<newline>            <td>''
        @ source_key_text
        @ ''</td>\<newline>            <td>''
        @ org_id_text
        @ ''</td>\<newline>            <td class="mono">''
        @ filename_text
        @ ''</td>\<newline>            <td class="mono">''
        @ byte_size_text
        @ ''</td>\<newline>            <td class="mono" style="max-width:240px;overflow:hidden;text-overflow:ellipsis;white-space:nowrap">''
        @ sha256_text
        @ ''</td>\<newline>            <td><a class="btn btn-outline-light btn-sm" href="/api/admin/vault/objects/''
        @ rid_text
        @ ''/download">Download</a></td>\<newline>          </tr>\<newline>        '')))))))))))))))\<close>

text \<open>One row of the owners table: the body of \<^verbatim>\<open>rows.map(r => ...)\<close> in \<^verbatim>\<open>refreshOwners\<close>.\<close>

definition owners_row :: "env \<Rightarrow> jsval \<Rightarrow> exn + string" where
  \<open>owners_row E r =
     bindE (getProp r ''created_at'') (\<lambda>created_at.
     bindE (localeString E created_at) (\<lambda>created_at_text.
     bindE (getProp r ''legal_name'') (\<lambda>legal_name.
     bindE (ToString legal_name) (\<lambda>legal_name_text.
     bindE (getProp r ''entity_type'') (\<lambda>entity_type.
     bindE (ToString (or_else entity_type (JStr []))) (\<lambda>entity_type_text.
     bindE (getProp r ''jurisdiction'') (\<lambda>jurisdiction.
     bindE (ToString (or_else jurisdiction (JStr []))) (\<lambda>jurisdiction_text.
     bindE (getProp r ''email'') (\<lambda>email.
     bindE (ToString (or_else email (JStr []))) (\<lambda>email_text.
     bindE (getProp r ''id'') (\<lambda>rid.
     bindE (ToString rid) (\<lambda>rid_text.
     Inr (''\<newline>        <tr>\<newline>          <td>''
        @ created_at_text
        @ ''</td>\<newline>          <td>''
        @ legal_name_text
        @ ''</td>\<newline>          <td>''
        @ entity_type_text
        @ ''</td>\<newline>          <td>''
        @ jurisdiction_text
        @ ''</td>\<newline>          <td>''
        @ email_text
        @ ''</td>\<newline>          <td class="mono">''
        @ rid_text
        @ ''</td>\<newline>        </tr>'')))))))))))))\<close>

text \<open>One row of the assets table: the body of \<^verbatim>\<open>rows.map(r => ...)\<close> in \<^verbatim>\<open>refreshAssets\<close>.\<close>

definition assets_row :: "env \<Rightarrow> jsval \<Rightarrow> exn + string" where
  \<open>assets_row E r =
     bindE (getProp r ''created_at'') (\<lambda>created_at.
     bindE (localeString E created_at) (\<lambda>created_at_text.
     bindE (getProp r ''title'') (\<lambda>title.
     bindE (ToString title) (\<lambda>title_text.
     bindE (getProp r ''asset_type'') (\<lambda>asset_type.
     bindE (ToString (or_else asset_type (JStr []))) (\<lambda>asset_type_text.
     bindE (getProp r ''status'') (\<lambda>status.
     bindE (ToString (or_else status (JStr []))) (\<lambda>status_text.
     bindE (getProp r ''reg_no'') (\<lambda>reg_no.
     bindE (ToString (or_else reg_no (JStr []))) (\<lambda>reg_no_text.
     bindE (getProp r ''owner_name'') (\<lambda>owner_name.
     bindE (ToString (or_else owner_name (JStr []))) (\<lambda>owner_name_text.
     bindE (getProp r ''id'') (\<lambda>rid.
     bindE (ToString rid) (\<lambda>rid_text.
     Inr (''\<newline>        <tr>\<newline>          <td>''
        @ created_at_text
        @ ''</td>\<newline>          <td>''
        @ title_text
        @ ''</td>\<newline>          <td>''
        @ asset_type_text
        @ ''</td>\<newline>          <td>''
        @ status_text
        @ ''</td>\<newline>          <td>''
        @ reg_no_text
        @ ''</td>\<newline>          <td>''
        @ owner_name_text
        @ ''</td>\<newline>          <td class="mono">''
        @ rid_text
        @ ''</td>\<newline>        </tr>'')))))))))))))))\<close>


subsection \<open>Onboarding\<close>

text \<open>
  \<^verbatim>\<open>renderOnboarding\<close> rebuilds the whole tab, so the select it reads the filter from is the
  one it has just created, whose value is its first option.
\<close>

definition renderOnboarding :: "env \<Rightarrow> unit js" where
  "renderOnboarding E =
     andThen (setInner ''tab_onboarding'' onboarding_shell
                [(''ob_status'', input ''submitted''), (''ob_table'', blank), (''ob_detail'', blank)]) (\<lambda>_.
     andThen (valueOf ''ob_status'') (\<lambda>status.
     andThen (api E (GET (''/api/admin/onboarding?status='' @ encodeURIComponent status @ ''&limit=50''))) (\<lambda>data.
     andThen (lift (getProp data ''items'')) (\<lambda>items.
     andThen (lift (map_join (onboarding_row E) (or_else items (JArr [])))) (\<lambda>trs.
     setInner ''ob_table'' (onboarding_head @ trs @ onboarding_foot) [])))))"

text \<open>
  The detail markup. \<open>status_options\<close> is the \<^verbatim>\<open>map\<close> over the four statuses,
  \<open>selected_status\<close> the value the resulting select has (the option marked
  \<^verbatim>\<open>selected\<close>, else the first), \<open>replaceAll_quot\<close> is \<^verbatim>\<open>.replaceAll('"','&quot;')\<close>, which
  only a string has. The value of the notes input is what the HTML parser reads from the
  attribute, \<open>attrText\<close>.
\<close>

definition status_options :: "jsval \<Rightarrow> string" where
  \<open>status_options status =
     join [] (map (\<lambda>x. ''<option '' @ (if JStr x = status then ''selected'' else []) @ ''>'' @ x @ ''</option>'')
                  [''submitted'', ''needs_more'', ''approved'', ''rejected''])\<close>

definition selected_status :: "jsval \<Rightarrow> string" where
  "selected_status status =
     (case status of
        JStr x \<Rightarrow> if x \<in> set [''submitted'', ''needs_more'', ''approved'', ''rejected''] then x else ''submitted''
      | _ \<Rightarrow> ''submitted'')"

definition replaceAll_quot :: "string \<Rightarrow> string" where
  \<open>replaceAll_quot s = concat (map (\<lambda>c. if c = CHR 0x22 then ''&quot;'' else [c]) s)\<close>

definition notes_quoted :: "jsval \<Rightarrow> exn + string" where
  \<open>notes_quoted notes =
     (case or_else notes (JStr []) of
        JStr t \<Rightarrow> Inr (replaceAll_quot t)
      | _ \<Rightarrow> Inl (TypeError ''(s.notes || "").replaceAll is not a function''))\<close>

definition detail_html :: "env \<Rightarrow> string \<Rightarrow> jsval \<Rightarrow> exn + string \<times> (string \<times> element) list" where
  \<open>detail_html E sub_id s =
     bindE (getProp s ''id'') (\<lambda>sid.
     bindE (ToString sid) (\<lambda>sid_text.
     bindE (getProp s ''status'') (\<lambda>status.
     bindE (ToString status) (\<lambda>status_text.
     bindE (getProp s ''notes'') (\<lambda>notes.
     bindE (notes_quoted notes) (\<lambda>quoted.
     Inr (''\<newline>    <hr/>\<newline>    <h5>Submission</h5>\<newline>    <div class="mono">ID: ''
        @ sid_text
        @ ''</div>\<newline>    <div class="mono">Status: ''
        @ status_text
        @ ''</div>\<newline>\<newline>    <div class="mt-2 d-flex gap-2">\<newline>      <select id="set_status" class="form-select form-select-sm" style="max-width:220px">\<newline>        ''
        @ status_options status
        @ ''\<newline>      </select>\<newline>      <input id="set_notes" class="form-control form-control-sm" placeholder="notes (optional)" value="''
        @ quoted
        @ ''"/>\<newline>      <button class="btn btn-success btn-sm" onclick="setOnboardingStatus('' @ [CHR 0x27]
        @ sub_id
        @ [CHR 0x27] @ '')">Update</button>\<newline>      <button class="btn btn-warning btn-sm" onclick="approveOnboarding('' @ [CHR 0x27]
        @ sub_id
        @ [CHR 0x27] @ '')">Approve + Create Login</button>\<newline>    </div>\<newline>\<newline>    <pre class="mono p-3 mt-3" style="background:#0d1522;border:1px solid #2a3a52;border-radius:8px;max-height:380px;overflow:auto">''
        @ prettyJSON E s
        @ ''</pre>\<newline>  '',
          [(''set_status'', input (selected_status status)), (''set_notes'', input (attrText E quoted))])))))))\<close>

text \<open>The source has U+2026 where \<open>loading\<close> has three dots: it is not a \<^typ>\<open>char\<close>.\<close>

definition loading :: string where
  \<open>loading = ''<div class="text-secondary">Loading...</div>''\<close>

definition openOnboarding :: "env \<Rightarrow> string \<Rightarrow> unit js" where
  "openOnboarding E sub_id =
     andThen (setInner ''ob_detail'' loading []) (\<lambda>_.
     andThen (api E (GET (''/api/admin/onboarding/'' @ sub_id))) (\<lambda>data.
     andThen (lift (getProp data ''submission'')) (\<lambda>s.
     andThen (lift (detail_html E sub_id s)) (\<lambda>(html, kids).
     setInner ''ob_detail'' html kids))))"

definition confirm :: "env \<Rightarrow> string \<Rightarrow> bool js" where
  "confirm E q = (\<lambda>w. (Inr (answer E q), w\<lparr>log := log w @ [Confirmed q (answer E q)]\<rparr>))"

definition alert :: "string \<Rightarrow> unit js" where
  "alert m = (\<lambda>w. (Inr (), w\<lparr>log := log w @ [Alerted m]\<rparr>))"

definition credentials :: "string \<Rightarrow> string \<Rightarrow> string" where
  \<open>credentials user_email temp_password =
     ''OWNER LOGIN CREATED\<newline>\<newline>Email: '' @ user_email
     @ ''\<newline>Temp Password: '' @ temp_password
     @ ''\<newline>\<newline>(You should copy this now.)''\<close>

definition approveOnboarding :: "env \<Rightarrow> string \<Rightarrow> unit js" where
  "approveOnboarding E sub_id =
     andThen (confirm E ''Approve this onboarding and create Owner + Assets + Owner login?'') (\<lambda>yes.
     if \<not> yes then ret ()
     else
       andThen (api E (POST (''/api/admin/onboarding/'' @ sub_id @ ''/approve''))) (\<lambda>j.
       andThen (lift (getProp j ''user_email'')) (\<lambda>user_email.
       andThen (lift (ToString user_email)) (\<lambda>email_text.
       andThen (lift (getProp j ''temp_password'')) (\<lambda>temp_password.
       andThen (lift (ToString temp_password)) (\<lambda>password_text.
       andThen (alert (credentials email_text password_text)) (\<lambda>_.
       andThen (renderOnboarding E) (\<lambda>_.
       openOnboarding E sub_id))))))))"

definition setOnboardingStatus :: "env \<Rightarrow> string \<Rightarrow> unit js" where
  "setOnboardingStatus E sub_id =
     andThen (valueOf ''set_status'') (\<lambda>status.
     andThen (valueOf ''set_notes'') (\<lambda>notes.
     andThen (api E (POST_json (''/api/admin/onboarding/'' @ sub_id @ ''/status'')
                        (JObj [(''status'', JStr status), (''notes'', JStr notes)]))) (\<lambda>_.
     andThen (renderOnboarding E) (\<lambda>_.
     openOnboarding E sub_id))))"

subsection \<open>Vault\<close>

definition refreshVaultList :: "env \<Rightarrow> unit js" where
  "refreshVaultList E =
     andThen (api E (GET ''/api/admin/vault/objects?source_key=all&limit=50'')) (\<lambda>data.
     andThen (lift (getProp data ''items'')) (\<lambda>items.
     andThen (lift (map_join (vault_row E) (or_else items (JArr [])))) (\<lambda>trs.
     setInner ''v_table'' (vault_head @ trs @ vault_foot) [])))"

definition renderVault :: "env \<Rightarrow> unit js" where
  "renderVault E =
     andThen (setInner ''tab_vault'' vault_shell
                [(''v_source'', input ''dossier''), (''v_org'', blank), (''v_tenant'', blank),
                 (''v_schema'', blank), (''v_manifest'', blank), (''v_file'', blank),
                 (''v_msg'', blank), (''v_table'', blank)]) (\<lambda>_.
     refreshVaultList E)"

definition danger :: "string \<Rightarrow> string" where
  \<open>danger m = ''<div class="alert alert-danger">'' @ m @ ''</div>''\<close>

definition ingested :: "string \<Rightarrow> string \<Rightarrow> string" where
  \<open>ingested object_id sha256 =
     ''<div class="alert alert-success">Ingested. Object ID: <span class="mono">'' @ object_id
     @ ''</span><br/>SHA256: <span class="mono">'' @ sha256 @ ''</span></div>''\<close>

text \<open>
  \<^verbatim>\<open>vaultUpload\<close> calls \<^verbatim>\<open>fetch\<close> itself: \<^verbatim>\<open>r.json()\<close> is not guarded, and the fallback
  message is its own. \<open>ingest\<close> is the part of its \<^verbatim>\<open>try\<close> block up to the \<^verbatim>\<open>throw\<close>. The source
  keeps the message element in a variable; the model looks it up by id each time, which gives
  the same element, since nothing removes it in between.
\<close>

definition ingest :: "env \<Rightarrow> request \<Rightarrow> jsval js" where
  "ingest E rq = (\<lambda>w. case fetch E rq w of
       (Rejected e, w') \<Rightarrow> (Inl e, w')
     | (Response st b, w') \<Rightarrow>
         (case b of
            Unparseable e \<Rightarrow> (Inl e, w')
          | Parsed j \<Rightarrow>
              if \<not> ok st then
                (case getProp j ''detail'' of
                   Inl e \<Rightarrow> (Inl e, w')
                 | Inr d \<Rightarrow> (Inl (throw_Error (or_else d (JStr ''ingest failed''))), w'))
              else (Inr j, w')))"

definition vaultUpload :: "env \<Rightarrow> unit js" where
  "vaultUpload E =
     andThen (setInner ''v_msg'' [] []) (\<lambda>_.
     andThen (valueOf ''v_source'') (\<lambda>source.
     andThen (valueOf ''v_org'') (\<lambda>org.
     andThen (valueOf ''v_tenant'') (\<lambda>tenant.
     andThen (valueOf ''v_schema'') (\<lambda>schema.
     andThen (valueOf ''v_manifest'') (\<lambda>manifest.
     andThen (firstFile ''v_file'') (\<lambda>f.
     case f of
       None \<Rightarrow> setInner ''v_msg'' (danger ''Choose a file.'') []
     | Some bundle \<Rightarrow>
         tryCatch
           (andThen (ingest E \<lparr>meth = ''POST'', url = ''/api/vault/ingest'', headers = [],
                               body = FormData
                                 [(''source_key'', Text (trim source)), (''org_id'', Text (trim org)),
                                  (''tenant_id'', Text (trim tenant)), (''schema_version'', Text (trim schema)),
                                  (''manifest_json'', Text (trim manifest)), (''bundle'', Blob bundle)]\<rparr>) (\<lambda>j.
            andThen (lift (getProp j ''object_id'')) (\<lambda>object_id.
            andThen (lift (ToString object_id)) (\<lambda>object_id_text.
            andThen (lift (getProp j ''sha256'')) (\<lambda>sha256.
            andThen (lift (ToString sha256)) (\<lambda>sha256_text.
            andThen (setInner ''v_msg'' (ingested object_id_text sha256_text) []) (\<lambda>_.
            refreshVaultList E)))))))
           (\<lambda>e. setInner ''v_msg'' (danger (String_exn e)) []))))))))"

subsection \<open>Owners\<close>

definition refreshOwners :: "env \<Rightarrow> unit js" where
  "refreshOwners E =
     andThen (api E (GET ''/api/admin/owners?limit=50'')) (\<lambda>data.
     andThen (lift (getProp data ''items'')) (\<lambda>items.
     andThen (lift (map_join (owners_row E) (or_else items (JArr [])))) (\<lambda>trs.
     setInner ''o_table'' (owners_head @ trs @ owners_foot) [])))"

definition renderOwners :: "env \<Rightarrow> unit js" where
  "renderOwners E =
     andThen (setInner ''tab_owners'' owners_shell
                [(''o_name'', blank), (''o_type'', blank), (''o_jur'', blank), (''o_email'', blank),
                 (''o_addr'', blank), (''o_phone'', blank), (''o_msg'', blank), (''o_table'', blank)]) (\<lambda>_.
     refreshOwners E)"

definition success :: "string \<Rightarrow> string" where
  \<open>success m = ''<div class="alert alert-success">'' @ m @ ''</div>''\<close>

definition createOwner :: "env \<Rightarrow> unit js" where
  "createOwner E =
     andThen (valueOf ''o_name'') (\<lambda>legal_name.
     andThen (valueOf ''o_type'') (\<lambda>entity_type.
     andThen (valueOf ''o_jur'') (\<lambda>jurisdiction.
     andThen (valueOf ''o_email'') (\<lambda>email.
     andThen (valueOf ''o_addr'') (\<lambda>address.
     andThen (valueOf ''o_phone'') (\<lambda>phone.
     tryCatch
       (andThen (api E (POST_json ''/api/admin/owners''
                          (JObj [(''legal_name'', JStr (trim legal_name)), (''entity_type'', JStr (trim entity_type)),
                                 (''jurisdiction'', JStr (trim jurisdiction)), (''email'', JStr (trim email)),
                                 (''address'', JStr (trim address)), (''phone'', JStr (trim phone))]))) (\<lambda>j.
        andThen (lift (getProp j ''id'')) (\<lambda>oid.
        andThen (lift (ToString oid)) (\<lambda>oid_text.
        andThen (setInner ''o_msg'' (success (''Created owner '' @ oid_text)) []) (\<lambda>_.
        refreshOwners E)))))
       (\<lambda>e. setInner ''o_msg'' (danger (String_exn e)) [])))))))"

subsection \<open>Assets\<close>

definition refreshAssets :: "env \<Rightarrow> unit js" where
  "refreshAssets E =
     andThen (api E (GET ''/api/admin/assets?limit=50'')) (\<lambda>data.
     andThen (lift (getProp data ''items'')) (\<lambda>items.
     andThen (lift (map_join (assets_row E) (or_else items (JArr [])))) (\<lambda>trs.
     setInner ''a_table'' (assets_head @ trs @ assets_foot) [])))"

definition renderAssets :: "env \<Rightarrow> unit js" where
  "renderAssets E =
     andThen (setInner ''tab_assets'' assets_shell
                [(''a_owner'', blank), (''a_title'', blank), (''a_type'', blank), (''a_reg'', blank),
                 (''a_desc'', blank), (''a_msg'', blank), (''a_table'', blank)]) (\<lambda>_.
     refreshAssets E)"

text \<open>\<^verbatim>\<open>owner_id: document.getElementById("a_owner").value.trim() || null\<close>\<close>

definition createAsset :: "env \<Rightarrow> unit js" where
  "createAsset E =
     andThen (valueOf ''a_owner'') (\<lambda>owner.
     andThen (valueOf ''a_title'') (\<lambda>title.
     andThen (valueOf ''a_type'') (\<lambda>asset_type.
     andThen (valueOf ''a_reg'') (\<lambda>reg_no.
     andThen (valueOf ''a_desc'') (\<lambda>description.
     tryCatch
       (andThen (api E (POST_json ''/api/admin/assets''
                          (JObj [(''owner_id'', or_else (JStr (trim owner)) JNull), (''title'', JStr (trim title)),
                                 (''asset_type'', JStr (trim asset_type)), (''reg_no'', JStr (trim reg_no)),
                                 (''description'', JStr (trim description))]))) (\<lambda>j.
        andThen (lift (getProp j ''id'')) (\<lambda>aid.
        andThen (lift (ToString aid)) (\<lambda>aid_text.
        andThen (setInner ''a_msg'' (success (''Created asset '' @ aid_text)) []) (\<lambda>_.
        refreshAssets E)))))
       (\<lambda>e. setInner ''a_msg'' (danger (String_exn e)) []))))))"

subsection \<open>Tabs, session check, logout\<close>

fun forEach :: "('a \<Rightarrow> unit js) \<Rightarrow> 'a list \<Rightarrow> unit js" where
  "forEach f [] = ret ()"
| "forEach f (x # xs) = andThen (f x) (\<lambda>_. forEach f xs)"

text \<open>
  The render routines are called without \<^verbatim>\<open>await\<close>: \<^verbatim>\<open>showTab\<close> itself throws only when
  a tab container is missing from the page.
\<close>

definition showTab :: "env \<Rightarrow> string \<Rightarrow> unit js" where
  "showTab E name =
     andThen (forEach (\<lambda>t. setDisplay (''tab_'' @ t) (if t = name then ''block'' else ''none''))
                [''onboarding'', ''vault'', ''owners'', ''assets'']) (\<lambda>_.
     andThen (if name = ''onboarding'' then detached (renderOnboarding E) else ret ()) (\<lambda>_.
     andThen (if name = ''vault'' then detached (renderVault E) else ret ()) (\<lambda>_.
     andThen (if name = ''owners'' then detached (renderOwners E) else ret ()) (\<lambda>_.
     if name = ''assets'' then detached (renderAssets E) else ret ()))))"

definition login_page :: string where
  "login_page = ''/static/atlas-login.html''"

definition navigate :: "string \<Rightarrow> unit js" where
  "navigate target = (\<lambda>w. (Inr (), w\<lparr>href := target\<rparr>))"

definition logout :: "env \<Rightarrow> unit js" where
  "logout E =
     andThen (api E (POST ''/api/auth/logout'')) (\<lambda>_. navigate login_page)"

text \<open>
  \<^verbatim>\<open>init\<close>: the \<^verbatim>\<open>try\<close> block yields whether the function goes on (\<open>True\<close>) or has returned
  after the redirect (\<open>False\<close>).
\<close>

definition init :: "env \<Rightarrow> unit js" where
  "init E =
     andThen
       (tryCatch
          (andThen (api E (GET ''/api/auth/me'')) (\<lambda>me.
           andThen (lift (getProp me ''email'')) (\<lambda>email.
           if \<not> truthy email then andThen (navigate login_page) (\<lambda>_. ret False)
           else ret True)))
          (\<lambda>e. andThen (navigate login_page) (\<lambda>_. ret False)))
       (\<lambda>go. if go then showTab E ''onboarding'' else ret ())"

subsection \<open>Pages, forms and servers used to state and exercise the properties\<close>

text \<open>The value of the field \<open>i\<close> of a form (the empty string when there is no such element).\<close>

definition field :: "world \<Rightarrow> string \<Rightarrow> string" where
  "field w i = (case dom w i of None \<Rightarrow> [] | Some e \<Rightarrow> val e)"

text \<open>What an element shows: the markup last assigned to it.\<close>

definition shown :: "world \<Rightarrow> string \<Rightarrow> string option" where
  "shown w i = map_option innerHTML (dom w i)"

definition present :: "world \<Rightarrow> string list \<Rightarrow> bool" where
  "present w ids = list_all (\<lambda>i. dom w i \<noteq> None) ids"

text \<open>The page has the four tab containers.\<close>

definition tabs_present :: "world \<Rightarrow> bool" where
  "tabs_present w = present w [''tab_onboarding'', ''tab_vault'', ''tab_owners'', ''tab_assets'']"

text \<open>The forms, as \<^verbatim>\<open>renderVault\<close>, \<^verbatim>\<open>renderOwners\<close> and \<^verbatim>\<open>renderAssets\<close> leave them.\<close>

definition vault_form :: "world \<Rightarrow> bool" where
  "vault_form w =
     present w [''v_msg'', ''v_source'', ''v_org'', ''v_tenant'', ''v_schema'', ''v_manifest'', ''v_file'']"

definition owners_form :: "world \<Rightarrow> bool" where
  "owners_form w =
     present w [''o_name'', ''o_type'', ''o_jur'', ''o_email'', ''o_addr'', ''o_phone'', ''o_msg'']"

definition assets_form :: "world \<Rightarrow> bool" where
  "assets_form w = present w [''a_owner'', ''a_title'', ''a_type'', ''a_reg'', ''a_desc'', ''a_msg'']"

text \<open>The files chosen in the vault form's file input.\<close>

definition chosen :: "world \<Rightarrow> jsfile list" where
  "chosen w = (case dom w ''v_file'' of None \<Rightarrow> [] | Some e \<Rightarrow> files e)"

text \<open>
  A server that answers the requests of a run in turn with the listed outcomes, and is
  unreachable afterwards.
\<close>

definition serve :: "outcome list \<Rightarrow> request list \<Rightarrow> request \<Rightarrow> outcome" where
  "serve outs prior rq =
     (if length prior < length outs then outs ! length prior
      else Rejected (TypeError ''Failed to fetch''))"

definition browser :: "outcome list \<Rightarrow> bool \<Rightarrow> env" where
  "browser outs yes =
     \<lparr>net = serve outs, answer = (\<lambda>_. yes), localeDate = toStr, prettyJSON = toStr, attrText = (\<lambda>s. s)\<rparr>"

text \<open>The page as loaded: the four empty tab containers.\<close>

definition page :: world where
  "page =
     \<lparr>dom = [''tab_onboarding'' \<mapsto> blank, ''tab_vault'' \<mapsto> blank,
             ''tab_owners'' \<mapsto> blank, ''tab_assets'' \<mapsto> blank],
      href = ''/static/atlas-admin.html'', log = [], unhandled = []\<rparr>"

text \<open>The vault tab after \<^verbatim>\<open>renderVault\<close>, with a file chosen or not.\<close>

definition vault_page :: "jsfile list \<Rightarrow> world" where
  "vault_page fs =
     page\<lparr>dom := (dom page)
            (''v_source'' \<mapsto> input ''dossier'', ''v_org'' \<mapsto> input '' acme '', ''v_tenant'' \<mapsto> blank,
             ''v_schema'' \<mapsto> blank, ''v_manifest'' \<mapsto> blank, ''v_file'' \<mapsto> blank\<lparr>files := fs\<rparr>,
             ''v_msg'' \<mapsto> blank, ''v_table'' \<mapsto> blank)\<rparr>"

definition bundle_zip :: jsfile where
  "bundle_zip = FileObj ''bundle.zip'' [80, 75, 3, 4]"

text \<open>
  \<open>keeps R m\<close>: running \<open>m\<close> takes every state to one that is \<open>R\<close>-related to it, whether
  \<open>m\<close> returns or throws.
\<close>

definition keeps :: "(world \<Rightarrow> world \<Rightarrow> bool) \<Rightarrow> 'a js \<Rightarrow> bool" where
  "keeps R m = (\<forall>w. R w (snd (m w)))"

text \<open>The relations used: the same address, an element left as it is, an element staying in the
  document.\<close>

definition same_href :: "world \<Rightarrow> world \<Rightarrow> bool" where
  "same_href w w' = (href w' = href w)"

definition same_at :: "string \<Rightarrow> world \<Rightarrow> world \<Rightarrow> bool" where
  "same_at i w w' = (dom w' i = dom w i)"

definition stays :: "string \<Rightarrow> world \<Rightarrow> world \<Rightarrow> bool" where
  "stays i w w' = (dom w i \<noteq> None \<longrightarrow> dom w' i \<noteq> None)"

text \<open>
  The common shape of the four list views: fetch, take \<^verbatim>\<open>data.items || []\<close>, render the rows,
  put the table into its container.
\<close>

definition list_view ::
  "env \<Rightarrow> string \<Rightarrow> (jsval \<Rightarrow> exn + string) \<Rightarrow> string \<Rightarrow> string \<Rightarrow> string \<Rightarrow> unit js" where
  "list_view E path row table_id thead tfoot =
     andThen (api E (GET path)) (\<lambda>data.
     andThen (lift (getProp data ''items'')) (\<lambda>items.
     andThen (lift (map_join row (or_else items (JArr [])))) (\<lambda>trs.
     setInner table_id (thead @ trs @ tfoot) [])))"

text \<open>The list request of each tab.\<close>

definition onboarding_list :: string where
  "onboarding_list = ''/api/admin/onboarding?status=submitted&limit=50''"

definition vault_list :: string where
  "vault_list = ''/api/admin/vault/objects?source_key=all&limit=50''"

definition owners_list :: string where
  "owners_list = ''/api/admin/owners?limit=50''"

definition assets_list :: string where
  "assets_list = ''/api/admin/assets?limit=50''"

text \<open>The state after the request \<open>rq\<close> has been sent.\<close>

definition sent :: "request \<Rightarrow> world \<Rightarrow> world" where
  "sent rq w = w\<lparr>log := log w @ [Fetched rq]\<rparr>"

definition log_grows :: "world \<Rightarrow> world \<Rightarrow> bool" where
  "log_grows w w' = prefix (log w) (log w')"

text \<open>
  The common shape of the two create forms: post, show the created id, refresh the list;
  show whatever is thrown on the way.
\<close>

definition submit :: "env \<Rightarrow> request \<Rightarrow> string \<Rightarrow> string \<Rightarrow> unit js \<Rightarrow> unit js" where
  "submit E rq msg_id created refresh =
     tryCatch
       (andThen (api E rq) (\<lambda>j.
        andThen (lift (getProp j ''id'')) (\<lambda>new_id.
        andThen (lift (ToString new_id)) (\<lambda>id_text.
        andThen (setInner msg_id (success (created @ id_text)) []) (\<lambda>_.
        refresh)))))
       (\<lambda>e. setInner msg_id (danger (String_exn e)) [])"

text \<open>The requests that the two create forms and the ingest form send, from what the form holds.\<close>

definition owner_request :: "world \<Rightarrow> request" where
  "owner_request w =
     POST_json ''/api/admin/owners''
       (JObj [(''legal_name'', JStr (trim (field w ''o_name''))),
              (''entity_type'', JStr (trim (field w ''o_type''))),
              (''jurisdiction'', JStr (trim (field w ''o_jur''))),
              (''email'', JStr (trim (field w ''o_email''))),
              (''address'', JStr (trim (field w ''o_addr''))),
              (''phone'', JStr (trim (field w ''o_phone'')))])"

definition asset_request :: "world \<Rightarrow> request" where
  "asset_request w =
     POST_json ''/api/admin/assets''
       (JObj [(''owner_id'', if trim (field w ''a_owner'') = [] then JNull else JStr (trim (field w ''a_owner''))),
              (''title'', JStr (trim (field w ''a_title''))),
              (''asset_type'', JStr (trim (field w ''a_type''))),
              (''reg_no'', JStr (trim (field w ''a_reg''))),
              (''description'', JStr (trim (field w ''a_desc'')))])"

definition ingest_request :: "world \<Rightarrow> jsfile \<Rightarrow> request" where
  "ingest_request w f =
     \<lparr>meth = ''POST'', url = ''/api/vault/ingest'', headers = [],
      body = FormData
        [(''source_key'', Text (trim (field w ''v_source''))), (''org_id'', Text (trim (field w ''v_org''))),
         (''tenant_id'', Text (trim (field w ''v_tenant''))), (''schema_version'', Text (trim (field w ''v_schema''))),
         (''manifest_json'', Text (trim (field w ''v_manifest''))), (''bundle'', Blob f)]\<rparr>"

text \<open>The assets tab after \<^verbatim>\<open>renderAssets\<close>, with the form filled in.\<close>

definition assets_page :: "string \<Rightarrow> string \<Rightarrow> world" where
  "assets_page owner title =
     page\<lparr>dom := (dom page)
            (''a_owner'' \<mapsto> input owner, ''a_title'' \<mapsto> input title, ''a_type'' \<mapsto> input ''patent'',
             ''a_reg'' \<mapsto> blank, ''a_desc'' \<mapsto> blank, ''a_msg'' \<mapsto> blank, ''a_table'' \<mapsto> blank)\<rparr>"

text \<open>The tabs by name: container, render routine, markup, list request.\<close>

definition tab_names :: "string list" where
  "tab_names = [''onboarding'', ''vault'', ''owners'', ''assets'']"

definition tab_render :: "env \<Rightarrow> string \<Rightarrow> unit js" where
  "tab_render E name =
     (if name = ''onboarding'' then renderOnboarding E
      else if name = ''vault'' then renderVault E
      else if name = ''owners'' then renderOwners E
      else renderAssets E)"

definition tab_shell :: "string \<Rightarrow> string" where
  "tab_shell name =
     (if name = ''onboarding'' then onboarding_shell
      else if name = ''vault'' then vault_shell
      else if name = ''owners'' then owners_shell
      else assets_shell)"

definition tab_list :: "string \<Rightarrow> string" where
  "tab_list name =
     (if name = ''onboarding'' then onboarding_list
      else if name = ''vault'' then vault_list
      else if name = ''owners'' then owners_list
      else assets_list)"

text \<open>The page with the tab \<open>name\<close> made visible and the other three hidden.\<close>

definition switched :: "string \<Rightarrow> world \<Rightarrow> world" where
  "switched name w =
     w\<lparr>dom := (\<lambda>k. if k \<in> set (map (\<lambda>t. ''tab_'' @ t) tab_names)
                     then map_option (\<lambda>e. e\<lparr>display := if k = ''tab_'' @ name then ''block'' else ''none''\<rparr>) (dom w k)
                     else dom w k)\<rparr>"

text \<open>What the identity endpoint's body gives for \<^verbatim>\<open>me.email\<close> (\<^verbatim>\<open>undefined\<close> when there is none).\<close>

definition email_of :: "body_json \<Rightarrow> jsval" where
  "email_of b =
     (case b of
        Unparseable _ \<Rightarrow> JUndef
      | Parsed j \<Rightarrow> (case getProp j ''email'' of Inl _ \<Rightarrow> JUndef | Inr v \<Rightarrow> v))"

definition me_request :: request where
  "me_request = GET ''/api/auth/me''"

text \<open>The owners tab after \<^verbatim>\<open>renderOwners\<close>, and the onboarding tab with a submission opened.\<close>

definition owners_page :: world where
  "owners_page =
     page\<lparr>dom := (dom page)
            (''o_name'' \<mapsto> input '' Acme Ltd '', ''o_type'' \<mapsto> input ''company'', ''o_jur'' \<mapsto> blank,
             ''o_email'' \<mapsto> blank, ''o_addr'' \<mapsto> blank, ''o_phone'' \<mapsto> blank,
             ''o_msg'' \<mapsto> blank, ''o_table'' \<mapsto> blank)\<rparr>"

definition detail_page :: world where
  "detail_page =
     page\<lparr>dom := (dom page)
            (''ob_status'' \<mapsto> input ''submitted'', ''ob_table'' \<mapsto> blank, ''ob_detail'' \<mapsto> blank,
             ''set_status'' \<mapsto> input ''approved'', ''set_notes'' \<mapsto> input ''ok'')\<rparr>"

text \<open>The requests of the onboarding detail view, and the question \<^verbatim>\<open>approveOnboarding\<close> asks.\<close>

definition detail_request :: "string \<Rightarrow> request" where
  "detail_request sub_id = GET (''/api/admin/onboarding/'' @ sub_id)"

definition approve_request :: "string \<Rightarrow> request" where
  "approve_request sub_id = POST (''/api/admin/onboarding/'' @ sub_id @ ''/approve'')"

definition status_request :: "world \<Rightarrow> string \<Rightarrow> request" where
  "status_request w sub_id =
     POST_json (''/api/admin/onboarding/'' @ sub_id @ ''/status'')
       (JObj [(''status'', JStr (field w ''set_status'')), (''notes'', JStr (field w ''set_notes''))])"

definition approve_question :: string where
  "approve_question = ''Approve this onboarding and create Owner + Assets + Owner login?''"

text \<open>The state after the operator has answered a \<^verbatim>\<open>confirm\<close>.\<close>

definition asked :: "string \<Rightarrow> bool \<Rightarrow> world \<Rightarrow> world" where
  "asked q a w = w\<lparr>log := log w @ [Confirmed q a]\<rparr>"

definition alerted :: "string \<Rightarrow> world \<Rightarrow> world" where
  "alerted m w = w\<lparr>log := log w @ [Alerted m]\<rparr>"

text \<open>
  \<open>answers E w rq j\<close>: sent after the requests of \<open>w\<close>, the request \<open>rq\<close> gets a 2xx response
  whose body is the JSON value \<open>j\<close>. \<open>listed E w path row trs\<close>: the list request gets a 2xx
  response whose \<^verbatim>\<open>items\<close> is an array of records that \<open>row\<close> renders as \<open>trs\<close>.
\<close>

definition answers :: "env \<Rightarrow> world \<Rightarrow> request \<Rightarrow> jsval \<Rightarrow> bool" where
  "answers E w rq j =
     (case net E (reqs w) rq of
        Rejected _ \<Rightarrow> False
      | Response st b \<Rightarrow> (case b of Unparseable _ \<Rightarrow> False | Parsed v \<Rightarrow> ok st \<and> v = j))"

definition items_of :: "jsval \<Rightarrow> jsval list option" where
  "items_of data =
     (case data of
        JObj kvs \<Rightarrow> (case map_of kvs ''items'' of Some (JArr rs) \<Rightarrow> Some rs | _ \<Rightarrow> None)
      | _ \<Rightarrow> None)"

definition listed :: "env \<Rightarrow> world \<Rightarrow> string \<Rightarrow> (jsval \<Rightarrow> exn + string) \<Rightarrow> string list \<Rightarrow> bool" where
  "listed E w path row trs =
     (case net E (reqs w) (GET path) of
        Rejected _ \<Rightarrow> False
      | Response st b \<Rightarrow>
          (case b of
             Unparseable _ \<Rightarrow> False
           | Parsed data \<Rightarrow> ok st \<and> (case items_of data of None \<Rightarrow> False | Some rs \<Rightarrow> mapE row rs = Inr trs)))"

text \<open>Replies of a server on which every request of a run succeeds.\<close>

definition approved_reply :: outcome where
  "approved_reply =
     Response 200 (Parsed (JObj [(''user_email'', JStr ''owner@example.org''), (''temp_password'', JStr ''t3mp-pw'')]))"

definition empty_list_reply :: outcome where
  "empty_list_reply = Response 200 (Parsed (JObj [(''items'', JArr [])]))"

definition submission_7 :: jsval where
  "submission_7 = JObj [(''id'', JStr ''7''), (''status'', JStr ''approved'')]"

definition submission_reply :: outcome where
  "submission_reply = Response 200 (Parsed (JObj [(''submission'', submission_7)]))"

definition created_reply :: outcome where
  "created_reply = Response 201 (Parsed (JObj [(''id'', JStr ''new-1'')]))"

definition ingested_reply :: outcome where
  "ingested_reply = Response 200 (Parsed (JObj [(''object_id'', JStr ''obj-1''), (''sha256'', JStr ''ab12'')]))"

definition owner_record :: jsval where
  "owner_record = JObj [(''id'', JStr ''new-1''), (''legal_name'', JStr ''Acme Ltd''), (''created_at'', JStr ''2026-01-01'')]"

definition one_owner_reply :: outcome where
  "one_owner_reply = Response 200 (Parsed (JObj [(''items'', JArr [owner_record])]))"

text \<open>The property \<open>k\<close> of an object with the properties \<open>kvs\<close>.\<close>

definition prop_of :: "(string \<times> jsval) list \<Rightarrow> string \<Rightarrow> jsval" where
  "prop_of kvs k = (case map_of kvs k of None \<Rightarrow> JUndef | Some v \<Rightarrow> v)"

text \<open>
  A piece of markup is fenced against a word when it neither contains the word nor starts
  or ends with one of its letters: the word cannot then reach across it.
\<close>

definition fenced :: "string \<Rightarrow> string \<Rightarrow> bool" where
  "fenced u p = (p \<noteq> [] \<and> hd p \<notin> set u \<and> last p \<notin> set u \<and> \<not> sublist u p)"

text \<open>Cells, each followed by its piece of markup.\<close>

definition weave :: "(string \<times> string) list \<Rightarrow> string" where
  "weave cps = concat (map (\<lambda>(c, p). c @ p) cps)"

text \<open>
  The rows by tab name, the columns that the row templates default to the empty string
  (\<^verbatim>\<open>r.k||""\<close>) and the columns they print as they are (\<^verbatim>\<open>r.k\<close>).
\<close>

definition tab_row :: "env \<Rightarrow> string \<Rightarrow> jsval \<Rightarrow> exn + string" where
  "tab_row E name =
     (if name = ''onboarding'' then onboarding_row E
      else if name = ''vault'' then vault_row E
      else if name = ''owners'' then owners_row E
      else assets_row E)"

definition optional_columns :: "string \<Rightarrow> string list" where
  "optional_columns name =
     (if name = ''onboarding'' then [''owner_name'', ''owner_email'']
      else if name = ''vault'' then [''org_id'']
      else if name = ''owners'' then [''entity_type'', ''jurisdiction'', ''email'']
      else [''asset_type'', ''status'', ''reg_no'', ''owner_name''])"

definition plain_columns :: "string \<Rightarrow> string list" where
  "plain_columns name =
     (if name = ''onboarding'' then [''status'', ''ip_assets_count'', ''id'']
      else if name = ''vault'' then [''source_key'', ''filename'', ''byte_size'', ''sha256'', ''id'']
      else if name = ''owners'' then [''legal_name'', ''id'']
      else [''title'', ''id''])"

text \<open>A record of the onboarding list without its optional fields.\<close>

definition bare_submission :: "(string \<times> jsval) list" where
  "bare_submission =
     [(''id'', JStr ''7''), (''created_at'', JStr ''2026-01-01''), (''status'', JStr ''submitted''),
      (''ip_assets_count'', JNum 2)]"

text \<open>The row templates cut at their \<^verbatim>\<open>${...}\<close>: the pieces of markup in order.\<close>

definition onboarding_pieces :: "string list" where
  \<open>onboarding_pieces =
     [''\<newline>          <tr>\<newline>            <td>'',
      ''</td>\<newline>            <td>'',
      ''</td>\<newline>            <td>'',
      ''</td>\<newline>            <td>'',
      ''</td>\<newline>            <td>'',
      ''</td>\<newline>            <td><button class="btn btn-outline-light btn-sm" onclick="openOnboarding('' @ [CHR 0x27],
      [CHR 0x27] @ '')">Open</button></td>\<newline>          </tr>\<newline>        '']\<close>

definition vault_pieces :: "string list" where
  \<open>vault_pieces =
     [''\<newline>          <tr>\<newline>            <td>'',
      ''</td>\<newline>            <td>'',
      ''</td>\<newline>            <td>'',
      ''</td>\<newline>            <td class="mono">'',
      ''</td>\<newline>            <td class="mono">'',
      ''</td>\<newline>            <td class="mono" style="max-width:240px;overflow:hidden;text-overflow:ellipsis;white-space:nowrap">'',
      ''</td>\<newline>            <td><a class="btn btn-outline-light btn-sm" href="/api/admin/vault/objects/'',
      ''/download">Download</a></td>\<newline>          </tr>\<newline>        '']\<close>

definition owners_pieces :: "string list" where
  \<open>owners_pieces =
     [''\<newline>        <tr>\<newline>          <td>'',
      ''</td>\<newline>          <td>'',
      ''</td>\<newline>          <td>'',
      ''</td>\<newline>          <td>'',
      ''</td>\<newline>          <td>'',
      ''</td>\<newline>          <td class="mono">'',
      ''</td>\<newline>        </tr>'']\<close>

definition assets_pieces :: "string list" where
  \<open>assets_pieces =
     [''\<newline>        <tr>\<newline>          <td>'',
      ''</td>\<newline>          <td>'',
      ''</td>\<newline>          <td>'',
      ''</td>\<newline>          <td>'',
      ''</td>\<newline>          <td>'',
      ''</td>\<newline>          <td>'',
      ''</td>\<newline>          <td class="mono">'',
      ''</td>\<newline>        </tr>'']\<close>

definition tab_pieces :: "string \<Rightarrow> string list" where
  "tab_pieces name =
     (if name = ''onboarding'' then onboarding_pieces
      else if name = ''vault'' then vault_pieces
      else if name = ''owners'' then owners_pieces
      else assets_pieces)"

text \<open>
  The columns of each table in the order of its cells, and the text of the cell of column
  \<open>k\<close> for a record with the properties \<open>kvs\<close>: the formatted date, the value or the empty
  string (\<^verbatim>\<open>r.k||""\<close>), or the value as it is (\<^verbatim>\<open>r.k\<close>).
\<close>

definition tab_columns :: "string \<Rightarrow> string list" where
  "tab_columns name =
     (if name = ''onboarding'' then
        [''created_at'', ''status'', ''owner_name'', ''owner_email'', ''ip_assets_count'', ''id'']
      else if name = ''vault'' then
        [''created_at'', ''source_key'', ''org_id'', ''filename'', ''byte_size'', ''sha256'', ''id'']
      else if name = ''owners'' then
        [''created_at'', ''legal_name'', ''entity_type'', ''jurisdiction'', ''email'', ''id'']
      else [''created_at'', ''title'', ''asset_type'', ''status'', ''reg_no'', ''owner_name'', ''id''])"

definition cell :: "env \<Rightarrow> string \<Rightarrow> (string \<times> jsval) list \<Rightarrow> string \<Rightarrow> string" where
  "cell E name kvs k =
     (if k = ''created_at'' then localeDate E (prop_of kvs k)
      else if k \<in> set (optional_columns name) then toStr (or_else (prop_of kvs k) (JStr []))
      else toStr (prop_of kvs k))"

text \<open>The pieces of a template with the cells put between them.\<close>

definition markup :: "string list \<Rightarrow> string list \<Rightarrow> string" where
  "markup ps cs = hd ps @ weave (zip cs (tl ps))"

text \<open>A record of the assets list without a title and without its optional fields.\<close>

definition untitled_asset :: "(string \<times> jsval) list" where
  "untitled_asset = [(''id'', JStr ''a-1''), (''created_at'', JStr ''2026-01-01'')]"

text \<open>A record of the owners list whose name is an object that does not convert to text.\<close>

definition odd_owner :: "(string \<times> jsval) list" where
  "odd_owner = [(''id'', JStr ''o-1''), (''legal_name'', JObj [(''toString'', JStr ''Acme'')])]"


text \<open>
  The owners tab showing the table of an earlier list request, a reply that reports a
  failure, and a 2xx reply whose body is empty, so not JSON.
\<close>

definition old_rows :: string where
  \<open>old_rows = ''<table class="table table-dark table-sm"><tbody><tr><td>Old Co</td></tr></tbody></table>''\<close>

definition owners_page_listed :: world where
  "owners_page_listed = owners_page\<lparr>dom := (dom owners_page)(''o_table'' \<mapsto> blank\<lparr>innerHTML := old_rows\<rparr>)\<rparr>"

definition failed_reply :: outcome where
  "failed_reply = Response 500 (Parsed (JObj []))"

definition empty_body_reply :: outcome where
  "empty_body_reply = Response 200 (Unparseable (SyntaxError ''Unexpected end of JSON input''))"
section \<open>Properties\<close>

subsection \<open>Basic facts about the state operations\<close>

lemma ToString_JStr [simp]: "ToString (JStr s) = Inr s"
  by (simp add: ToString_def)

lemma ToString_converts: "converts v \<Longrightarrow> ToString v = Inr (toStr v)"
  by (simp add: ToString_def)

lemma ToString_throws: "\<not> converts v \<Longrightarrow> ToString v = Inl not_primitive"
  by (simp add: ToString_def)

lemma throw_Error_JStr [simp]: "throw_Error (JStr s) = Error s"
  by (simp add: throw_Error_def)

lemma throw_Error_converts: "converts v \<Longrightarrow> throw_Error v = Error (toStr v)"
  by (simp add: throw_Error_def ToString_def)

lemma throw_Error_throws: "\<not> converts v \<Longrightarrow> throw_Error v = not_primitive"
  by (simp add: throw_Error_def ToString_def)

lemma requests_append [simp]: "requests (xs @ ys) = requests xs @ requests ys"
  by (induction xs rule: requests.induct) auto

lemma assignInner_sel [simp]:
  "href (assignInner i h k w) = href w"
  "log (assignInner i h k w) = log w"
  "unhandled (assignInner i h k w) = unhandled w"
  "reqs (assignInner i h k w) = reqs w"
  by (simp_all add: assignInner_def reqs_def)

lemma dom_assignInner:
  "dom (assignInner i h k w) j =
     (if j = i then map_option (\<lambda>e. e\<lparr>innerHTML := h\<rparr>) (dom w i)
      else case map_of k j of Some e \<Rightarrow> Some e
           | None \<Rightarrow> if j \<in> set (below i) then None else dom w j)"
  by (simp add: assignInner_def)

lemma valueOf_Some: "dom w i = Some e \<Longrightarrow> valueOf i w = (Inr (val e), w)"
  by (simp add: valueOf_def)

lemma firstFile_Some:
  "dom w i = Some e \<Longrightarrow> firstFile i w = (Inr (case files e of [] \<Rightarrow> None | f # _ \<Rightarrow> Some f), w)"
  by (simp add: firstFile_def)

lemma setInner_Some: "dom w i = Some e \<Longrightarrow> setInner i h k w = (Inr (), assignInner i h k w)"
  by (simp add: setInner_def)

lemma reqs_log_update [simp]: "reqs (w\<lparr>log := l\<rparr>) = requests l"
  by (simp add: reqs_def)

lemma reqs_other_update [simp]:
  "reqs (w\<lparr>dom := d\<rparr>) = reqs w" "reqs (w\<lparr>href := h\<rparr>) = reqs w" "reqs (w\<lparr>unhandled := u\<rparr>) = reqs w"
  by (simp_all add: reqs_def)

lemma digits_400: "digits 400 = ''400''"
  by (simp add: digits.simps)

lemma vault_formD:
  assumes "vault_form w"
  obtains m s1 s2 s3 s4 s5 fe where
    "dom w ''v_msg'' = Some m" "dom w ''v_source'' = Some s1" "dom w ''v_org'' = Some s2"
    "dom w ''v_tenant'' = Some s3" "dom w ''v_schema'' = Some s4" "dom w ''v_manifest'' = Some s5"
    "dom w ''v_file'' = Some fe"
  using assms by (auto simp: vault_form_def present_def)

lemma assign_msg_twice:
  "assignInner ''v_msg'' h [] (assignInner ''v_msg'' h' [] w) = assignInner ''v_msg'' h [] w"
  by (cases "dom w ''v_msg''") (auto simp: assignInner_def below_def fun_eq_iff)

lemma vaultUpload_no_file:
  assumes "vault_form w" "chosen w = []"
  shows "vaultUpload E w = (Inr (), assignInner ''v_msg'' (danger ''Choose a file.'') [] w)"
proof -
  from assms(1) obtain m s1 s2 s3 s4 s5 fe where
    d: "dom w ''v_msg'' = Some m" "dom w ''v_source'' = Some s1" "dom w ''v_org'' = Some s2"
       "dom w ''v_tenant'' = Some s3" "dom w ''v_schema'' = Some s4" "dom w ''v_manifest'' = Some s5"
       "dom w ''v_file'' = Some fe"
    by (rule vault_formD)
  from assms(2) d(7) have "files fe = []"
    by (simp add: chosen_def)
  with d show ?thesis
    by (simp add: vaultUpload_def andThen_def setInner_Some valueOf_Some firstFile_Some
        dom_assignInner below_def assign_msg_twice)
qed

lemma vaultUpload_fetches_only_with_file:
  "log (snd (vaultUpload E w)) \<noteq> log w \<Longrightarrow> chosen w \<noteq> []"
  by (simp add: vaultUpload_def andThen_def setInner_def valueOf_def firstFile_def dom_assignInner
      below_def chosen_def split: option.splits list.splits prod.splits sum.splits if_splits)

lemma vault_page_form: "vault_form (vault_page fs)" "chosen (vault_page fs) = fs"
  by (simp_all add: vault_form_def present_def vault_page_def page_def chosen_def)

subsection \<open>What an operation leaves alone\<close>

lemma keeps_ret: "reflp R \<Longrightarrow> keeps R (ret x)"
  by (simp add: keeps_def ret_def reflpD)

lemma keeps_lift: "reflp R \<Longrightarrow> keeps R (lift r)"
  by (simp add: keeps_def lift_def reflpD)

lemma keeps_andThen:
  assumes "transp R" "keeps R m" "\<And>a. keeps R (f a)"
  shows "keeps R (andThen m f)"
proof (unfold keeps_def, rule allI)
  fix w
  obtain r w' where m: "m w = (r, w')"
    by (cases "m w")
  with assms(2) have 1: "R w w'"
    by (auto simp: keeps_def dest: spec [of _ w])
  show "R w (snd (andThen m f w))"
  proof (cases r)
    case (Inl e)
    with m 1 show ?thesis by (simp add: andThen_def)
  next
    case (Inr a)
    from assms(3) [of a] have "R w' (snd (f a w'))"
      by (simp add: keeps_def)
    with 1 assms(1) have "R w (snd (f a w'))"
      by (blast dest: transpD)
    with m Inr show ?thesis by (simp add: andThen_def)
  qed
qed

lemma keeps_tryCatch:
  assumes "transp R" "keeps R m" "\<And>e. keeps R (h e)"
  shows "keeps R (tryCatch m h)"
proof (unfold keeps_def, rule allI)
  fix w
  obtain r w' where m: "m w = (r, w')"
    by (cases "m w")
  with assms(2) have 1: "R w w'"
    by (auto simp: keeps_def dest: spec [of _ w])
  show "R w (snd (tryCatch m h w))"
  proof (cases r)
    case (Inr a)
    with m 1 show ?thesis by (simp add: tryCatch_def)
  next
    case (Inl e)
    from assms(3) [of e] have "R w' (snd (h e w'))"
      by (simp add: keeps_def)
    with 1 assms(1) have "R w (snd (h e w'))"
      by (blast dest: transpD)
    with m Inl show ?thesis by (simp add: tryCatch_def)
  qed
qed

lemma keeps_detached:
  assumes "keeps R m" "\<And>w w' u. R w w' \<Longrightarrow> R w (w'\<lparr>unhandled := u\<rparr>)"
  shows "keeps R (detached m)"
proof (unfold keeps_def, rule allI)
  fix w
  obtain r w' where m: "m w = (r, w')"
    by (cases "m w")
  with assms(1) have 1: "R w w'"
    by (auto simp: keeps_def dest: spec [of _ w])
  show "R w (snd (detached m w))"
    using m 1 assms(2) by (cases r) (simp_all add: detached_def)
qed

lemma keeps_if: "keeps R a \<Longrightarrow> keeps R b \<Longrightarrow> keeps R (if c then a else b)"
  by simp

lemma keeps_case_option: "keeps R a \<Longrightarrow> (\<And>x. keeps R (b x)) \<Longrightarrow> keeps R (case v of None \<Rightarrow> a | Some x \<Rightarrow> b x)"
  by (cases v) simp_all

lemma keeps_case_prod: "(\<And>x y. keeps R (f x y)) \<Longrightarrow> keeps R (case p of (x, y) \<Rightarrow> f x y)"
  by (cases p) simp

lemma keeps_valueOf: "reflp R \<Longrightarrow> keeps R (valueOf i)"
  by (simp add: keeps_def valueOf_def reflpD split: option.splits)

lemma keeps_firstFile: "reflp R \<Longrightarrow> keeps R (firstFile i)"
  by (simp add: keeps_def firstFile_def reflpD split: option.splits)

lemma keeps_setInner: "reflp R \<Longrightarrow> (\<And>w. R w (assignInner i h k w)) \<Longrightarrow> keeps R (setInner i h k)"
  by (simp add: keeps_def setInner_def reflpD split: option.splits)

lemma keeps_api: "(\<And>w. R w (sent rq w)) \<Longrightarrow> keeps R (api E rq)"
  by (simp add: keeps_def api_def fetch_def Let_def sent_def split: outcome.splits sum.splits)

lemma keeps_ingest: "(\<And>w. R w (sent rq w)) \<Longrightarrow> keeps R (ingest E rq)"
  by (simp add: keeps_def ingest_def fetch_def Let_def sent_def
      split: outcome.splits sum.splits body_json.splits)

lemma keeps_forEach:
  "reflp R \<Longrightarrow> transp R \<Longrightarrow> (\<And>x. keeps R (f x)) \<Longrightarrow> keeps R (forEach f xs)"
  by (induction xs) (simp_all add: keeps_ret keeps_andThen)

lemmas keeps_intros =
  keeps_andThen keeps_tryCatch keeps_if keeps_case_option keeps_case_prod keeps_ret keeps_lift
  keeps_valueOf keeps_firstFile keeps_setInner

lemma same_href_order: "reflp same_href" "transp same_href"
  by (auto simp: same_href_def reflp_def transp_def)

lemma same_href_log: "same_href w (sent rq w)" "same_href w (assignInner i h k w)"
  by (simp_all add: same_href_def sent_def)

lemma href_renderOnboarding: "keeps same_href (renderOnboarding E)"
  unfolding renderOnboarding_def
  by (intro keeps_intros keeps_api same_href_order same_href_log)

lemma href_refreshVaultList: "keeps same_href (refreshVaultList E)"
  unfolding refreshVaultList_def
  by (intro keeps_intros keeps_api same_href_order same_href_log)

subsection \<open>The error message of a failed request\<close>

text \<open>
  C10. In \<^verbatim>\<open>api\<close>, a response that is not 2xx throws \<^verbatim>\<open>Error("HTTP " + status)\<close> when the body is
  not JSON, when the body is an object without \<^verbatim>\<open>detail\<close>, and when \<^verbatim>\<open>detail\<close> is the empty
  string, \<^verbatim>\<open>null\<close>, \<^verbatim>\<open>false\<close> or \<^verbatim>\<open>0\<close>; a truthy \<^verbatim>\<open>detail\<close> is the message instead, and when
  it is a value that does not convert to a string, what is thrown is the conversion's
  \<^verbatim>\<open>TypeError\<close>: the status is not used for any truthy \<^verbatim>\<open>detail\<close>. A 2xx response whose body is
  not JSON returns the empty object: the parse failure is swallowed.
\<close>

theorem api_falls_back_to_status:
  assumes "net E (reqs w) rq = Response st b"
  shows "(\<not> ok st \<and> b = Unparseable e \<longrightarrow> fst (api E rq w) = Inl (Error (''HTTP '' @ digits st)))
       \<and> (ok st \<and> b = Unparseable e \<longrightarrow> fst (api E rq w) = Inr (JObj []))
       \<and> (\<not> ok st \<and> b = Parsed (JObj kvs) \<and> map_of kvs ''detail'' = None
            \<longrightarrow> fst (api E rq w) = Inl (Error (''HTTP '' @ digits st)))
       \<and> (\<not> ok st \<and> b = Parsed (JObj kvs) \<and> map_of kvs ''detail'' = Some d
            \<and> d \<in> {JStr [], JNull, JBool False, JNum 0}
            \<longrightarrow> fst (api E rq w) = Inl (Error (''HTTP '' @ digits st)))
       \<and> (\<not> ok st \<and> b = Parsed (JObj kvs) \<and> map_of kvs ''detail'' = Some d \<and> truthy d \<and> converts d
            \<longrightarrow> fst (api E rq w) = Inl (Error (toStr d)))
       \<and> (\<not> ok st \<and> b = Parsed (JObj kvs) \<and> map_of kvs ''detail'' = Some d \<and> truthy d \<and> \<not> converts d
            \<longrightarrow> fst (api E rq w) = Inl not_primitive)"
  using assms by (auto simp: api_def fetch_def or_else_def throw_Error_converts throw_Error_throws)

theorem api_falls_back_to_status_witness:
  "fst (api (browser [Response 400 (Parsed (JObj [(''detail'', JNull)]))] True)
          (GET ''/api/admin/owners?limit=50'') page) = Inl (Error ''HTTP 400'')
   \<and> fst (api (browser [Response 400 (Unparseable (SyntaxError ''Unexpected end of JSON input''))] True)
          (GET ''/api/admin/owners?limit=50'') page) = Inl (Error ''HTTP 400'')
   \<and> fst (api (browser [Response 400 (Parsed (JObj [(''detail'', JStr ''bad input'')]))] True)
          (GET ''/api/admin/owners?limit=50'') page) = Inl (Error ''bad input'')
   \<and> fst (api (browser [Response 400 (Parsed (JObj [(''detail'', JObj [(''toString'', JNull)])]))] True)
          (GET ''/api/admin/owners?limit=50'') page) = Inl (TypeError ''Cannot convert object to primitive value'')"
proof -
  let ?rq = "GET ''/api/admin/owners?limit=50''"
  let ?bad = "SyntaxError ''Unexpected end of JSON input''"
  have n: "net (browser [o1] True) (reqs page) ?rq = o1" for o1
    by (simp add: browser_def serve_def page_def reqs_def)
  have k: "\<not> ok 400"
    by (simp add: ok_def)
  show ?thesis
    using api_falls_back_to_status [OF n, of 400 "Parsed (JObj [(''detail'', JNull)])" ?bad
        "[(''detail'', JNull)]" JNull]
      api_falls_back_to_status [OF n, of 400 "Unparseable ?bad" ?bad "[]" JNull]
      api_falls_back_to_status [OF n, of 400 "Parsed (JObj [(''detail'', JStr ''bad input'')])" ?bad
        "[(''detail'', JStr ''bad input'')]" "JStr ''bad input''"]
      api_falls_back_to_status [OF n, of 400 "Parsed (JObj [(''detail'', JObj [(''toString'', JNull)])])" ?bad
        "[(''detail'', JObj [(''toString'', JNull)])]" "JObj [(''toString'', JNull)]"]
      k
    by (simp add: digits_400 not_primitive_def)
qed

subsection \<open>Ingest without a file\<close>

text \<open>
  C6. When the vault form is submitted with no file chosen, \<^verbatim>\<open>vaultUpload\<close> returns without
  any call of \<^verbatim>\<open>fetch\<close> (the log is unchanged) and the message area shows the alert
  "Choose a file."; whenever \<^verbatim>\<open>vaultUpload\<close> does log an event, a file was chosen.
\<close>

theorem vaultUpload_requires_file:
  \<open>(vault_form w \<and> chosen w = [] \<longrightarrow>
      fst (vaultUpload E w) = Inr ()
      \<and> log (snd (vaultUpload E w)) = log w
      \<and> shown (snd (vaultUpload E w)) ''v_msg'' = Some ''<div class="alert alert-danger">Choose a file.</div>'')
   \<and> (log (snd (vaultUpload E w)) \<noteq> log w \<longrightarrow> chosen w \<noteq> [])\<close>
proof (intro conjI impI)
  assume a: "vault_form w \<and> chosen w = []"
  then have r: "vaultUpload E w = (Inr (), assignInner ''v_msg'' (danger ''Choose a file.'') [] w)"
    by (simp add: vaultUpload_no_file)
  from a obtain m where m: "dom w ''v_msg'' = Some m"
    by (auto elim: vault_formD)
  show "fst (vaultUpload E w) = Inr ()" "log (snd (vaultUpload E w)) = log w"
    by (simp_all add: r)
  show \<open>shown (snd (vaultUpload E w)) ''v_msg'' = Some ''<div class="alert alert-danger">Choose a file.</div>''\<close>
    by (simp add: r shown_def dom_assignInner m danger_def)
next
  assume "log (snd (vaultUpload E w)) \<noteq> log w"
  then show "chosen w \<noteq> []"
    by (rule vaultUpload_fetches_only_with_file)
qed

theorem vaultUpload_requires_file_witness:
  \<open>vault_form (vault_page []) \<and> chosen (vault_page []) = []
   \<and> fst (vaultUpload (browser [] True) (vault_page [])) = Inr ()
   \<and> log (snd (vaultUpload (browser [] True) (vault_page []))) = []
   \<and> shown (snd (vaultUpload (browser [] True) (vault_page []))) ''v_msg''
       = Some ''<div class="alert alert-danger">Choose a file.</div>''\<close>
  using vaultUpload_requires_file [of "vault_page []" "browser [] True"]
  by (simp add: vault_page_form) (simp add: vault_page_def page_def)

subsection \<open>The list views\<close>

lemma join_empty: "join [] ss = concat ss"
  by (induction ss rule: induct_list012) simp_all

lemma sent_sel [simp]:
  "dom (sent rq w) = dom w" "href (sent rq w) = href w" "log (sent rq w) = log w @ [Fetched rq]"
  "unhandled (sent rq w) = unhandled w" "reqs (sent rq w) = reqs w @ [rq]"
  by (simp_all add: sent_def reqs_def)

lemma api_response:
  "net E (reqs w) rq = Response st b \<Longrightarrow>
   api E rq w =
     (let j = (case b of Unparseable _ \<Rightarrow> JObj [] | Parsed v \<Rightarrow> v) in
      if \<not> ok st then
        (case getProp j ''detail'' of
           Inl e \<Rightarrow> (Inl e, sent rq w)
         | Inr d \<Rightarrow> (Inl (throw_Error (or_else d (JStr (''HTTP '' @ digits st)))), sent rq w))
      else (Inr j, sent rq w))"
  unfolding sent_def by (simp add: api_def fetch_def)

lemma api_ok: "net E (reqs w) rq = Response st (Parsed j) \<Longrightarrow> ok st \<Longrightarrow> api E rq w = (Inr j, sent rq w)"
  by (simp add: api_response)

lemma api_snd: "snd (api E rq w) = sent rq w"
  by (simp add: api_def fetch_def sent_def Let_def split: outcome.splits sum.splits)

lemma api_fst_cong: "reqs w' = reqs w \<Longrightarrow> fst (api E rq w') = fst (api E rq w)"
  by (simp add: api_def fetch_def Let_def split: outcome.splits sum.splits)

lemma api_eq: "api E rq w = (fst (api E rq w), sent rq w)"
  by (metis api_snd prod.collapse)

lemma list_view_failed:
  "fst (api E (GET path) w) = Inl e \<Longrightarrow> list_view E path row t h f w = (Inl e, sent (GET path) w)"
  by (subst list_view_def, subst andThen_def, subst api_eq) simp

lemma list_view_ok:
  assumes "net E (reqs w) (GET path) = Response st (Parsed (JObj kvs))" "ok st"
    and "map_of kvs ''items'' = Some (JArr rs)" "mapE row rs = Inr trs" "dom w t = Some el"
  shows "list_view E path row t h f w = (Inr (), assignInner t (h @ concat trs @ f) [] (sent (GET path) w))"
  using assms
  by (simp add: list_view_def andThen_def api_ok lift_def or_else_def map_join_def bindE_def
      join_empty setInner_Some)

lemma list_view_log: "log (snd (list_view E path row t h f w)) = log w @ [Fetched (GET path)]"
  by (subst list_view_def, subst andThen_def, subst api_eq)
     (simp add: andThen_def lift_def setInner_def split: sum.splits option.splits)

lemma keeps_list_view:
  "reflp R \<Longrightarrow> transp R \<Longrightarrow> (\<And>w rq. R w (sent rq w)) \<Longrightarrow> (\<And>w h. R w (assignInner t h [] w)) \<Longrightarrow>
   keeps R (list_view E path row t h f)"
  unfolding list_view_def by (intro keeps_intros keeps_api)

lemma refreshVaultList_view:
  "refreshVaultList E = list_view E vault_list (vault_row E) ''v_table'' vault_head vault_foot"
  by (simp add: refreshVaultList_def list_view_def vault_list_def)

lemma refreshOwners_view:
  "refreshOwners E = list_view E owners_list (owners_row E) ''o_table'' owners_head owners_foot"
  by (simp add: refreshOwners_def list_view_def owners_list_def)

lemma refreshAssets_view:
  "refreshAssets E = list_view E assets_list (assets_row E) ''a_table'' assets_head assets_foot"
  by (simp add: refreshAssets_def list_view_def assets_list_def)

lemma encode_submitted: "encodeURIComponent ''submitted'' = ''submitted''"
  by (simp add: encodeURIComponent_def unreserved_def)

lemma renderOnboarding_view:
  "dom w ''tab_onboarding'' = Some el \<Longrightarrow>
   renderOnboarding E w =
     list_view E onboarding_list (onboarding_row E) ''ob_table'' onboarding_head onboarding_foot
       (assignInner ''tab_onboarding'' onboarding_shell
          [(''ob_status'', input ''submitted''), (''ob_table'', blank), (''ob_detail'', blank)] w)"
  apply (simp add: renderOnboarding_def list_view_def onboarding_list_def)
  apply (subst andThen_def)
  apply (simp add: setInner_Some)
  apply (subst andThen_def)
  apply (simp add: valueOf_def dom_assignInner input_def blank_def encode_submitted)
  done

lemma renderVault_view:
  "dom w ''tab_vault'' = Some el \<Longrightarrow>
   renderVault E w =
     list_view E vault_list (vault_row E) ''v_table'' vault_head vault_foot
       (assignInner ''tab_vault'' vault_shell
          [(''v_source'', input ''dossier''), (''v_org'', blank), (''v_tenant'', blank),
           (''v_schema'', blank), (''v_manifest'', blank), (''v_file'', blank),
           (''v_msg'', blank), (''v_table'', blank)] w)"
  by (simp add: renderVault_def refreshVaultList_view andThen_def setInner_Some)

lemma renderOwners_view:
  "dom w ''tab_owners'' = Some el \<Longrightarrow>
   renderOwners E w =
     list_view E owners_list (owners_row E) ''o_table'' owners_head owners_foot
       (assignInner ''tab_owners'' owners_shell
          [(''o_name'', blank), (''o_type'', blank), (''o_jur'', blank), (''o_email'', blank),
           (''o_addr'', blank), (''o_phone'', blank), (''o_msg'', blank), (''o_table'', blank)] w)"
  by (simp add: renderOwners_def refreshOwners_view andThen_def setInner_Some)

lemma renderAssets_view:
  "dom w ''tab_assets'' = Some el \<Longrightarrow>
   renderAssets E w =
     list_view E assets_list (assets_row E) ''a_table'' assets_head assets_foot
       (assignInner ''tab_assets'' assets_shell
          [(''a_owner'', blank), (''a_title'', blank), (''a_type'', blank), (''a_reg'', blank),
           (''a_desc'', blank), (''a_msg'', blank), (''a_table'', blank)] w)"
  by (simp add: renderAssets_def refreshAssets_view andThen_def setInner_Some)

subsection \<open>What a failed request shows\<close>

lemma ingest_response:
  "net E (reqs w) rq = Response st b \<Longrightarrow>
   ingest E rq w =
     (case b of
        Unparseable e \<Rightarrow> (Inl e, sent rq w)
      | Parsed j \<Rightarrow>
          if \<not> ok st then
            (case getProp j ''detail'' of
               Inl e \<Rightarrow> (Inl e, sent rq w)
             | Inr d \<Rightarrow> (Inl (throw_Error (or_else d (JStr ''ingest failed''))), sent rq w))
          else (Inr j, sent rq w))"
  unfolding sent_def by (simp add: ingest_def fetch_def)

lemma ingest_snd: "snd (ingest E rq w) = sent rq w"
  by (simp add: ingest_def fetch_def sent_def split: outcome.splits sum.splits body_json.splits)

text \<open>With a file chosen, \<^verbatim>\<open>vaultUpload\<close> shows whatever its request throws.\<close>

lemma vaultUpload_failed:
  assumes "vault_form w" "chosen w \<noteq> []" "\<And>rq. fst (ingest E rq (assignInner ''v_msg'' [] [] w)) = Inl e"
  shows "fst (vaultUpload E w) = Inr ()"
    and "shown (snd (vaultUpload E w)) ''v_msg'' = Some (danger (String_exn e))"
proof -
  from assms(1) obtain m s1 s2 s3 s4 s5 fe where
    d: "dom w ''v_msg'' = Some m" "dom w ''v_source'' = Some s1" "dom w ''v_org'' = Some s2"
       "dom w ''v_tenant'' = Some s3" "dom w ''v_schema'' = Some s4" "dom w ''v_manifest'' = Some s5"
       "dom w ''v_file'' = Some fe"
    by (rule vault_formD)
  from assms(2) d(7) obtain f fs where f: "files fe = f # fs"
    by (cases "files fe") (simp_all add: chosen_def)
  have i: "ingest E rq (assignInner ''v_msg'' [] [] w) = (Inl e, sent rq (assignInner ''v_msg'' [] [] w))" for rq
    using assms(3) [of rq] ingest_snd [of E rq "assignInner ''v_msg'' [] [] w"]
    by (metis prod.collapse)
  show "fst (vaultUpload E w) = Inr ()"
    using d f
    by (simp add: vaultUpload_def andThen_def setInner_Some valueOf_Some firstFile_Some
        dom_assignInner below_def tryCatch_def i)
  show "shown (snd (vaultUpload E w)) ''v_msg'' = Some (danger (String_exn e))"
    using d f
    by (simp add: vaultUpload_def andThen_def setInner_Some valueOf_Some firstFile_Some
        dom_assignInner below_def tryCatch_def i shown_def)
qed

text \<open>
  C1, as amended. A response that is not 2xx makes \<^verbatim>\<open>api\<close> throw an \<^verbatim>\<open>Error\<close> whose message is
  the body's \<^verbatim>\<open>detail\<close> when that is a non-empty string, and "HTTP " followed by the status
  when the body is an object without \<^verbatim>\<open>detail\<close> or is not JSON. \<^verbatim>\<open>vaultUpload\<close>, which calls
  \<^verbatim>\<open>fetch\<close> itself, shows "Error: " followed by the \<^verbatim>\<open>detail\<close> in the first case,
  "Error: ingest failed" in the second, and the parse error in the third.
\<close>

theorem failed_request_message:
  assumes "\<forall>rq. net E (reqs w) rq = Response st b" "\<not> ok st"
  shows
   "(b = Parsed (JObj kvs) \<and> map_of kvs ''detail'' = Some (JStr s) \<and> s \<noteq> [] \<longrightarrow>
       fst (api E rq w) = Inl (Error s)
       \<and> (vault_form w \<and> chosen w \<noteq> [] \<longrightarrow>
            shown (snd (vaultUpload E w)) ''v_msg'' = Some (danger (''Error: '' @ s))))
    \<and> (b = Parsed (JObj kvs) \<and> map_of kvs ''detail'' = None \<longrightarrow>
       fst (api E rq w) = Inl (Error (''HTTP '' @ digits st))
       \<and> (vault_form w \<and> chosen w \<noteq> [] \<longrightarrow>
            shown (snd (vaultUpload E w)) ''v_msg'' = Some (danger ''Error: ingest failed'')))
    \<and> (b = Unparseable x \<longrightarrow>
       fst (api E rq w) = Inl (Error (''HTTP '' @ digits st))
       \<and> (vault_form w \<and> chosen w \<noteq> [] \<longrightarrow>
            shown (snd (vaultUpload E w)) ''v_msg'' = Some (danger (String_exn x))))"
proof -
  let ?w0 = "assignInner ''v_msg'' [] [] w"
  have n: "net E (reqs ?w0) rq' = Response st b" for rq'
    using assms(1) by simp
  have a: "net E (reqs w) rq = Response st b"
    using assms(1) by simp
  show ?thesis
  proof (intro conjI impI)
    assume h: "b = Parsed (JObj kvs) \<and> map_of kvs ''detail'' = Some (JStr s) \<and> s \<noteq> []"
    with assms(2) show "fst (api E rq w) = Inl (Error s)"
      by (simp add: api_response [OF a] or_else_def)
    assume v: "vault_form w \<and> chosen w \<noteq> []"
    have "fst (ingest E rq' ?w0) = Inl (Error s)" for rq'
      using h assms(2) by (simp add: ingest_response [OF n] or_else_def)
    with v have "shown (snd (vaultUpload E w)) ''v_msg'' = Some (danger (String_exn (Error s)))"
      by (intro vaultUpload_failed) simp_all
    with h show "shown (snd (vaultUpload E w)) ''v_msg'' = Some (danger (''Error: '' @ s))"
      by (simp add: with_name_def)
  next
    assume h: "b = Parsed (JObj kvs) \<and> map_of kvs ''detail'' = None"
    with assms(2) show "fst (api E rq w) = Inl (Error (''HTTP '' @ digits st))"
      by (simp add: api_response [OF a] or_else_def)
    assume v: "vault_form w \<and> chosen w \<noteq> []"
    have "fst (ingest E rq' ?w0) = Inl (Error ''ingest failed'')" for rq'
      using h assms(2) by (simp add: ingest_response [OF n] or_else_def)
    with v have "shown (snd (vaultUpload E w)) ''v_msg'' = Some (danger (String_exn (Error ''ingest failed'')))"
      by (intro vaultUpload_failed) simp_all
    then show "shown (snd (vaultUpload E w)) ''v_msg'' = Some (danger ''Error: ingest failed'')"
      by (simp add: with_name_def)
  next
    assume h: "b = Unparseable x"
    with assms(2) show "fst (api E rq w) = Inl (Error (''HTTP '' @ digits st))"
      by (simp add: api_response [OF a] or_else_def)
    assume v: "vault_form w \<and> chosen w \<noteq> []"
    have "fst (ingest E rq' ?w0) = Inl x" for rq'
      using h by (simp add: ingest_response [OF n])
    with v show "shown (snd (vaultUpload E w)) ''v_msg'' = Some (danger (String_exn x))"
      by (intro vaultUpload_failed) simp_all
  qed
qed

lemma serve_first: "net (browser (o1 # os) yes) [] rq = o1"
  by (simp add: browser_def serve_def)

lemma reqs_vault_page: "reqs (vault_page fs) = []" "reqs page = []"
  by (simp_all add: vault_page_def page_def reqs_def)

theorem failed_request_message_witness:
  \<open>fst (api (browser [Response 400 (Parsed (JObj [(''detail'', JStr ''bad input'')]))] True)
          (GET ''/api/admin/owners?limit=50'') (vault_page [bundle_zip])) = Inl (Error ''bad input'')
   \<and> shown (snd (vaultUpload (browser [Response 400 (Parsed (JObj [(''detail'', JStr ''bad input'')]))] True)
                   (vault_page [bundle_zip]))) ''v_msg''
       = Some ''<div class="alert alert-danger">Error: bad input</div>''\<close>
proof -
  let ?E = "browser [Response 400 (Parsed (JObj [(''detail'', JStr ''bad input'')]))] True"
  have 1: "\<forall>rq. net ?E (reqs (vault_page [bundle_zip])) rq
             = Response 400 (Parsed (JObj [(''detail'', JStr ''bad input'')]))"
    by (simp add: reqs_vault_page serve_first)
  have 2: "\<not> ok 400"
    by (simp add: ok_def)
  show ?thesis
    using failed_request_message [OF 1 2, of "[(''detail'', JStr ''bad input'')]" "''bad input''"
        "GET ''/api/admin/owners?limit=50''"]
    by (simp add: vault_page_form danger_def)
qed

text \<open>
  C1 as stated fails: an empty \<^verbatim>\<open>detail\<close> is present and yet the status is surfaced, and
  \<^verbatim>\<open>vaultUpload\<close> never surfaces the status.
\<close>

theorem detail_not_always_surfaced:
  \<open>fst (api (browser [Response 400 (Parsed (JObj [(''detail'', JStr [])]))] True)
          (GET ''/api/admin/owners?limit=50'') page) = Inl (Error ''HTTP 400'')
   \<and> shown (snd (vaultUpload (browser [Response 500 (Parsed (JObj []))] True) (vault_page [bundle_zip]))) ''v_msg''
       = Some ''<div class="alert alert-danger">Error: ingest failed</div>''\<close>
proof
  show "fst (api (browser [Response 400 (Parsed (JObj [(''detail'', JStr [])]))] True)
          (GET ''/api/admin/owners?limit=50'') page) = Inl (Error ''HTTP 400'')"
    by (simp add: api_response [OF serve_first [where rq = "GET ''/api/admin/owners?limit=50''", folded reqs_vault_page(2)]]
        ok_def or_else_def digits_400)
  have "\<not> ok 500"
    by (simp add: ok_def)
  then have "fst (ingest (browser [Response 500 (Parsed (JObj []))] True) rq
               (assignInner ''v_msg'' [] [] (vault_page [bundle_zip]))) = Inl (Error ''ingest failed'')" for rq
    by (subst ingest_response [where st = 500 and b = "Parsed (JObj [])"])
       (simp_all add: reqs_vault_page serve_first or_else_def)
  then have "shown (snd (vaultUpload (browser [Response 500 (Parsed (JObj []))] True) (vault_page [bundle_zip]))) ''v_msg''
       = Some (danger (String_exn (Error ''ingest failed'')))"
    by (intro vaultUpload_failed) (simp_all add: vault_page_form)
  then show \<open>shown (snd (vaultUpload (browser [Response 500 (Parsed (JObj []))] True) (vault_page [bundle_zip]))) ''v_msg''
       = Some ''<div class="alert alert-danger">Error: ingest failed</div>''\<close>
    by (simp add: danger_def with_name_def)
qed

subsection \<open>The create forms\<close>

lemma log_grows_order: "reflp log_grows" "transp log_grows"
  by (auto simp: log_grows_def reflp_def transp_def)

lemma log_grows_steps: "log_grows w (sent rq w)" "log_grows w (assignInner i h k w)"
  by (simp_all add: log_grows_def)

lemma tryCatch_api:
  "tryCatch (andThen (api E rq) f) h w =
     (case fst (api E rq w) of
        Inl e \<Rightarrow> h e (sent rq w)
      | Inr j \<Rightarrow> tryCatch (f j) h (sent rq w))"
  by (subst tryCatch_def, subst andThen_def, subst api_eq) (simp add: tryCatch_def split: sum.splits)

lemma keeps_submit_rest:
  assumes "reflp R" "transp R" "\<And>w h. R w (assignInner m h [] w)" "keeps R refresh"
  shows "keeps R (tryCatch (andThen (lift (getProp j ''id'')) (\<lambda>new_id.
                    andThen (lift (ToString new_id)) (\<lambda>id_text.
                    andThen (setInner m (success (c @ id_text)) []) (\<lambda>_. refresh))))
                  (\<lambda>e. setInner m (danger (String_exn e)) []))"
  by (intro keeps_intros assms)

lemma keeps_refreshAssets:
  "reflp R \<Longrightarrow> transp R \<Longrightarrow> (\<And>w rq. R w (sent rq w)) \<Longrightarrow> (\<And>w h. R w (assignInner ''a_table'' h [] w)) \<Longrightarrow>
   keeps R (refreshAssets E)"
  by (simp add: refreshAssets_view keeps_list_view)

lemma keeps_refreshOwners:
  "reflp R \<Longrightarrow> transp R \<Longrightarrow> (\<And>w rq. R w (sent rq w)) \<Longrightarrow> (\<And>w h. R w (assignInner ''o_table'' h [] w)) \<Longrightarrow>
   keeps R (refreshOwners E)"
  by (simp add: refreshOwners_view keeps_list_view)

lemma keeps_refreshVaultList:
  "reflp R \<Longrightarrow> transp R \<Longrightarrow> (\<And>w rq. R w (sent rq w)) \<Longrightarrow> (\<And>w h. R w (assignInner ''v_table'' h [] w)) \<Longrightarrow>
   keeps R (refreshVaultList E)"
  by (simp add: refreshVaultList_view keeps_list_view)

lemma submit_sends_first:
  assumes "keeps log_grows refresh"
  shows "\<exists>rest. log (snd (submit E rq m c refresh w)) = log w @ Fetched rq # rest"
proof -
  let ?h = "\<lambda>e. setInner m (danger (String_exn e)) []"
  have h: "keeps log_grows (?h e)" for e
    by (intro keeps_intros log_grows_order log_grows_steps)
  have "log_grows (sent rq w) (snd (submit E rq m c refresh w))"
  proof (cases "fst (api E rq w)")
    case (Inl e)
    with h [of e] show ?thesis
      by (simp add: submit_def tryCatch_api keeps_def)
  next
    case (Inr j)
    with keeps_submit_rest [OF log_grows_order log_grows_steps(2) assms, where m = m and c = c and j = j]
    show ?thesis
      by (simp add: submit_def tryCatch_api keeps_def)
  qed
  then obtain rest where "log (snd (submit E rq m c refresh w)) = (log w @ [Fetched rq]) @ rest"
    by (auto simp: log_grows_def prefix_def)
  then show ?thesis
    by simp
qed

lemma assets_formD:
  assumes "assets_form w"
  obtains e1 e2 e3 e4 e5 m where
    "dom w ''a_owner'' = Some e1" "dom w ''a_title'' = Some e2" "dom w ''a_type'' = Some e3"
    "dom w ''a_reg'' = Some e4" "dom w ''a_desc'' = Some e5" "dom w ''a_msg'' = Some m"
  using assms by (auto simp: assets_form_def present_def)

lemma createAsset_submit:
  assumes "assets_form w"
  shows "createAsset E w = submit E (asset_request w) ''a_msg'' ''Created asset '' (refreshAssets E) w"
proof -
  from assms obtain e1 e2 e3 e4 e5 m where
    d: "dom w ''a_owner'' = Some e1" "dom w ''a_title'' = Some e2" "dom w ''a_type'' = Some e3"
       "dom w ''a_reg'' = Some e4" "dom w ''a_desc'' = Some e5" "dom w ''a_msg'' = Some m"
    by (rule assets_formD)
  then show ?thesis
    by (simp add: createAsset_def submit_def asset_request_def andThen_def valueOf_Some field_def
        or_else_def)
qed

lemma owners_formD:
  assumes "owners_form w"
  obtains e1 e2 e3 e4 e5 e6 m where
    "dom w ''o_name'' = Some e1" "dom w ''o_type'' = Some e2" "dom w ''o_jur'' = Some e3"
    "dom w ''o_email'' = Some e4" "dom w ''o_addr'' = Some e5" "dom w ''o_phone'' = Some e6"
    "dom w ''o_msg'' = Some m"
  using assms by (auto simp: owners_form_def present_def)

lemma createOwner_submit:
  assumes "owners_form w"
  shows "createOwner E w = submit E (owner_request w) ''o_msg'' ''Created owner '' (refreshOwners E) w"
proof -
  from assms obtain e1 e2 e3 e4 e5 e6 m where
    d: "dom w ''o_name'' = Some e1" "dom w ''o_type'' = Some e2" "dom w ''o_jur'' = Some e3"
    "dom w ''o_email'' = Some e4" "dom w ''o_addr'' = Some e5" "dom w ''o_phone'' = Some e6"
    "dom w ''o_msg'' = Some m"
    by (rule owners_formD)
  then show ?thesis
    by (simp add: createOwner_def submit_def owner_request_def andThen_def valueOf_Some field_def)
qed

lemma rev_drop_take: "rev (dropWhile P xs) @ rev (takeWhile P xs) = rev xs"
  by (metis rev_append takeWhile_dropWhile_id)

lemma trim_tail: "dropWhile is_space s = trim s @ rev (takeWhile is_space (rev (dropWhile is_space s)))"
  using rev_drop_take [of is_space "rev (dropWhile is_space s)"] by (simp add: trim_def)

lemma trim_split: "\<exists>a b. s = a @ trim s @ b \<and> list_all is_space a \<and> list_all is_space b"
proof -
  let ?t = "dropWhile is_space s"
  have 1: "s = takeWhile is_space s @ ?t"
    by simp
  have 3: "list_all is_space (takeWhile is_space s)" "list_all is_space (rev (takeWhile is_space (rev ?t)))"
    by (auto simp: list_all_iff dest: set_takeWhileD)
  from 1 trim_tail [of s] have "s = takeWhile is_space s @ trim s @ rev (takeWhile is_space (rev ?t))"
    by metis
  with 3 show ?thesis
    by blast
qed

lemma dropWhile_rev_nonempty: "dropWhile P (rev xs) \<noteq> [] \<Longrightarrow> xs \<noteq> []"
  by auto

lemma trim_ends:
  assumes "trim s \<noteq> []"
  shows "\<not> is_space (hd (trim s))" "\<not> is_space (last (trim s))"
proof -
  let ?t = "dropWhile is_space s"
  let ?u = "dropWhile is_space (rev ?t)"
  from assms have u: "?u \<noteq> []"
    by (simp add: trim_def)
  then have "\<not> is_space (hd ?u)"
    by (rule hd_dropWhile)
  with u show "\<not> is_space (last (trim s))"
    by (simp add: trim_def last_rev)
  from u have t: "?t \<noteq> []"
    by (rule dropWhile_rev_nonempty)
  then have nt: "\<not> is_space (hd ?t)"
    by (rule hd_dropWhile)
  from assms trim_tail [of s] have "hd ?t = hd (trim s)"
    by (metis hd_append2)
  with nt show "\<not> is_space (hd (trim s))"
    by simp
qed

text \<open>
  C7. Whatever the asset form holds, the request \<^verbatim>\<open>createAsset\<close> sends first is a JSON
  \<^verbatim>\<open>POST\<close> to \<^verbatim>\<open>/api/admin/assets\<close> whose text fields are the trimmed field values and whose
  \<^verbatim>\<open>owner_id\<close> is \<^verbatim>\<open>null\<close> when the trimmed owner field is empty and the trimmed string
  otherwise; a trimmed value is the value without a leading and a trailing run of white
  space, and neither starts nor ends with white space.
\<close>

theorem createAsset_payload:
  assumes "assets_form w"
  shows "(\<exists>rest. log (snd (createAsset E w)) =
            log w @ Fetched (POST_json ''/api/admin/assets''
              (JObj [(''owner_id'', if trim (field w ''a_owner'') = [] then JNull
                                    else JStr (trim (field w ''a_owner''))),
                     (''title'', JStr (trim (field w ''a_title''))),
                     (''asset_type'', JStr (trim (field w ''a_type''))),
                     (''reg_no'', JStr (trim (field w ''a_reg''))),
                     (''description'', JStr (trim (field w ''a_desc'')))])) # rest)
       \<and> (\<forall>v. (\<exists>a b. v = a @ trim v @ b \<and> list_all is_space a \<and> list_all is_space b)
              \<and> (trim v \<noteq> [] \<longrightarrow> \<not> is_space (hd (trim v)) \<and> \<not> is_space (last (trim v))))"
proof -
  have "keeps log_grows (refreshAssets E)"
    by (intro keeps_refreshAssets log_grows_order log_grows_steps)
  then have "\<exists>rest. log (snd (createAsset E w)) = log w @ Fetched (asset_request w) # rest"
    unfolding createAsset_submit [OF assms] by (rule submit_sends_first)
  then show ?thesis
    by (simp add: asset_request_def trim_split trim_ends)
qed

lemma assets_page_form: "assets_form (assets_page a b)"
  by (simp add: assets_form_def present_def assets_page_def page_def)

lemma trim_examples: "trim ''  '' = []" "trim '' My Patent  '' = ''My Patent''" "trim [] = []"
  "trim ''patent'' = ''patent''"
  by (simp_all add: trim_def is_space_def)

theorem createAsset_payload_witness:
  "assets_form (assets_page ''  '' '' My Patent  '')
   \<and> (\<exists>rest. log (snd (createAsset (browser [] True) (assets_page ''  '' '' My Patent  ''))) =
          Fetched (POST_json ''/api/admin/assets''
            (JObj [(''owner_id'', JNull), (''title'', JStr ''My Patent''), (''asset_type'', JStr ''patent''),
                   (''reg_no'', JStr []), (''description'', JStr [])])) # rest)"
  using createAsset_payload [where w = "assets_page ''  '' '' My Patent  ''" and E = "browser [] True",
      OF assets_page_form]
  by (simp add: assets_page_form)
     (simp add: assets_page_def page_def field_def input_def blank_def trim_examples)

subsection \<open>Switching tabs\<close>

lemma same_at_order: "reflp (same_at i)" "transp (same_at i)"
  by (auto simp: same_at_def reflp_def transp_def)

lemma same_at_sent: "same_at i w (sent rq w)"
  by (simp add: same_at_def)

lemma same_at_assign: "i \<noteq> t \<Longrightarrow> i \<notin> set (below t) \<Longrightarrow> map_of k i = None \<Longrightarrow> same_at i w (assignInner t h k w)"
  by (simp add: same_at_def dom_assignInner)

lemma dom_list_view:
  assumes "i \<noteq> t" "below t = []"
  shows "dom (snd (list_view E path row t h f w)) i = dom w i"
proof -
  have "keeps (same_at i) (list_view E path row t h f)"
    by (intro keeps_list_view same_at_order same_at_sent same_at_assign) (simp_all add: assms)
  then show ?thesis
    by (simp add: keeps_def same_at_def)
qed

lemma detached_sel:
  "fst (detached m w) = Inr ()" "dom (snd (detached m w)) = dom (snd (m w))"
  "log (snd (detached m w)) = log (snd (m w))" "href (snd (detached m w)) = href (snd (m w))"
  by (cases "m w"; cases "fst (m w)"; simp add: detached_def)+

lemma tab_effect:
  assumes view: "render w = list_view E path row t h f (assignInner tab shell kids w)"
    and el: "dom w tab = Some el" and t: "t \<noteq> tab" "below t = []"
  shows "fst (detached render w) = Inr ()"
    and "log (snd (detached render w)) = log w @ [Fetched (GET path)]"
    and "dom (snd (detached render w)) tab = Some (el\<lparr>innerHTML := shell\<rparr>)"
    and "\<And>i. i \<noteq> tab \<Longrightarrow> i \<noteq> t \<Longrightarrow> i \<notin> set (below tab) \<Longrightarrow> map_of kids i = None \<Longrightarrow>
           dom (snd (detached render w)) i = dom w i"
proof -
  show "fst (detached render w) = Inr ()"
    by (rule detached_sel)
  show "log (snd (detached render w)) = log w @ [Fetched (GET path)]"
    by (simp add: detached_sel view list_view_log)
  from t(1) have "tab \<noteq> t"
    by simp
  then show "dom (snd (detached render w)) tab = Some (el\<lparr>innerHTML := shell\<rparr>)"
    by (simp add: detached_sel view dom_list_view t dom_assignInner el)
  fix i
  assume "i \<noteq> tab" "i \<noteq> t" "i \<notin> set (below tab)" "map_of kids i = None"
  then show "dom (snd (detached render w)) i = dom w i"
    by (simp add: detached_sel view dom_list_view t dom_assignInner)
qed

lemma tabs_presentD:
  assumes "tabs_present w"
  obtains e1 e2 e3 e4 where
    "dom w ''tab_onboarding'' = Some e1" "dom w ''tab_vault'' = Some e2"
    "dom w ''tab_owners'' = Some e3" "dom w ''tab_assets'' = Some e4"
  using assms by (auto simp: tabs_present_def present_def)

lemma dom_switched:
  "dom (switched name w) k =
     (if k \<in> {''tab_onboarding'', ''tab_vault'', ''tab_owners'', ''tab_assets''}
      then map_option (\<lambda>e. e\<lparr>display := if k = ''tab_'' @ name then ''block'' else ''none''\<rparr>) (dom w k)
      else dom w k)"
  by (simp add: switched_def tab_names_def)

lemma switched_sel [simp]:
  "log (switched name w) = log w" "href (switched name w) = href w"
  "unhandled (switched name w) = unhandled w" "reqs (switched name w) = reqs w"
  by (simp_all add: switched_def reqs_def)

lemma world_eqI:
  "dom a = dom b \<Longrightarrow> href a = href b \<Longrightarrow> log a = log b \<Longrightarrow> unhandled a = unhandled b \<Longrightarrow> a = (b :: world)"
  by simp

lemma display_four:
  assumes "dom w ''tab_onboarding'' = Some e1" "dom w ''tab_vault'' = Some e2"
    "dom w ''tab_owners'' = Some e3" "dom w ''tab_assets'' = Some e4"
  shows "forEach (\<lambda>t. setDisplay (''tab_'' @ t) (g t)) [''onboarding'', ''vault'', ''owners'', ''assets''] w =
      (Inr (), w\<lparr>dom := (dom w)
         (''tab_onboarding'' \<mapsto> e1\<lparr>display := g ''onboarding''\<rparr>,
          ''tab_vault'' \<mapsto> e2\<lparr>display := g ''vault''\<rparr>,
          ''tab_owners'' \<mapsto> e3\<lparr>display := g ''owners''\<rparr>,
          ''tab_assets'' \<mapsto> e4\<lparr>display := g ''assets''\<rparr>)\<rparr>)"
  by (simp add: andThen_def setDisplay_def assms ret_def)

lemma hide_all_but:
  assumes "tabs_present w"
  shows "forEach (\<lambda>t. setDisplay (''tab_'' @ t) (if t = name then ''block'' else ''none''))
           [''onboarding'', ''vault'', ''owners'', ''assets''] w = (Inr (), switched name w)"
proof -
  from assms obtain e1 e2 e3 e4 where
    d: "dom w ''tab_onboarding'' = Some e1" "dom w ''tab_vault'' = Some e2"
       "dom w ''tab_owners'' = Some e3" "dom w ''tab_assets'' = Some e4"
    by (rule tabs_presentD)
  have "w\<lparr>dom := (dom w)
         (''tab_onboarding'' \<mapsto> e1\<lparr>display := if ''onboarding'' = name then ''block'' else ''none''\<rparr>,
          ''tab_vault'' \<mapsto> e2\<lparr>display := if ''vault'' = name then ''block'' else ''none''\<rparr>,
          ''tab_owners'' \<mapsto> e3\<lparr>display := if ''owners'' = name then ''block'' else ''none''\<rparr>,
          ''tab_assets'' \<mapsto> e4\<lparr>display := if ''assets'' = name then ''block'' else ''none''\<rparr>)\<rparr>
        = switched name w"
  proof (rule world_eqI)
    show "dom (w\<lparr>dom := (dom w)
         (''tab_onboarding'' \<mapsto> e1\<lparr>display := if ''onboarding'' = name then ''block'' else ''none''\<rparr>,
          ''tab_vault'' \<mapsto> e2\<lparr>display := if ''vault'' = name then ''block'' else ''none''\<rparr>,
          ''tab_owners'' \<mapsto> e3\<lparr>display := if ''owners'' = name then ''block'' else ''none''\<rparr>,
          ''tab_assets'' \<mapsto> e4\<lparr>display := if ''assets'' = name then ''block'' else ''none''\<rparr>)\<rparr>)
        = dom (switched name w)"
    proof (rule ext)
      fix k
      consider "k = ''tab_onboarding''" | "k = ''tab_vault''" | "k = ''tab_owners''" | "k = ''tab_assets''"
        | "k \<notin> {''tab_onboarding'', ''tab_vault'', ''tab_owners'', ''tab_assets''}"
        by blast
      then show "dom (w\<lparr>dom := (dom w)
         (''tab_onboarding'' \<mapsto> e1\<lparr>display := if ''onboarding'' = name then ''block'' else ''none''\<rparr>,
          ''tab_vault'' \<mapsto> e2\<lparr>display := if ''vault'' = name then ''block'' else ''none''\<rparr>,
          ''tab_owners'' \<mapsto> e3\<lparr>display := if ''owners'' = name then ''block'' else ''none''\<rparr>,
          ''tab_assets'' \<mapsto> e4\<lparr>display := if ''assets'' = name then ''block'' else ''none''\<rparr>)\<rparr>) k
        = dom (switched name w) k"
        by cases (simp_all add: dom_switched d eq_commute [of name])
    qed
  qed simp_all
  with display_four [OF d, of "\<lambda>t. if t = name then ''block'' else ''none''"] show ?thesis
    by simp
qed

lemma tabs_present_switched: "tabs_present w \<Longrightarrow> tabs_present (switched name w)"
  by (auto simp: tabs_present_def present_def dom_switched)

lemma andThen_ret: "andThen (ret x) f = f x"
  by (simp add: andThen_def ret_def)

lemma andThen_unit_ret: "andThen m (\<lambda>_. ret ()) = (m :: unit js)"
  by (auto simp: andThen_def ret_def fun_eq_iff split: prod.splits sum.splits)

lemma andThen_ret_right: "andThen m ret = m"
  by (auto simp: andThen_def ret_def fun_eq_iff split: prod.splits sum.splits)

lemma andThen_known: "m w = (Inr a, w') \<Longrightarrow> andThen m f w = f a w'"
  by (simp add: andThen_def)

lemma showTab_render:
  assumes "tabs_present w" "name \<in> set tab_names"
  shows "showTab E name w = detached (tab_render E name) (switched name w)"
proof -
  have 1: "showTab E name w =
    andThen (if name = ''onboarding'' then detached (renderOnboarding E) else ret ()) (\<lambda>_.
     andThen (if name = ''vault'' then detached (renderVault E) else ret ()) (\<lambda>_.
     andThen (if name = ''owners'' then detached (renderOwners E) else ret ()) (\<lambda>_.
     if name = ''assets'' then detached (renderAssets E) else ret ()))) (switched name w)"
    unfolding showTab_def
    by (rule andThen_known [where m = "forEach (\<lambda>t. setDisplay (''tab_'' @ t) (if t = name then ''block'' else ''none''))
          [''onboarding'', ''vault'', ''owners'', ''assets'']" and w = w, OF hide_all_but [OF assms(1)]])
  from assms(2) consider "name = ''onboarding''" | "name = ''vault''" | "name = ''owners''" | "name = ''assets''"
    by (auto simp: tab_names_def)
  then show ?thesis
    using 1 by cases (simp_all add: tab_render_def andThen_ret andThen_unit_ret andThen_ret_right)
qed

lemma href_list_view: "href (snd (list_view E path row t h f w)) = href w"
proof -
  have "keeps same_href (list_view E path row t h f)"
    by (intro keeps_list_view same_href_order same_href_log)
  then show ?thesis
    by (simp add: keeps_def same_href_def)
qed

lemma dom_switched_tab:
  "u \<in> set tab_names \<Longrightarrow>
   dom (switched name w) (''tab_'' @ u) =
     map_option (\<lambda>e. e\<lparr>display := if u = name then ''block'' else ''none''\<rparr>) (dom w (''tab_'' @ u))"
  by (auto simp: switched_def)

lemma tab_present: "tabs_present w \<Longrightarrow> u \<in> set tab_names \<Longrightarrow> \<exists>e. dom w (''tab_'' @ u) = Some e"
  by (auto simp: tabs_present_def present_def tab_names_def)

lemma tabs_presentI: "(\<And>u. u \<in> set tab_names \<Longrightarrow> dom w (''tab_'' @ u) \<noteq> None) \<Longrightarrow> tabs_present w"
  by (simp add: tabs_present_def present_def tab_names_def)

lemma switched_tab_effect:
  assumes tp: "tabs_present w" and nm: "name \<in> set tab_names"
    and view: "\<And>w el. dom w (''tab_'' @ name) = Some el \<Longrightarrow>
                 render w = list_view E path row t h f (assignInner (''tab_'' @ name) shell kids w)"
    and t: "below t = []" "\<And>u. u \<in> set tab_names \<Longrightarrow> t \<noteq> ''tab_'' @ u"
    and kids: "\<And>u. u \<in> set tab_names \<Longrightarrow> map_of kids (''tab_'' @ u) = None"
    and below: "\<And>u. u \<in> set tab_names \<Longrightarrow> ''tab_'' @ u \<notin> set (below (''tab_'' @ name))"
  shows "fst (detached render (switched name w)) = Inr ()"
    and "log (snd (detached render (switched name w))) = log w @ [Fetched (GET path)]"
    and "href (snd (detached render (switched name w))) = href w"
    and "shown (snd (detached render (switched name w))) (''tab_'' @ name) = Some shell"
    and "\<And>u. u \<in> set tab_names \<Longrightarrow>
           map_option display (dom (snd (detached render (switched name w))) (''tab_'' @ u))
             = Some (if u = name then ''block'' else ''none'')"
    and "tabs_present (snd (detached render (switched name w)))"
proof -
  let ?w1 = "switched name w"
  let ?w' = "snd (detached render ?w1)"
  from tab_present [OF tp nm] obtain e where e: "dom w (''tab_'' @ name) = Some e"
    by blast
  have e1: "dom ?w1 (''tab_'' @ name) = Some (e\<lparr>display := ''block''\<rparr>)"
    using dom_switched_tab [OF nm, of name w] e by simp
  note v = view [OF e1]
  from t(2) [OF nm] have tn: "t \<noteq> ''tab_'' @ name" .
  note eff = tab_effect [where render = render and w = "switched name w", OF v e1 tn t(1)]
  show "fst (detached render ?w1) = Inr ()"
    by (rule eff(1))
  show "log ?w' = log w @ [Fetched (GET path)]"
    using eff(2) by simp
  show "href ?w' = href w"
    by (simp add: detached_sel v href_list_view)
  show "shown ?w' (''tab_'' @ name) = Some shell"
    using eff(3) by (simp add: shown_def)
  show d: "map_option display (dom ?w' (''tab_'' @ u)) = Some (if u = name then ''block'' else ''none'')"
    if u: "u \<in> set tab_names" for u
  proof (cases "u = name")
    case True
    with eff(3) show ?thesis
      by simp
  next
    case False
    from tab_present [OF tp u] obtain eu where eu: "dom w (''tab_'' @ u) = Some eu"
      by blast
    from False have "''tab_'' @ u \<noteq> ''tab_'' @ name"
      by simp
    then have "dom ?w' (''tab_'' @ u) = dom ?w1 (''tab_'' @ u)"
      using t(2) [OF u] below [OF u] kids [OF u] by (intro eff(4)) auto
    with False eu dom_switched_tab [OF u, of name w] show ?thesis
      by simp
  qed
  show "tabs_present ?w'"
  proof (rule tabs_presentI)
    fix u assume "u \<in> set tab_names"
    from d [OF this] show "dom ?w' (''tab_'' @ u) \<noteq> None"
      by auto
  qed
qed

lemma showTab_effect:
  assumes tp: "tabs_present w" and nm: "name \<in> set tab_names"
  shows "fst (showTab E name w) = Inr ()"
    and "log (snd (showTab E name w)) = log w @ [Fetched (GET (tab_list name))]"
    and "href (snd (showTab E name w)) = href w"
    and "shown (snd (showTab E name w)) (''tab_'' @ name) = Some (tab_shell name)"
    and "\<And>u. u \<in> set tab_names \<Longrightarrow>
           map_option display (dom (snd (showTab E name w)) (''tab_'' @ u))
             = Some (if u = name then ''block'' else ''none'')"
    and "tabs_present (snd (showTab E name w))"
proof -
  from nm consider "name = ''onboarding''" | "name = ''vault''" | "name = ''owners''" | "name = ''assets''"
    by (auto simp: tab_names_def)
  then have "\<exists>path row t h f kids.
      (\<forall>w el. dom w (''tab_'' @ name) = Some el \<longrightarrow>
         tab_render E name w = list_view E path row t h f (assignInner (''tab_'' @ name) (tab_shell name) kids w))
      \<and> path = tab_list name \<and> below t = [] \<and> (\<forall>u \<in> set tab_names. t \<noteq> ''tab_'' @ u)
      \<and> (\<forall>u \<in> set tab_names. map_of kids (''tab_'' @ u) = None)
      \<and> (\<forall>u \<in> set tab_names. ''tab_'' @ u \<notin> set (below (''tab_'' @ name)))"
  proof cases
    case 1
    show ?thesis
      apply (intro exI conjI allI impI)
           apply (simp add: 1 tab_render_def tab_shell_def)
           apply (erule renderOnboarding_view)
          apply (simp_all add: 1 tab_list_def below_def tab_names_def)
      done
  next
    case 2
    show ?thesis
      apply (intro exI conjI allI impI)
           apply (simp add: 2 tab_render_def tab_shell_def)
           apply (erule renderVault_view)
          apply (simp_all add: 2 tab_list_def below_def tab_names_def)
      done
  next
    case 3
    show ?thesis
      apply (intro exI conjI allI impI)
           apply (simp add: 3 tab_render_def tab_shell_def)
           apply (erule renderOwners_view)
          apply (simp_all add: 3 tab_list_def below_def tab_names_def)
      done
  next
    case 4
    show ?thesis
      apply (intro exI conjI allI impI)
           apply (simp add: 4 tab_render_def tab_shell_def)
           apply (erule renderAssets_view)
          apply (simp_all add: 4 tab_list_def below_def tab_names_def)
      done
  qed
  then obtain path row t h f kids where
    v: "\<And>w el. dom w (''tab_'' @ name) = Some el \<Longrightarrow>
         tab_render E name w = list_view E path row t h f (assignInner (''tab_'' @ name) (tab_shell name) kids w)"
    and p: "path = tab_list name" and t: "below t = []" "\<And>u. u \<in> set tab_names \<Longrightarrow> t \<noteq> ''tab_'' @ u"
    and k: "\<And>u. u \<in> set tab_names \<Longrightarrow> map_of kids (''tab_'' @ u) = None"
    and b: "\<And>u. u \<in> set tab_names \<Longrightarrow> ''tab_'' @ u \<notin> set (below (''tab_'' @ name))"
    by blast
  note eff = switched_tab_effect [where render = "tab_render E name", OF tp nm v t k b]
  note r = showTab_render [OF tp nm]
  show "fst (showTab E name w) = Inr ()"
    unfolding r by (rule eff(1))
  show "log (snd (showTab E name w)) = log w @ [Fetched (GET (tab_list name))]"
    unfolding r using eff(2) p by simp
  show "href (snd (showTab E name w)) = href w"
    unfolding r by (rule eff(3))
  show "shown (snd (showTab E name w)) (''tab_'' @ name) = Some (tab_shell name)"
    unfolding r by (rule eff(4))
  show "\<And>u. u \<in> set tab_names \<Longrightarrow>
           map_option display (dom (snd (showTab E name w)) (''tab_'' @ u))
             = Some (if u = name then ''block'' else ''none'')"
    unfolding r by (rule eff(5))
  show "tabs_present (snd (showTab E name w))"
    unfolding r by (rule eff(6))
qed

subsection \<open>Tabs and the session check\<close>

lemma keeps_setDisplay: "reflp R \<Longrightarrow> (\<And>w d. R w (w\<lparr>dom := d\<rparr>)) \<Longrightarrow> keeps R (setDisplay i d)"
  by (simp add: keeps_def setDisplay_def reflpD split: option.splits)

lemma same_href_more: "same_href w (w\<lparr>dom := d\<rparr>)" "same_href w w' \<Longrightarrow> same_href w (w'\<lparr>unhandled := u\<rparr>)"
  by (simp_all add: same_href_def)

lemma href_showTab: "href (snd (showTab E name w)) = href w"
proof -
  have "keeps same_href (showTab E name)"
    unfolding showTab_def renderVault_def renderOwners_def renderAssets_def
    by (intro keeps_intros keeps_forEach keeps_detached keeps_setDisplay href_renderOnboarding
        keeps_refreshVaultList keeps_refreshOwners keeps_refreshAssets same_href_order same_href_log
        same_href_more)
  then show ?thesis
    by (simp add: keeps_def same_href_def)
qed

text \<open>
  C9. With the four tab containers on the page and \<open>name\<close> one of the four tab names,
  \<^verbatim>\<open>showTab(name)\<close> hides the other three containers, shows the selected one and runs that
  tab's render routine and no other: the container gets the tab's markup again and exactly
  one request, the tab's list request, is sent. Doing it again for the tab already shown
  rebuilds the container and sends the list request again.
\<close>

theorem showTab_shows_and_renders:
  assumes "tabs_present w" "name \<in> set tab_names"
  shows "showTab E name w = detached (tab_render E name) (switched name w)
    \<and> fst (showTab E name w) = Inr ()
    \<and> (\<forall>u \<in> set tab_names.
          map_option display (dom (snd (showTab E name w)) (''tab_'' @ u))
            = Some (if u = name then ''block'' else ''none''))
    \<and> shown (snd (showTab E name w)) (''tab_'' @ name) = Some (tab_shell name)
    \<and> log (snd (showTab E name w)) = log w @ [Fetched (GET (tab_list name))]
    \<and> shown (snd (showTab E name (snd (showTab E name w)))) (''tab_'' @ name) = Some (tab_shell name)
    \<and> log (snd (showTab E name (snd (showTab E name w))))
        = log w @ [Fetched (GET (tab_list name)), Fetched (GET (tab_list name))]"
proof -
  note one = showTab_effect [OF assms]
  note two = showTab_effect [OF one(6) assms(2)]
  from two(2) [of E] one(2) [of E]
  have "log (snd (showTab E name (snd (showTab E name w))))
        = log w @ [Fetched (GET (tab_list name)), Fetched (GET (tab_list name))]"
    by simp
  with one(1,2,4,5) two(4) showTab_render [OF assms] show ?thesis
    by blast
qed

lemma tabs_present_page: "tabs_present page"
  by (simp add: tabs_present_def present_def page_def)

lemma page_sel: "log page = []" "href page = ''/static/atlas-admin.html''" "unhandled page = []"
  by (simp_all add: page_def)

theorem showTab_shows_and_renders_witness:
  "tabs_present page \<and> ''vault'' \<in> set tab_names
   \<and> fst (showTab (browser [] True) ''vault'' page) = Inr ()
   \<and> map_option display (dom (snd (showTab (browser [] True) ''vault'' page)) ''tab_vault'') = Some ''block''
   \<and> map_option display (dom (snd (showTab (browser [] True) ''vault'' page)) ''tab_onboarding'') = Some ''none''
   \<and> map_option display (dom (snd (showTab (browser [] True) ''vault'' page)) ''tab_owners'') = Some ''none''
   \<and> map_option display (dom (snd (showTab (browser [] True) ''vault'' page)) ''tab_assets'') = Some ''none''
   \<and> shown (snd (showTab (browser [] True) ''vault'' page)) ''tab_vault'' = Some vault_shell
   \<and> log (snd (showTab (browser [] True) ''vault'' page))
       = [Fetched (GET ''/api/admin/vault/objects?source_key=all&limit=50'')]"
proof -
  have n: "''vault'' \<in> set tab_names"
    by (simp add: tab_names_def)
  from showTab_shows_and_renders [OF tabs_present_page n, where E = "browser [] True", THEN conjunct2]
  show ?thesis
    by (simp add: tabs_present_page tab_names_def tab_shell_def tab_list_def vault_list_def page_sel)
qed

text \<open>
  C8. \<^verbatim>\<open>init\<close> asks the identity endpoint once. If the call is rejected, or the response is
  not 2xx, or its body gives no truthy \<^verbatim>\<open>email\<close>, the page is sent to the login page and
  nothing else happens: no tab container is touched and no further request is made.
  Otherwise \<^verbatim>\<open>init\<close> is \<^verbatim>\<open>showTab("onboarding")\<close>: the address stays, and on a page with the
  four tab containers the onboarding tab is the visible one and its list is requested.
\<close>

theorem init_redirects_or_shows_onboarding:
  "((net E (reqs w) me_request = Rejected e
      \<or> net E (reqs w) me_request = Response st b \<and> (\<not> ok st \<or> \<not> truthy (email_of b)))
     \<longrightarrow> init E w = (Inr (), (sent me_request w)\<lparr>href := login_page\<rparr>))
   \<and> (net E (reqs w) me_request = Response st b \<and> ok st \<and> truthy (email_of b)
     \<longrightarrow> init E w = showTab E ''onboarding'' (sent me_request w)
         \<and> href (snd (init E w)) = href w
         \<and> (tabs_present w \<longrightarrow>
              fst (init E w) = Inr ()
              \<and> (\<forall>u \<in> set tab_names.
                    map_option display (dom (snd (init E w)) (''tab_'' @ u))
                      = Some (if u = ''onboarding'' then ''block'' else ''none''))
              \<and> log (snd (init E w)) = log w @ [Fetched me_request, Fetched (GET onboarding_list)]))"
proof (intro conjI impI)
  assume "net E (reqs w) me_request = Rejected e
      \<or> net E (reqs w) me_request = Response st b \<and> (\<not> ok st \<or> \<not> truthy (email_of b))"
  then show "init E w = (Inr (), (sent me_request w)\<lparr>href := login_page\<rparr>)"
  proof
    assume "net E (reqs w) me_request = Rejected e"
    then show ?thesis
      by (simp add: init_def me_request_def [symmetric] tryCatch_def andThen_def api_def fetch_def
          navigate_def ret_def sent_def)
  next
    assume a: "net E (reqs w) me_request = Response st b \<and> (\<not> ok st \<or> \<not> truthy (email_of b))"
    then have r: "net E (reqs w) me_request = Response st b"
      by simp
    from a show ?thesis
      by (auto simp: init_def me_request_def [symmetric] tryCatch_def andThen_def api_response [OF r]
          navigate_def ret_def lift_def email_of_def Let_def split: body_json.splits sum.splits)
  qed
next
  assume a: "net E (reqs w) me_request = Response st b \<and> ok st \<and> truthy (email_of b)"
  then have r: "net E (reqs w) me_request = Response st b"
    by simp
  from a show i: "init E w = showTab E ''onboarding'' (sent me_request w)"
    by (auto simp: init_def me_request_def [symmetric] tryCatch_def andThen_def api_response [OF r]
        navigate_def ret_def lift_def email_of_def Let_def split: body_json.splits sum.splits)
  show "href (snd (init E w)) = href w"
    by (simp add: i href_showTab)
  assume "tabs_present w"
  then have tp: "tabs_present (sent me_request w)"
    by (simp add: tabs_present_def present_def)
  have nm: "''onboarding'' \<in> set tab_names"
    by (simp add: tab_names_def)
  note eff = showTab_effect [OF tp nm, where E = E]
  show "fst (init E w) = Inr ()"
    by (simp add: i eff(1))
  show "\<forall>u \<in> set tab_names.
          map_option display (dom (snd (init E w)) (''tab_'' @ u))
            = Some (if u = ''onboarding'' then ''block'' else ''none'')"
    unfolding i using eff(5) by blast
  show "log (snd (init E w)) = log w @ [Fetched me_request, Fetched (GET onboarding_list)]"
    by (simp add: i eff(2) tab_list_def)
qed

theorem init_redirects_or_shows_onboarding_witness:
  "init (browser [Response 401 (Parsed (JObj [(''detail'', JStr ''Not authenticated'')]))] True) page
     = (Inr (), page\<lparr>href := ''/static/atlas-login.html'', log := [Fetched (GET ''/api/auth/me'')]\<rparr>)
   \<and> init (browser [Response 200 (Parsed (JObj [(''email'', JStr [])]))] True) page
     = (Inr (), page\<lparr>href := ''/static/atlas-login.html'', log := [Fetched (GET ''/api/auth/me'')]\<rparr>)
   \<and> href (snd (init (browser [Response 200 (Parsed (JObj [(''email'', JStr ''admin@atlas.test'')]))] True) page))
       = ''/static/atlas-admin.html''
   \<and> map_option display
        (dom (snd (init (browser [Response 200 (Parsed (JObj [(''email'', JStr ''admin@atlas.test'')]))] True) page))
           ''tab_onboarding'') = Some ''block''
   \<and> log (snd (init (browser [Response 200 (Parsed (JObj [(''email'', JStr ''admin@atlas.test'')]))] True) page))
       = [Fetched (GET ''/api/auth/me''), Fetched (GET ''/api/admin/onboarding?status=submitted&limit=50'')]"
proof -
  let ?no = "Parsed (JObj [(''detail'', JStr ''Not authenticated'')])"
  let ?blank = "Parsed (JObj [(''email'', JStr [])])"
  let ?yes = "Parsed (JObj [(''email'', JStr ''admin@atlas.test'')])"
  have s: "(sent me_request page)\<lparr>href := login_page\<rparr>
      = page\<lparr>href := ''/static/atlas-login.html'', log := [Fetched (GET ''/api/auth/me'')]\<rparr>"
    by (simp add: sent_def page_def login_page_def me_request_def)
  have n: "net (browser [o1] True) (reqs page) me_request = o1" for o1
    by (simp add: reqs_vault_page serve_first)
  have k: "\<not> ok 401" "ok 200"
    by (simp_all add: ok_def)
  have e: "\<not> truthy (email_of ?blank)" "truthy (email_of ?yes)"
    by (simp_all add: email_of_def)
  have a: "init (browser [Response 401 ?no] True) page = (Inr (), (sent me_request page)\<lparr>href := login_page\<rparr>)"
    by (rule init_redirects_or_shows_onboarding
          [of "browser [Response 401 ?no] True" page undefined 401 ?no, THEN conjunct1, THEN mp])
       (simp add: n k)
  have b: "init (browser [Response 200 ?blank] True) page = (Inr (), (sent me_request page)\<lparr>href := login_page\<rparr>)"
    by (rule init_redirects_or_shows_onboarding
          [of "browser [Response 200 ?blank] True" page undefined 200 ?blank, THEN conjunct1, THEN mp])
       (simp add: n k e)
  let ?w = "snd (init (browser [Response 200 ?yes] True) page)"
  have "href ?w = href page
      \<and> (tabs_present page \<longrightarrow>
            fst (init (browser [Response 200 ?yes] True) page) = Inr ()
            \<and> (\<forall>u \<in> set tab_names.
                  map_option display (dom ?w (''tab_'' @ u)) = Some (if u = ''onboarding'' then ''block'' else ''none''))
            \<and> log ?w = log page @ [Fetched me_request, Fetched (GET onboarding_list)])"
    by (rule init_redirects_or_shows_onboarding
          [of "browser [Response 200 ?yes] True" page undefined 200 ?yes, THEN conjunct2, THEN mp, THEN conjunct2])
       (simp add: n k e)
  with tabs_present_page have c: "href ?w = href page"
    "\<forall>u \<in> set tab_names.
        map_option display (dom ?w (''tab_'' @ u)) = Some (if u = ''onboarding'' then ''block'' else ''none'')"
    "log ?w = log page @ [Fetched me_request, Fetched (GET onboarding_list)]"
    by blast+
  from c(2) have d: "map_option display (dom ?w ''tab_onboarding'') = Some ''block''"
    by (simp add: tab_names_def)
  from a b c(1,3) d show ?thesis
    by (simp add: s [unfolded me_request_def] page_sel onboarding_list_def me_request_def)
qed

subsection \<open>Which failures are caught\<close>

lemma stays_order: "reflp (stays i)" "transp (stays i)"
  by (auto simp: stays_def reflp_def transp_def)

lemma stays_sent: "stays i w (sent rq w)"
  by (simp add: stays_def)

lemma stays_assign: "i = t \<or> i \<notin> set (below t) \<Longrightarrow> stays i w (assignInner t h [] w)"
  by (auto simp: stays_def dom_assignInner)

lemma tryCatch_shows:
  assumes "keeps (stays m) blk" "dom w m \<noteq> None"
  shows "fst (tryCatch blk (\<lambda>e. setInner m (g e) []) w) = Inr ()"
proof -
  obtain r w1 where b: "blk w = (r, w1)"
    by (cases "blk w")
  with assms have "dom w1 m \<noteq> None"
    by (auto simp: keeps_def stays_def dest: spec [of _ w])
  then obtain el where "dom w1 m = Some el"
    by blast
  with b show ?thesis
    by (cases r) (simp_all add: tryCatch_def setInner_Some)
qed

lemma submit_never_throws:
  assumes "dom w m \<noteq> None" "keeps (stays m) refresh"
  shows "fst (submit E rq m c refresh w) = Inr ()"
  unfolding submit_def
  by (intro tryCatch_shows keeps_intros keeps_api stays_order stays_sent stays_assign assms) simp

lemma submit_failed:
  assumes "fst (api E rq w) = Inl e" "dom w m = Some el"
  shows "submit E rq m c refresh w = (Inr (), assignInner m (danger (String_exn e)) [] (sent rq w))"
  using assms by (simp add: submit_def tryCatch_api setInner_Some)

lemma shown_assign: "dom w i = Some el \<Longrightarrow> shown (assignInner i h k w) i = Some h"
  by (simp add: shown_def dom_assignInner)

lemma createOwner_catches:
  assumes "owners_form w"
  shows "fst (createOwner E w) = Inr ()"
    and "fst (api E (owner_request w) w) = Inl e \<Longrightarrow>
           shown (snd (createOwner E w)) ''o_msg'' = Some (danger (String_exn e))"
proof -
  from assms obtain m where m: "dom w ''o_msg'' = Some m"
    by (auto elim: owners_formD)
  have k: "keeps (stays ''o_msg'') (refreshOwners E)"
    by (intro keeps_refreshOwners stays_order stays_sent stays_assign) (simp add: below_def)
  show "fst (createOwner E w) = Inr ()"
    using m k by (simp add: createOwner_submit [OF assms] submit_never_throws)
  assume "fst (api E (owner_request w) w) = Inl e"
  then show "shown (snd (createOwner E w)) ''o_msg'' = Some (danger (String_exn e))"
    using m by (simp add: createOwner_submit [OF assms] submit_failed shown_assign)
qed

lemma createAsset_catches:
  assumes "assets_form w"
  shows "fst (createAsset E w) = Inr ()"
    and "fst (api E (asset_request w) w) = Inl e \<Longrightarrow>
           shown (snd (createAsset E w)) ''a_msg'' = Some (danger (String_exn e))"
proof -
  from assms obtain m where m: "dom w ''a_msg'' = Some m"
    by (auto elim: assets_formD)
  have k: "keeps (stays ''a_msg'') (refreshAssets E)"
    by (intro keeps_refreshAssets stays_order stays_sent stays_assign) (simp add: below_def)
  show "fst (createAsset E w) = Inr ()"
    using m k by (simp add: createAsset_submit [OF assms] submit_never_throws)
  assume "fst (api E (asset_request w) w) = Inl e"
  then show "shown (snd (createAsset E w)) ''a_msg'' = Some (danger (String_exn e))"
    using m by (simp add: createAsset_submit [OF assms] submit_failed shown_assign)
qed

text \<open>The \<^verbatim>\<open>try\<close> block of \<^verbatim>\<open>vaultUpload\<close> and its handler.\<close>

lemma vaultUpload_with_file:
  assumes "vault_form w" "chosen w = f # fs"
  shows "vaultUpload E w =
     tryCatch
       (andThen (ingest E (ingest_request w f)) (\<lambda>j.
        andThen (lift (getProp j ''object_id'')) (\<lambda>object_id.
        andThen (lift (ToString object_id)) (\<lambda>object_id_text.
        andThen (lift (getProp j ''sha256'')) (\<lambda>sha256.
        andThen (lift (ToString sha256)) (\<lambda>sha256_text.
        andThen (setInner ''v_msg'' (ingested object_id_text sha256_text) []) (\<lambda>_.
        refreshVaultList E)))))))
       (\<lambda>e. setInner ''v_msg'' (danger (String_exn e)) [])
       (assignInner ''v_msg'' [] [] w)"
proof -
  from assms(1) obtain m s1 s2 s3 s4 s5 fe where
    d: "dom w ''v_msg'' = Some m" "dom w ''v_source'' = Some s1" "dom w ''v_org'' = Some s2"
       "dom w ''v_tenant'' = Some s3" "dom w ''v_schema'' = Some s4" "dom w ''v_manifest'' = Some s5"
       "dom w ''v_file'' = Some fe"
    by (rule vault_formD)
  from assms(2) d(7) have f: "files fe = f # fs"
    by (simp add: chosen_def)
  show ?thesis
    using d f
    by (simp add: vaultUpload_def andThen_def setInner_Some valueOf_Some firstFile_Some
        dom_assignInner below_def ingest_request_def field_def)
qed

lemma vaultUpload_catches:
  assumes "vault_form w"
  shows "fst (vaultUpload E w) = Inr ()"
proof (cases "chosen w")
  case Nil
  with assms show ?thesis
    by (simp add: vaultUpload_no_file)
next
  case (Cons f fs)
  from assms obtain m where m: "dom w ''v_msg'' = Some m"
    by (auto elim: vault_formD)
  then have p: "dom (assignInner ''v_msg'' [] [] w) ''v_msg'' \<noteq> None"
    by (simp add: dom_assignInner)
  have k: "keeps (stays ''v_msg'') (refreshVaultList E)"
    by (intro keeps_refreshVaultList stays_order stays_sent stays_assign) (simp add: below_def)
  show ?thesis
    unfolding vaultUpload_with_file [OF assms Cons]
    by (intro tryCatch_shows keeps_intros keeps_ingest stays_order stays_sent stays_assign k p) simp
qed

lemma ingest_fst_cong: "reqs w' = reqs w \<Longrightarrow> fst (ingest E rq w') = fst (ingest E rq w)"
  by (simp add: ingest_def fetch_def split: outcome.splits sum.splits body_json.splits)

lemma ingest_fst_assign: "fst (ingest E rq (assignInner i h k w)) = fst (ingest E rq w)"
  by (rule ingest_fst_cong) simp

lemma api_fst_assign: "fst (api E rq (assignInner i h k w)) = fst (api E rq w)"
  by (rule api_fst_cong) simp

lemma ingest_eq: "ingest E rq w = (fst (ingest E rq w), sent rq w)"
  by (metis ingest_snd prod.collapse)

lemma tryCatch_ingest:
  "tryCatch (andThen (ingest E rq) f) h w =
     (case fst (ingest E rq w) of
        Inl e \<Rightarrow> h e (sent rq w)
      | Inr j \<Rightarrow> tryCatch (f j) h (sent rq w))"
  by (subst tryCatch_def, subst andThen_def, subst ingest_eq) (simp add: tryCatch_def split: sum.splits)

lemma vaultUpload_shows_failure:
  assumes "vault_form w" "chosen w = f # fs" "fst (ingest E (ingest_request w f) w) = Inl e"
  shows "shown (snd (vaultUpload E w)) ''v_msg'' = Some (danger (String_exn e))"
proof -
  from assms(1) obtain m where m: "dom w ''v_msg'' = Some m"
    by (auto elim: vault_formD)
  have "fst (ingest E (ingest_request w f) (assignInner ''v_msg'' [] [] w)) = Inl e"
    using assms(3) by (simp add: ingest_fst_assign)
  then show ?thesis
    using m
    by (simp add: vaultUpload_with_file [OF assms(1,2)] tryCatch_ingest setInner_Some dom_assignInner
        shown_def)
qed

lemma renderOnboarding_throws:
  assumes "dom w ''tab_onboarding'' \<noteq> None" "fst (api E (GET onboarding_list) w) = Inl e"
  shows "fst (renderOnboarding E w) = Inl e"
proof -
  from assms(1) obtain el where el: "dom w ''tab_onboarding'' = Some el"
    by blast
  let ?w1 = "assignInner ''tab_onboarding'' onboarding_shell
          [(''ob_status'', input ''submitted''), (''ob_table'', blank), (''ob_detail'', blank)] w"
  have "fst (api E (GET onboarding_list) ?w1) = Inl e"
    using assms(2) by (simp add: api_fst_assign)
  then show ?thesis
    by (simp add: renderOnboarding_view [OF el] list_view_failed)
qed

lemma andThen_api:
  "andThen (api E rq) f w = (case fst (api E rq w) of Inl e \<Rightarrow> (Inl e, sent rq w) | Inr j \<Rightarrow> f j (sent rq w))"
  by (subst andThen_def, subst api_eq) (simp split: sum.splits)

lemma openOnboarding_throws:
  assumes "dom w ''ob_detail'' \<noteq> None" "fst (api E (detail_request sub_id) w) = Inl e"
  shows "fst (openOnboarding E sub_id w) = Inl e"
proof -
  from assms(1) obtain el where el: "dom w ''ob_detail'' = Some el"
    by blast
  have "fst (api E (detail_request sub_id) (assignInner ''ob_detail'' loading [] w)) = Inl e"
    using assms(2) by (simp add: api_fst_assign)
  then show ?thesis
    unfolding openOnboarding_def detail_request_def [symmetric]
    by (subst andThen_def) (simp add: setInner_Some [OF el] andThen_api)
qed

lemma setOnboardingStatus_throws:
  assumes "present w [''set_status'', ''set_notes'']" "fst (api E (status_request w sub_id) w) = Inl e"
  shows "fst (setOnboardingStatus E sub_id w) = Inl e"
proof -
  from assms(1) obtain a b where d: "dom w ''set_status'' = Some a" "dom w ''set_notes'' = Some b"
    by (auto simp: present_def)
  with assms(2) have "fst (api E (POST_json (''/api/admin/onboarding/'' @ sub_id @ ''/status'')
          (JObj [(''status'', JStr (val a)), (''notes'', JStr (val b))])) w) = Inl e"
    by (simp add: status_request_def field_def)
  then show ?thesis
    unfolding setOnboardingStatus_def
    by (subst andThen_def, simp add: valueOf_Some d, subst andThen_def, simp add: valueOf_Some d)
       (simp add: andThen_api)
qed

lemma asked_sel [simp]:
  "dom (asked q a w) = dom w" "href (asked q a w) = href w" "log (asked q a w) = log w @ [Confirmed q a]"
  "unhandled (asked q a w) = unhandled w" "reqs (asked q a w) = reqs w"
  by (simp_all add: asked_def reqs_def)


lemma approveOnboarding_confirmed:
  "answer E approve_question \<Longrightarrow>
   approveOnboarding E sub_id w =
     andThen (api E (approve_request sub_id)) (\<lambda>j.
       andThen (lift (getProp j ''user_email'')) (\<lambda>user_email.
       andThen (lift (ToString user_email)) (\<lambda>email_text.
       andThen (lift (getProp j ''temp_password'')) (\<lambda>temp_password.
       andThen (lift (ToString temp_password)) (\<lambda>password_text.
       andThen (alert (credentials email_text password_text)) (\<lambda>_.
       andThen (renderOnboarding E) (\<lambda>_.
       openOnboarding E sub_id))))))) (asked approve_question True w)"
  unfolding approveOnboarding_def approve_request_def
  by (subst andThen_def) (simp add: approve_question_def confirm_def asked_def)

lemma approveOnboarding_throws:
  assumes "answer E approve_question" "fst (api E (approve_request sub_id) w) = Inl e"
  shows "fst (approveOnboarding E sub_id w) = Inl e"
proof -
  have "fst (api E (approve_request sub_id) (asked approve_question True w)) = Inl e"
    using assms(2) api_fst_cong [of "asked approve_question True w" w E] by simp
  then show ?thesis
    by (simp add: approveOnboarding_confirmed [OF assms(1)] andThen_api)
qed

text \<open>
  C2, as amended. The two create forms and the ingest form catch every failure, of their
  request and of the list refresh that follows it: on a rendered form \<^verbatim>\<open>createOwner\<close>,
  \<^verbatim>\<open>createAsset\<close> and \<^verbatim>\<open>vaultUpload\<close> never throw, and a failed request is shown in the
  form's message area as an alert. The list views, the detail view and the two onboarding
  actions have no \<^verbatim>\<open>try\<close>: when their request fails, they throw its error to their caller.
\<close>

theorem failures_caught_by_forms_only:
  "(owners_form w \<longrightarrow>
      fst (createOwner E w) = Inr ()
      \<and> (fst (api E (owner_request w) w) = Inl e \<longrightarrow>
           shown (snd (createOwner E w)) ''o_msg'' = Some (danger (String_exn e))))
   \<and> (assets_form w \<longrightarrow>
      fst (createAsset E w) = Inr ()
      \<and> (fst (api E (asset_request w) w) = Inl e \<longrightarrow>
           shown (snd (createAsset E w)) ''a_msg'' = Some (danger (String_exn e))))
   \<and> (vault_form w \<longrightarrow>
      fst (vaultUpload E w) = Inr ()
      \<and> (chosen w = f # fs \<and> fst (ingest E (ingest_request w f) w) = Inl e \<longrightarrow>
           shown (snd (vaultUpload E w)) ''v_msg'' = Some (danger (String_exn e))))
   \<and> (fst (api E (GET vault_list) w) = Inl e \<longrightarrow> fst (refreshVaultList E w) = Inl e)
   \<and> (fst (api E (GET owners_list) w) = Inl e \<longrightarrow> fst (refreshOwners E w) = Inl e)
   \<and> (fst (api E (GET assets_list) w) = Inl e \<longrightarrow> fst (refreshAssets E w) = Inl e)
   \<and> (dom w ''tab_onboarding'' \<noteq> None \<and> fst (api E (GET onboarding_list) w) = Inl e \<longrightarrow>
        fst (renderOnboarding E w) = Inl e)
   \<and> (dom w ''ob_detail'' \<noteq> None \<and> fst (api E (detail_request sub_id) w) = Inl e \<longrightarrow>
        fst (openOnboarding E sub_id w) = Inl e)
   \<and> (present w [''set_status'', ''set_notes''] \<and> fst (api E (status_request w sub_id) w) = Inl e \<longrightarrow>
        fst (setOnboardingStatus E sub_id w) = Inl e)
   \<and> (answer E approve_question \<and> fst (api E (approve_request sub_id) w) = Inl e \<longrightarrow>
        fst (approveOnboarding E sub_id w) = Inl e)"
proof -
  have 1: "owners_form w \<longrightarrow>
      fst (createOwner E w) = Inr ()
      \<and> (fst (api E (owner_request w) w) = Inl e \<longrightarrow>
           shown (snd (createOwner E w)) ''o_msg'' = Some (danger (String_exn e)))"
    using createOwner_catches by blast
  have 2: "assets_form w \<longrightarrow>
      fst (createAsset E w) = Inr ()
      \<and> (fst (api E (asset_request w) w) = Inl e \<longrightarrow>
           shown (snd (createAsset E w)) ''a_msg'' = Some (danger (String_exn e)))"
    using createAsset_catches by blast
  have 3: "vault_form w \<longrightarrow>
      fst (vaultUpload E w) = Inr ()
      \<and> (chosen w = f # fs \<and> fst (ingest E (ingest_request w f) w) = Inl e \<longrightarrow>
           shown (snd (vaultUpload E w)) ''v_msg'' = Some (danger (String_exn e)))"
    using vaultUpload_catches vaultUpload_shows_failure by blast
  have 4: "fst (api E (GET vault_list) w) = Inl e \<longrightarrow> fst (refreshVaultList E w) = Inl e"
    by (simp add: refreshVaultList_view list_view_failed)
  have 5: "fst (api E (GET owners_list) w) = Inl e \<longrightarrow> fst (refreshOwners E w) = Inl e"
    by (simp add: refreshOwners_view list_view_failed)
  have 6: "fst (api E (GET assets_list) w) = Inl e \<longrightarrow> fst (refreshAssets E w) = Inl e"
    by (simp add: refreshAssets_view list_view_failed)
  have 7: "dom w ''tab_onboarding'' \<noteq> None \<and> fst (api E (GET onboarding_list) w) = Inl e \<longrightarrow>
        fst (renderOnboarding E w) = Inl e"
    using renderOnboarding_throws by blast
  have 8: "dom w ''ob_detail'' \<noteq> None \<and> fst (api E (detail_request sub_id) w) = Inl e \<longrightarrow>
        fst (openOnboarding E sub_id w) = Inl e"
    using openOnboarding_throws by blast
  have 9: "present w [''set_status'', ''set_notes''] \<and> fst (api E (status_request w sub_id) w) = Inl e \<longrightarrow>
        fst (setOnboardingStatus E sub_id w) = Inl e"
    using setOnboardingStatus_throws by blast
  have 10: "answer E approve_question \<and> fst (api E (approve_request sub_id) w) = Inl e \<longrightarrow>
        fst (approveOnboarding E sub_id w) = Inl e"
    using approveOnboarding_throws by blast
  from 1 2 3 4 5 6 7 8 9 10 show ?thesis
    by (intro conjI)
qed

lemma owners_page_form: "owners_form owners_page" "reqs owners_page = []"
  by (simp_all add: owners_form_def present_def owners_page_def page_def reqs_def)

lemma detail_page_form: "present detail_page [''set_status'', ''set_notes'']" "reqs detail_page = []"
  by (simp_all add: present_def detail_page_def page_def reqs_def)

lemma digits_500: "digits 500 = ''500''"
  by (simp add: digits.simps)

lemma api_500:
  "reqs w = [] \<Longrightarrow> fst (api (browser [Response 500 (Parsed (JObj kvs))] yes) rq w) =
     Inl (throw_Error (or_else (case map_of kvs ''detail'' of None \<Rightarrow> JUndef | Some v \<Rightarrow> v) (JStr ''HTTP 500'')))"
  by (subst api_response [where st = 500 and b = "Parsed (JObj kvs)"])
     (simp_all add: serve_first ok_def digits_500)

theorem failures_caught_by_forms_only_witness:
  \<open>owners_form owners_page
   \<and> fst (createOwner (browser [Response 500 (Parsed (JObj [(''detail'', JStr ''boom'')]))] True) owners_page) = Inr ()
   \<and> shown (snd (createOwner (browser [Response 500 (Parsed (JObj [(''detail'', JStr ''boom'')]))] True) owners_page))
        ''o_msg'' = Some ''<div class="alert alert-danger">Error: boom</div>''
   \<and> fst (refreshOwners (browser [Response 500 (Parsed (JObj [(''detail'', JStr ''boom'')]))] True) owners_page)
        = Inl (Error ''boom'')\<close>
proof -
  let ?E = "browser [Response 500 (Parsed (JObj [(''detail'', JStr ''boom'')]))] True"
  have a: "fst (api ?E rq owners_page) = Inl (Error ''boom'')" for rq
    by (simp add: api_500 owners_page_form or_else_def)
  from failures_caught_by_forms_only [of owners_page ?E "Error ''boom''"] show ?thesis
    by (simp add: a owners_page_form danger_def with_name_def)
qed

text \<open>
  C2 as stated fails: when the server answers 500, \<^verbatim>\<open>refreshOwners\<close> and
  \<^verbatim>\<open>setOnboardingStatus\<close> throw, and no alert is rendered.
\<close>

theorem list_and_onboarding_failures_escape:
  "fst (refreshOwners (browser [Response 500 (Parsed (JObj []))] True) owners_page) = Inl (Error ''HTTP 500'')
   \<and> shown (snd (refreshOwners (browser [Response 500 (Parsed (JObj []))] True) owners_page)) ''o_msg'' = Some []
   \<and> fst (setOnboardingStatus (browser [Response 500 (Parsed (JObj []))] True) ''7'' detail_page)
       = Inl (Error ''HTTP 500'')"
proof -
  let ?E = "browser [Response 500 (Parsed (JObj []))] True"
  have a: "fst (api ?E rq owners_page) = Inl (Error ''HTTP 500'')" for rq
    by (simp add: api_500 owners_page_form or_else_def)
  have b: "fst (api ?E rq detail_page) = Inl (Error ''HTTP 500'')" for rq
    by (simp add: api_500 detail_page_form or_else_def)
  have "refreshOwners ?E owners_page = (Inl (Error ''HTTP 500''), sent (GET owners_list) owners_page)"
    by (simp add: refreshOwners_view list_view_failed a)
  moreover have "shown (sent (GET owners_list) owners_page) ''o_msg'' = Some []"
    by (simp add: shown_def owners_page_def page_def blank_def)
  moreover have "fst (setOnboardingStatus ?E ''7'' detail_page) = Inl (Error ''HTTP 500'')"
    by (rule setOnboardingStatus_throws) (simp_all add: detail_page_form b)
  ultimately show ?thesis
    by simp
qed

subsection \<open>Successful mutations\<close>

lemma alerted_sel [simp]:
  "dom (alerted m w) = dom w" "href (alerted m w) = href w" "log (alerted m w) = log w @ [Alerted m]"
  "unhandled (alerted m w) = unhandled w" "reqs (alerted m w) = reqs w"
  by (simp_all add: alerted_def reqs_def)

lemma answersD: "answers E w rq j \<Longrightarrow> \<exists>st. net E (reqs w) rq = Response st (Parsed j) \<and> ok st"
  by (auto simp: answers_def split: outcome.splits body_json.splits)

lemma items_ofD: "items_of data = Some rs \<Longrightarrow> \<exists>kvs. data = JObj kvs \<and> map_of kvs ''items'' = Some (JArr rs)"
  by (auto simp: items_of_def split: jsval.splits option.splits)

lemma listedD:
  "listed E w path row trs \<Longrightarrow>
   \<exists>st kvs rs. net E (reqs w) (GET path) = Response st (Parsed (JObj kvs)) \<and> ok st
      \<and> map_of kvs ''items'' = Some (JArr rs) \<and> mapE row rs = Inr trs"
  by (auto simp: listed_def split: outcome.splits body_json.splits option.splits dest: items_ofD)

lemma api_answers: "answers E w0 rq j \<Longrightarrow> reqs w = reqs w0 \<Longrightarrow> api E rq w = (Inr j, sent rq w)"
  by (auto dest!: answersD intro: api_ok)

lemma ingest_answers: "answers E w0 rq j \<Longrightarrow> reqs w = reqs w0 \<Longrightarrow> ingest E rq w = (Inr j, sent rq w)"
  by (auto dest!: answersD simp: ingest_response)

lemma list_view_listed:
  assumes "listed E w0 path row trs" "reqs w = reqs w0" "dom w t = Some el"
  shows "list_view E path row t h f w = (Inr (), assignInner t (h @ concat trs @ f) [] (sent (GET path) w))"
proof -
  from listedD [OF assms(1)] assms(2) obtain st kvs rs where
    "net E (reqs w) (GET path) = Response st (Parsed (JObj kvs))" "ok st"
    "map_of kvs ''items'' = Some (JArr rs)" "mapE row rs = Inr trs"
    by auto
  then show ?thesis
    using assms(3) by (rule list_view_ok)
qed

lemma submit_ok:
  assumes "answers E w rq j" "getProp j ''id'' = Inr i" "converts i" "dom w m = Some el"
  shows "submit E rq m c refresh w =
     tryCatch refresh (\<lambda>e. setInner m (danger (String_exn e)) [])
       (assignInner m (success (c @ toStr i)) [] (sent rq w))"
  using assms
  by (simp add: submit_def tryCatch_api api_answers)
     (simp add: tryCatch_def andThen_def lift_def setInner_Some ToString_converts)

lemma dom_assign_other:
  "j \<noteq> i \<Longrightarrow> j \<notin> set (below i) \<Longrightarrow> map_of k j = None \<Longrightarrow> dom (assignInner i h k w) j = dom w j"
  by (simp add: dom_assignInner)

lemma created_and_listed:
  assumes a: "answers E w rq j" "getProp j ''id'' = Inr i" "converts i"
    and m: "dom w m = Some el" and t: "dom w t = Some te" "t \<noteq> m" "t \<notin> set (below m)" "m \<notin> set (below t)"
    and l: "listed E (sent rq w) path row trs"
  shows "fst (submit E rq m c (list_view E path row t h f) w) = Inr ()"
    and "log (snd (submit E rq m c (list_view E path row t h f) w)) = log w @ [Fetched rq, Fetched (GET path)]"
    and "shown (snd (submit E rq m c (list_view E path row t h f) w)) t = Some (h @ concat trs @ f)"
    and "shown (snd (submit E rq m c (list_view E path row t h f) w)) m = Some (success (c @ toStr i))"
proof -
  let ?w1 = "assignInner m (success (c @ toStr i)) [] (sent rq w)"
  have t1: "dom ?w1 t = Some te"
    using t by (simp add: dom_assign_other)
  have lv: "list_view E path row t h f ?w1 = (Inr (), assignInner t (h @ concat trs @ f) [] (sent (GET path) ?w1))"
    using l _ t1 by (rule list_view_listed) simp
  have s: "submit E rq m c (list_view E path row t h f) w
      = (Inr (), assignInner t (h @ concat trs @ f) [] (sent (GET path) ?w1))"
    by (simp add: submit_ok [OF a m] tryCatch_def lv)
  show "fst (submit E rq m c (list_view E path row t h f) w) = Inr ()"
    by (simp add: s)
  show "log (snd (submit E rq m c (list_view E path row t h f) w)) = log w @ [Fetched rq, Fetched (GET path)]"
    by (simp add: s)
  show "shown (snd (submit E rq m c (list_view E path row t h f) w)) t = Some (h @ concat trs @ f)"
    using t1 by (simp add: s shown_def dom_assignInner)
  from t(2) have "m \<noteq> t"
    by simp
  then show "shown (snd (submit E rq m c (list_view E path row t h f) w)) m = Some (success (c @ toStr i))"
    using m t(4) by (simp add: s shown_def dom_assignInner)
qed

lemma ingested_and_listed:
  assumes v: "vault_form w" "chosen w = f # fs" and t: "dom w ''v_table'' = Some te"
    and a: "answers E w (ingest_request w f) j" "getProp j ''object_id'' = Inr a" "getProp j ''sha256'' = Inr b"
      "converts a" "converts b"
    and l: "listed E (sent (ingest_request w f) w) vault_list (vault_row E) trs"
  shows "fst (vaultUpload E w) = Inr ()"
    and "log (snd (vaultUpload E w)) = log w @ [Fetched (ingest_request w f), Fetched (GET vault_list)]"
    and "shown (snd (vaultUpload E w)) ''v_table'' = Some (vault_head @ concat trs @ vault_foot)"
    and "shown (snd (vaultUpload E w)) ''v_msg'' = Some (ingested (toStr a) (toStr b))"
proof -
  from v(1) obtain m where m: "dom w ''v_msg'' = Some m"
    by (auto elim: vault_formD)
  let ?rq = "ingest_request w f"
  let ?w0 = "assignInner ''v_msg'' [] [] w"
  let ?w1 = "assignInner ''v_msg'' (ingested (toStr a) (toStr b)) [] (sent ?rq ?w0)"
  have i: "ingest E ?rq ?w0 = (Inr j, sent ?rq ?w0)"
    using a(1) by (rule ingest_answers) simp
  have m0: "dom (sent ?rq ?w0) ''v_msg'' = Some (m\<lparr>innerHTML := []\<rparr>)"
    using m by (simp add: dom_assignInner)
  have t1: "dom ?w1 ''v_table'' = Some te"
    using t by (simp add: dom_assignInner below_def)
  have lv: "refreshVaultList E ?w1
      = (Inr (), assignInner ''v_table'' (vault_head @ concat trs @ vault_foot) [] (sent (GET vault_list) ?w1))"
    unfolding refreshVaultList_view using l _ t1 by (rule list_view_listed) simp
  have s: "vaultUpload E w
      = (Inr (), assignInner ''v_table'' (vault_head @ concat trs @ vault_foot) [] (sent (GET vault_list) ?w1))"
    unfolding vaultUpload_with_file [OF v]
    by (simp add: tryCatch_ingest i a(2,3))
       (simp add: tryCatch_def andThen_def lift_def a(4,5) ToString_converts setInner_Some [OF m0] lv)
  show "fst (vaultUpload E w) = Inr ()"
    by (simp add: s)
  show "log (snd (vaultUpload E w)) = log w @ [Fetched ?rq, Fetched (GET vault_list)]"
    by (simp add: s)
  show "shown (snd (vaultUpload E w)) ''v_table'' = Some (vault_head @ concat trs @ vault_foot)"
    using t1 by (simp add: s shown_def dom_assignInner)
  show "shown (snd (vaultUpload E w)) ''v_msg'' = Some (ingested (toStr a) (toStr b))"
    using m by (simp add: s shown_def dom_assignInner below_def)
qed

lemma detail_html_kids:
  assumes "detail_html E sub_id s = Inr (html, kids)"
  shows "map fst kids = [''set_status'', ''set_notes'']"
  using assms by (auto simp: detail_html_def bindE_def split: sum.splits)

lemma renderOnboarding_listed:
  assumes "dom w ''tab_onboarding'' = Some el" "listed E w0 onboarding_list (onboarding_row E) trs"
    "reqs w = reqs w0"
  shows "renderOnboarding E w =
     (Inr (), assignInner ''ob_table'' (onboarding_head @ concat trs @ onboarding_foot) []
        (sent (GET onboarding_list)
           (assignInner ''tab_onboarding'' onboarding_shell
              [(''ob_status'', input ''submitted''), (''ob_table'', blank), (''ob_detail'', blank)] w)))"
  unfolding renderOnboarding_view [OF assms(1)]
  using assms(2) by (rule list_view_listed) (simp_all add: assms(3) dom_assignInner)

lemma openOnboarding_ok:
  assumes "dom w ''ob_detail'' = Some el" "answers E w0 (detail_request sub_id) data" "reqs w = reqs w0"
    "getProp data ''submission'' = Inr s" "detail_html E sub_id s = Inr (html, kids)"
  shows "openOnboarding E sub_id w =
     (Inr (), assignInner ''ob_detail'' html kids
        (sent (detail_request sub_id) (assignInner ''ob_detail'' loading [] w)))"
proof -
  let ?w1 = "assignInner ''ob_detail'' loading [] w"
  have a: "api E (detail_request sub_id) ?w1 = (Inr data, sent (detail_request sub_id) ?w1)"
    using assms(2) by (rule api_answers) (simp add: assms(3))
  have d: "dom (sent (detail_request sub_id) ?w1) ''ob_detail'' = Some (el\<lparr>innerHTML := loading\<rparr>)"
    using assms(1) by (simp add: dom_assignInner)
  show ?thesis
    unfolding openOnboarding_def detail_request_def [symmetric]
    by (subst andThen_def, simp add: setInner_Some [OF assms(1)])
       (simp add: andThen_def a lift_def assms(4,5) setInner_Some [OF d])
qed

lemma onboarding_refreshed:
  assumes tab: "dom w ''tab_onboarding'' = Some el"
    and l: "listed E w0 onboarding_list (onboarding_row E) trs" "reqs w = reqs w0"
    and d: "answers E w1 (detail_request sub_id) data" "reqs w1 = reqs w @ [GET onboarding_list]"
    and s: "getProp data ''submission'' = Inr s" "detail_html E sub_id s = Inr (html, kids)"
  shows "\<exists>W. andThen (renderOnboarding E) (\<lambda>_. openOnboarding E sub_id) w = (Inr (), W)
      \<and> log W = log w @ [Fetched (GET onboarding_list), Fetched (detail_request sub_id)]
      \<and> shown W ''ob_table'' = Some (onboarding_head @ concat trs @ onboarding_foot)
      \<and> shown W ''ob_detail'' = Some html"
proof -
  let ?table = "onboarding_head @ concat trs @ onboarding_foot"
  let ?w1 = "assignInner ''tab_onboarding'' onboarding_shell
              [(''ob_status'', input ''submitted''), (''ob_table'', blank), (''ob_detail'', blank)] w"
  let ?w2 = "assignInner ''ob_table'' ?table [] (sent (GET onboarding_list) ?w1)"
  let ?W = "assignInner ''ob_detail'' html kids
              (sent (detail_request sub_id) (assignInner ''ob_detail'' loading [] ?w2))"
  have r: "renderOnboarding E w = (Inr (), ?w2)"
    using tab l by (rule renderOnboarding_listed)
  have dd: "dom ?w2 ''ob_detail'' = Some blank" "dom ?w2 ''ob_table'' = Some (blank\<lparr>innerHTML := ?table\<rparr>)"
    by (simp_all add: dom_assignInner below_def tab)
  have o: "openOnboarding E sub_id ?w2 = (Inr (), ?W)"
    using dd(1) d(1) _ s by (rule openOnboarding_ok) (simp add: d(2))
  from detail_html_kids [OF s(2)] have k: "map_of kids ''ob_table'' = None" "map_of kids ''ob_detail'' = None"
    by (auto simp: map_of_eq_None_iff)
  have "andThen (renderOnboarding E) (\<lambda>_. openOnboarding E sub_id) w = (Inr (), ?W)"
    by (simp add: andThen_def r o)
  moreover have "log ?W = log w @ [Fetched (GET onboarding_list), Fetched (detail_request sub_id)]"
    by simp
  moreover have "shown ?W ''ob_table'' = Some ?table"
    by (simp add: shown_def dom_assignInner below_def k tab)
  moreover have "shown ?W ''ob_detail'' = Some html"
    by (simp add: shown_def dom_assignInner below_def tab)
  ultimately show ?thesis
    by blast
qed

lemma andThen_valueOf: "dom w i = Some e \<Longrightarrow> andThen (valueOf i) f w = f (val e) w"
  by (simp add: andThen_def valueOf_Some)

lemma setOnboardingStatus_ok:
  assumes p: "present w [''set_status'', ''set_notes'', ''tab_onboarding'']"
    and a: "answers E w (status_request w sub_id) j"
    and l: "listed E (sent (status_request w sub_id) w) onboarding_list (onboarding_row E) trs"
    and d: "answers E (sent (GET onboarding_list) (sent (status_request w sub_id) w)) (detail_request sub_id) data"
    and s: "getProp data ''submission'' = Inr s" "detail_html E sub_id s = Inr (html, kids)"
  shows "fst (setOnboardingStatus E sub_id w) = Inr ()
    \<and> log (snd (setOnboardingStatus E sub_id w)) =
        log w @ [Fetched (status_request w sub_id), Fetched (GET onboarding_list), Fetched (detail_request sub_id)]
    \<and> shown (snd (setOnboardingStatus E sub_id w)) ''ob_table'' = Some (onboarding_head @ concat trs @ onboarding_foot)
    \<and> shown (snd (setOnboardingStatus E sub_id w)) ''ob_detail'' = Some html"
proof -
  let ?rq = "status_request w sub_id"
  from p obtain e1 e2 el where
    e: "dom w ''set_status'' = Some e1" "dom w ''set_notes'' = Some e2" "dom w ''tab_onboarding'' = Some el"
    by (auto simp: present_def)
  have rq: "?rq = POST_json (''/api/admin/onboarding/'' @ sub_id @ ''/status'')
          (JObj [(''status'', JStr (val e1)), (''notes'', JStr (val e2))])"
    by (simp add: status_request_def field_def e)
  have ap: "api E ?rq w = (Inr j, sent ?rq w)"
    using a by (rule api_answers) simp
  have 1: "setOnboardingStatus E sub_id w
      = andThen (renderOnboarding E) (\<lambda>_. openOnboarding E sub_id) (sent ?rq w)"
    unfolding setOnboardingStatus_def
    by (simp only: andThen_valueOf [OF e(1)] andThen_valueOf [OF e(2)] rq [symmetric] andThen_api ap
        fst_conv sum.case)
  have el': "dom (sent ?rq w) ''tab_onboarding'' = Some el"
    by (simp add: e)
  from onboarding_refreshed [OF el' l _ d _ s] obtain W where
    W: "andThen (renderOnboarding E) (\<lambda>_. openOnboarding E sub_id) (sent ?rq w) = (Inr (), W)"
      "log W = log (sent ?rq w) @ [Fetched (GET onboarding_list), Fetched (detail_request sub_id)]"
      "shown W ''ob_table'' = Some (onboarding_head @ concat trs @ onboarding_foot)"
      "shown W ''ob_detail'' = Some html"
    by auto
  then show ?thesis
    by (simp add: 1)
qed

lemma approveOnboarding_ok:
  assumes y: "answer E approve_question" and tab: "dom w ''tab_onboarding'' \<noteq> None"
    and a: "answers E w (approve_request sub_id) j"
      "getProp j ''user_email'' = Inr em" "getProp j ''temp_password'' = Inr pw"
      "converts em" "converts pw"
    and l: "listed E (sent (approve_request sub_id) w) onboarding_list (onboarding_row E) trs"
    and d: "answers E (sent (GET onboarding_list) (sent (approve_request sub_id) w)) (detail_request sub_id) data"
    and s: "getProp data ''submission'' = Inr s" "detail_html E sub_id s = Inr (html, kids)"
  shows "fst (approveOnboarding E sub_id w) = Inr ()
    \<and> log (snd (approveOnboarding E sub_id w)) =
        log w @ [Confirmed approve_question True, Fetched (approve_request sub_id),
                 Alerted (credentials (toStr em) (toStr pw)), Fetched (GET onboarding_list), Fetched (detail_request sub_id)]
    \<and> shown (snd (approveOnboarding E sub_id w)) ''ob_table'' = Some (onboarding_head @ concat trs @ onboarding_foot)
    \<and> shown (snd (approveOnboarding E sub_id w)) ''ob_detail'' = Some html"
proof -
  let ?rq = "approve_request sub_id"
  let ?w1 = "asked approve_question True w"
  let ?w2 = "alerted (credentials (toStr em) (toStr pw)) (sent ?rq ?w1)"
  from tab obtain el where el: "dom w ''tab_onboarding'' = Some el"
    by blast
  have ap: "api E ?rq ?w1 = (Inr j, sent ?rq ?w1)"
    using a(1) by (rule api_answers) simp
  have 1: "approveOnboarding E sub_id w = andThen (renderOnboarding E) (\<lambda>_. openOnboarding E sub_id) ?w2"
    unfolding approveOnboarding_confirmed [OF y]
    by (subst andThen_def, simp add: ap)
       (simp add: andThen_def lift_def a alert_def alerted_def ToString_converts)
  have el': "dom ?w2 ''tab_onboarding'' = Some el"
    by (simp add: el)
  from onboarding_refreshed [OF el' l _ d _ s] obtain W where
    W: "andThen (renderOnboarding E) (\<lambda>_. openOnboarding E sub_id) ?w2 = (Inr (), W)"
      "log W = log ?w2 @ [Fetched (GET onboarding_list), Fetched (detail_request sub_id)]"
      "shown W ''ob_table'' = Some (onboarding_head @ concat trs @ onboarding_foot)"
      "shown W ''ob_detail'' = Some html"
    by auto
  then show ?thesis
    by (simp add: 1)
qed




lemma log_grows_openOnboarding: "keeps log_grows (openOnboarding E sub_id)"
  unfolding openOnboarding_def
  by (intro keeps_intros keeps_api log_grows_order log_grows_steps)


subsection \<open>Approval\<close>

lemma approveOnboarding_alerted:
  assumes y: "answer E approve_question"
    and a: "answers E w (approve_request sub_id) j"
      "getProp j ''user_email'' = Inr em" "getProp j ''temp_password'' = Inr pw"
      "converts em" "converts pw"
  shows "approveOnboarding E sub_id w =
     andThen (renderOnboarding E) (\<lambda>_. openOnboarding E sub_id)
       (alerted (credentials (toStr em) (toStr pw)) (sent (approve_request sub_id) (asked approve_question True w)))"
proof -
  have ap: "api E (approve_request sub_id) (asked approve_question True w)
      = (Inr j, sent (approve_request sub_id) (asked approve_question True w))"
    using a(1) by (rule api_answers) simp
  show ?thesis
    unfolding approveOnboarding_confirmed [OF y]
    by (subst andThen_def, simp add: ap)
       (simp add: andThen_def lift_def a alert_def alerted_def ToString_converts)
qed

lemma refresh_requests_list:
  assumes "dom w ''tab_onboarding'' = Some el"
  shows "\<exists>rest. log (snd (andThen (renderOnboarding E) (\<lambda>_. openOnboarding E sub_id) w))
           = log w @ Fetched (GET onboarding_list) # rest"
proof -
  obtain r w1 where r: "renderOnboarding E w = (r, w1)"
    by (cases "renderOnboarding E w")
  have "log (snd (renderOnboarding E w)) = log w @ [Fetched (GET onboarding_list)]"
    by (simp add: renderOnboarding_view [OF assms] list_view_log)
  with r have l1: "log w1 = log w @ [Fetched (GET onboarding_list)]"
    by simp
  show ?thesis
  proof (cases r)
    case (Inl e)
    with r l1 show ?thesis
      by (simp add: andThen_def)
  next
    case (Inr u)
    from log_grows_openOnboarding [of E sub_id] have "log_grows w1 (snd (openOnboarding E sub_id w1))"
      by (simp add: keeps_def)
    then obtain rest where "log (snd (openOnboarding E sub_id w1)) = log w1 @ rest"
      by (auto simp: log_grows_def prefix_def)
    with r Inr l1 show ?thesis
      by (simp add: andThen_def)
  qed
qed


subsection \<open>Refreshing after a mutation\<close>

lemma serve_nth: "length prior < length outs \<Longrightarrow> net (browser outs yes) prior rq = outs ! length prior"
  by (simp add: browser_def serve_def)

lemma answer_browser: "answer (browser outs yes) q = yes"
  by (simp add: browser_def)

lemma detail_html_7: "\<exists>html kids. detail_html E ''7'' submission_7 = Inr (html, kids)"
  by (simp add: detail_html_def submission_7_def bindE_def notes_quoted_def or_else_def ToString_def)

lemma detail_page_tab: "dom detail_page ''tab_onboarding'' \<noteq> None"
  "present detail_page [''set_status'', ''set_notes'', ''tab_onboarding'']"
  by (simp_all add: detail_page_def page_def present_def)

lemma detail_page_log: "log detail_page = []"
  by (simp add: detail_page_def page_def)


lemma owners_row_total: "\<exists>t. owners_row E owner_record = Inr t"
  by (simp add: owners_row_def owner_record_def bindE_def localeString_def ToString_def or_else_def)

lemma answersI: "net E (reqs w) rq = Response st (Parsed j) \<Longrightarrow> ok st \<Longrightarrow> answers E w rq j"
  by (simp add: answers_def)

lemma listedI:
  "net E (reqs w) (GET path) = Response st (Parsed (JObj kvs)) \<Longrightarrow> ok st \<Longrightarrow>
   map_of kvs ''items'' = Some (JArr rs) \<Longrightarrow> mapE row rs = Inr trs \<Longrightarrow> listed E w path row trs"
  by (simp add: listed_def items_of_def)

lemma ok_2xx: "ok 200" "ok 201"
  by (simp_all add: ok_def)

lemma form_pages:
  "dom owners_page ''o_table'' \<noteq> None" "log owners_page = []"
  "dom (assets_page x y) ''a_table'' \<noteq> None" "log (assets_page x y) = []" "reqs (assets_page x y) = []"
  "dom (vault_page fs) ''v_table'' \<noteq> None" "log (vault_page fs) = []"
  by (simp_all add: owners_page_def assets_page_def vault_page_def page_def reqs_def)


subsection \<open>Rows of the list tables\<close>

lemma sublist_fence:
  assumes "fenced u p"
  shows "sublist u (x @ p @ y) \<longleftrightarrow> sublist u x \<or> sublist u y"
proof
  assume "sublist u x \<or> sublist u y"
  then show "sublist u (x @ p @ y)"
    by (auto simp: sublist_append)
next
  from assms have p: "p \<noteq> []" "hd p \<notin> set u" "last p \<notin> set u" "\<not> sublist u p"
    by (simp_all add: fenced_def)
  assume "sublist u (x @ p @ y)"
  then consider "sublist u x" | "sublist u (p @ y)"
    | u1 u2 where "u = u1 @ u2" "suffix u1 x" "prefix u2 (p @ y)"
    by (auto simp: sublist_append [of u x])
  then show "sublist u x \<or> sublist u y"
  proof cases
    case 1
    then show ?thesis by simp
  next
    case 2
    with p(4) consider "sublist u y" | u1 u2 where "u = u1 @ u2" "suffix u1 p" "prefix u2 y"
      by (auto simp: sublist_append [of u p])
    then show ?thesis
    proof cases
      case 1
      then show ?thesis by simp
    next
      case 2
      show ?thesis
      proof (cases "u1 = []")
        case True
        with 2 have "prefix u y" by simp
        then show ?thesis
          by (auto simp: prefix_def)
      next
        case False
        from 2(2) obtain zs where "p = zs @ u1"
          by (auto simp: suffix_def)
        with False have "last p = last u1"
          by simp
        with False 2(1) have "last p \<in> set u"
          by simp
        with p(3) show ?thesis
          by simp
      qed
    qed
  next
    case 3
    show ?thesis
    proof (cases "u2 = []")
      case True
      with 3 have "suffix u x" by simp
      then show ?thesis
        by (auto simp: suffix_def)
    next
      case False
      from 3(3) obtain zs where "p @ y = u2 @ zs"
        by (auto simp: prefix_def)
      with False p(1) have "hd p = hd u2"
        by (metis hd_append2)
      with False 3(1) have "hd p \<in> set u"
        by simp
      with p(2) show ?thesis
        by simp
    qed
  qed
qed

lemma sublist_weave:
  assumes "u \<noteq> []" "list_all (fenced u) (map snd cps)"
  shows "sublist u (weave cps) \<longleftrightarrow> (\<exists>c \<in> set (map fst cps). sublist u c)"
  using assms(2)
proof (induction cps)
  case Nil
  with assms(1) show ?case
    by (simp add: weave_def)
next
  case (Cons cp cps)
  obtain c p where cp: "cp = (c, p)"
    by (cases cp)
  with Cons.prems have f: "fenced u p" "list_all (fenced u) (map snd cps)"
    by simp_all
  have "weave (cp # cps) = c @ p @ weave cps"
    by (simp add: weave_def cp)
  with sublist_fence [OF f(1), of c "weave cps"] Cons.IH [OF f(2)] cp show ?case
    by simp
qed

lemma sublist_markup:
  assumes "u \<noteq> []" "ps \<noteq> []" "list_all (fenced u) ps" "length cs = length (tl ps)"
  shows "sublist u (markup ps cs) \<longleftrightarrow> (\<exists>c \<in> set cs. sublist u c)"
proof -
  from assms(2,3) have h: "fenced u (hd ps)" and t: "list_all (fenced u) (tl ps)"
    by (cases ps; simp)+
  from assms(4) have z: "map fst (zip cs (tl ps)) = cs" "map snd (zip cs (tl ps)) = tl ps"
    by simp_all
  from sublist_fence [OF h, of "[]" "weave (zip cs (tl ps))"] assms(1)
  have "sublist u (markup ps cs) \<longleftrightarrow> sublist u (weave (zip cs (tl ps)))"
    by (simp add: markup_def)
  also have "\<dots> \<longleftrightarrow> (\<exists>c \<in> set (map fst (zip cs (tl ps))). sublist u c)"
    using assms(1) by (rule sublist_weave) (simp add: z t)
  finally show ?thesis
    by (simp only: z)
qed

lemma tab_cases:
  assumes "name \<in> set tab_names"
  obtains "name = ''onboarding''" | "name = ''vault''" | "name = ''owners''" | "name = ''assets''"
  using assms by (auto simp: tab_names_def)

lemma converts_or_else [simp]: "converts (or_else v (JStr s)) = converts v"
  by (cases v) (simp_all add: or_else_def)

lemma tab_row_markup:
  assumes "name \<in> set tab_names" "\<forall>k \<in> set (tab_columns name). converts (prop_of kvs k)"
  shows "tab_row E name (JObj kvs) = Inr (markup (tab_pieces name) (map (cell E name kvs) (tab_columns name)))"
  using assms(1)
proof (cases rule: tab_cases)
  case 1
  with assms(2) show ?thesis
    by (simp add: tab_row_def tab_pieces_def tab_columns_def cell_def optional_columns_def markup_def
        onboarding_row_def onboarding_pieces_def bindE_def weave_def prop_of_def localeString_def
        ToString_def)
next
  case 2
  with assms(2) show ?thesis
    by (simp add: tab_row_def tab_pieces_def tab_columns_def cell_def optional_columns_def markup_def
        vault_row_def vault_pieces_def bindE_def weave_def prop_of_def localeString_def ToString_def)
next
  case 3
  with assms(2) show ?thesis
    by (simp add: tab_row_def tab_pieces_def tab_columns_def cell_def optional_columns_def markup_def
        owners_row_def owners_pieces_def bindE_def weave_def prop_of_def localeString_def ToString_def)
next
  case 4
  with assms(2) show ?thesis
    by (simp add: tab_row_def tab_pieces_def tab_columns_def cell_def optional_columns_def markup_def
        assets_row_def assets_pieces_def bindE_def weave_def prop_of_def localeString_def ToString_def)
qed

lemma tab_row_throws:
  assumes "name \<in> set tab_names" "\<exists>k \<in> set (tab_columns name). \<not> converts (prop_of kvs k)"
  shows "tab_row E name (JObj kvs) = Inl not_primitive"
  using assms(1)
proof (cases rule: tab_cases)
  case 1
  with assms(2) show ?thesis
    by (auto simp: tab_row_def tab_columns_def onboarding_row_def bindE_def prop_of_def localeString_def
        ToString_def)
next
  case 2
  with assms(2) show ?thesis
    by (auto simp: tab_row_def tab_columns_def vault_row_def bindE_def prop_of_def localeString_def
        ToString_def)
next
  case 3
  with assms(2) show ?thesis
    by (auto simp: tab_row_def tab_columns_def owners_row_def bindE_def prop_of_def localeString_def
        ToString_def)
next
  case 4
  with assms(2) show ?thesis
    by (auto simp: tab_row_def tab_columns_def assets_row_def bindE_def prop_of_def localeString_def
        ToString_def)
qed

lemma pieces_fenced:
  "list_all (fenced ''undefined'') onboarding_pieces" "list_all (fenced ''undefined'') vault_pieces"
  "list_all (fenced ''undefined'') owners_pieces" "list_all (fenced ''undefined'') assets_pieces"
  by (simp_all add: onboarding_pieces_def vault_pieces_def owners_pieces_def assets_pieces_def
      fenced_def sublist_code)

lemma tab_pieces_fenced:
  assumes "name \<in> set tab_names"
  shows "list_all (fenced ''undefined'') (tab_pieces name)" "tab_pieces name \<noteq> []"
    "length (map (cell E name kvs) (tab_columns name)) = length (tl (tab_pieces name))"
proof -
  from assms show "list_all (fenced ''undefined'') (tab_pieces name)"
    by (cases rule: tab_cases) (simp_all add: tab_pieces_def pieces_fenced)
  have "onboarding_pieces \<noteq> []" "vault_pieces \<noteq> []" "owners_pieces \<noteq> []" "assets_pieces \<noteq> []"
    by (simp_all add: onboarding_pieces_def vault_pieces_def owners_pieces_def assets_pieces_def)
  then show "tab_pieces name \<noteq> []"
    by (simp add: tab_pieces_def)
  from assms show "length (map (cell E name kvs) (tab_columns name)) = length (tl (tab_pieces name))"
    by (cases rule: tab_cases)
       (simp_all add: tab_pieces_def tab_columns_def onboarding_pieces_def vault_pieces_def
          owners_pieces_def assets_pieces_def)
qed

lemma columns_split:
  "set (tab_columns name) = {''created_at''} \<union> set (optional_columns name) \<union> set (plain_columns name)"
  "''created_at'' \<notin> set (optional_columns name)" "''created_at'' \<notin> set (plain_columns name)"
  "set (optional_columns name) \<inter> set (plain_columns name) = {}"
  by (auto simp: tab_columns_def optional_columns_def plain_columns_def)

lemma cell_defaulted:
  assumes "k \<in> set (optional_columns name)"
  shows "cell E name kvs k = toStr (or_else (prop_of kvs k) (JStr []))"
  using assms columns_split(2) [of name] by (auto simp: cell_def)

lemma cell_plain:
  assumes "k \<in> set (plain_columns name)"
  shows "cell E name kvs k = toStr (prop_of kvs k)"
  using assms columns_split(3,4) [of name] by (auto simp: cell_def)

lemma prop_of_append:
  "map_of kvs k = None \<Longrightarrow> prop_of (kvs @ [(k, v)]) k' = (if k' = k then v else prop_of kvs k')"
  by (auto simp: prop_of_def map_add_def split: option.splits)

lemma cell_absent_as_empty:
  assumes "k \<in> set (optional_columns name)" "map_of kvs k = None"
  shows "cell E name (kvs @ [(k, JStr [])]) k' = cell E name kvs k'"
proof (cases "k' = k")
  case True
  from assms(2) have "prop_of kvs k = JUndef"
    by (simp add: prop_of_def)
  with True assms show ?thesis
    by (simp add: cell_defaulted prop_of_append or_else_def)
next
  case False
  with assms(2) show ?thesis
    by (simp add: cell_def prop_of_append)
qed

lemma mapE_map: "(\<And>x. x \<in> set xs \<Longrightarrow> f (g x) = Inr (h x)) \<Longrightarrow> mapE f (map g xs) = Inr (map h xs)"
  by (induction xs) (simp_all add: bindE_def)

lemma digits_2: "digits 2 = ''2''"
  by (simp add: digits.simps)

lemma converts_absent_as_empty:
  assumes "map_of kvs k = None"
  shows "converts (prop_of (kvs @ [(k, JStr [])]) k') = converts (prop_of kvs k')"
  using assms by (simp add: prop_of_append) (simp add: prop_of_def)

text \<open>
  C3, as amended. For each of the four list tables and every record (a JSON object): when
  the values of its columns convert to text, rendering the row does not throw and gives
  the row template with one cell per column; when one of them does not (an object with a
  property of its own named \<^verbatim>\<open>toString\<close>), rendering throws the conversion's \<^verbatim>\<open>TypeError\<close>. The
  cell of a column that the template defaults (\<^verbatim>\<open>owner_name\<close>, \<^verbatim>\<open>owner_email\<close>; \<^verbatim>\<open>org_id\<close>;
  \<^verbatim>\<open>entity_type\<close>, \<^verbatim>\<open>jurisdiction\<close>, \<^verbatim>\<open>email\<close>; \<^verbatim>\<open>asset_type\<close>, \<^verbatim>\<open>status\<close>, \<^verbatim>\<open>reg_no\<close>,
  \<^verbatim>\<open>owner_name\<close>) is empty when the field is absent, \<^verbatim>\<open>null\<close> or otherwise falsy, and
  rendering a record without the field is rendering that record with the empty string in the
  field. The cell of a column that the template prints as it is (\<^verbatim>\<open>status\<close>,
  \<^verbatim>\<open>ip_assets_count\<close>, \<^verbatim>\<open>id\<close>; \<^verbatim>\<open>source_key\<close>, \<^verbatim>\<open>filename\<close>, \<^verbatim>\<open>byte_size\<close>, \<^verbatim>\<open>sha256\<close>, \<^verbatim>\<open>id\<close>;
  \<^verbatim>\<open>legal_name\<close>, \<^verbatim>\<open>id\<close>; \<^verbatim>\<open>title\<close>, \<^verbatim>\<open>id\<close>) is the text "undefined" when the field is absent.
  The row contains the text "undefined" exactly when one of its cells does. A list of
  records whose column values convert renders, without throwing, as the rows one after the
  other.
\<close>

theorem rows_default_absent_optional_fields:
  assumes "name \<in> set tab_names"
  shows "((\<forall>k \<in> set (tab_columns name). converts (prop_of kvs k)) \<longrightarrow>
          tab_row E name (JObj kvs)
            = Inr (markup (tab_pieces name) (map (cell E name kvs) (tab_columns name))))
    \<and> ((\<exists>k \<in> set (tab_columns name). \<not> converts (prop_of kvs k)) \<longrightarrow>
          tab_row E name (JObj kvs) = Inl not_primitive)
    \<and> set (tab_columns name) = {''created_at''} \<union> set (optional_columns name) \<union> set (plain_columns name)
    \<and> (\<forall>k \<in> set (optional_columns name). \<not> truthy (prop_of kvs k) \<longrightarrow> cell E name kvs k = [])
    \<and> (\<forall>k \<in> set (optional_columns name).
          map_of kvs k = None \<longrightarrow>
          tab_row E name (JObj kvs) = tab_row E name (JObj (kvs @ [(k, JStr [])])))
    \<and> (\<forall>k \<in> set (plain_columns name). map_of kvs k = None \<longrightarrow> cell E name kvs k = ''undefined'')
    \<and> (sublist ''undefined'' (markup (tab_pieces name) (map (cell E name kvs) (tab_columns name)))
        \<longleftrightarrow> (\<exists>k \<in> set (tab_columns name). sublist ''undefined'' (cell E name kvs k)))
    \<and> ((\<forall>r \<in> set rs. \<forall>k \<in> set (tab_columns name). converts (prop_of r k)) \<longrightarrow>
        map_join (tab_row E name) (JArr (map JObj rs))
          = Inr (concat (map (\<lambda>r. markup (tab_pieces name) (map (cell E name r) (tab_columns name))) rs)))"
proof (intro conjI ballI impI)
  assume "\<forall>k \<in> set (tab_columns name). converts (prop_of kvs k)"
  with assms show "tab_row E name (JObj kvs)
           = Inr (markup (tab_pieces name) (map (cell E name kvs) (tab_columns name)))"
    by (rule tab_row_markup)
next
  assume "\<exists>k \<in> set (tab_columns name). \<not> converts (prop_of kvs k)"
  with assms show "tab_row E name (JObj kvs) = Inl not_primitive"
    by (rule tab_row_throws)
next
  show "set (tab_columns name) = {''created_at''} \<union> set (optional_columns name) \<union> set (plain_columns name)"
    by (rule columns_split)
next
  fix k
  assume "k \<in> set (optional_columns name)" "\<not> truthy (prop_of kvs k)"
  then show "cell E name kvs k = []"
    by (simp add: cell_defaulted or_else_def)
next
  fix k
  assume k: "k \<in> set (optional_columns name)" "map_of kvs k = None"
  then have c: "map (cell E name (kvs @ [(k, JStr [])])) (tab_columns name) = map (cell E name kvs) (tab_columns name)"
    by (simp add: cell_absent_as_empty)
  show "tab_row E name (JObj kvs) = tab_row E name (JObj (kvs @ [(k, JStr [])]))"
  proof (cases "\<forall>k' \<in> set (tab_columns name). converts (prop_of kvs k')")
    case True
    then have T: "\<forall>k' \<in> set (tab_columns name). converts (prop_of (kvs @ [(k, JStr [])]) k')"
      by (simp add: converts_absent_as_empty [OF k(2)])
    show ?thesis
      unfolding tab_row_markup [OF assms True] tab_row_markup [OF assms T] by (simp only: c)
  next
    case False
    then have f: "\<exists>k' \<in> set (tab_columns name). \<not> converts (prop_of kvs k')"
      by simp
    then have "\<exists>k' \<in> set (tab_columns name). \<not> converts (prop_of (kvs @ [(k, JStr [])]) k')"
      by (simp add: converts_absent_as_empty [OF k(2)])
    with f show ?thesis
      by (simp add: tab_row_throws [OF assms])
  qed
next
  fix k
  assume "k \<in> set (plain_columns name)" "map_of kvs k = None"
  then show "cell E name kvs k = ''undefined''"
    by (simp add: cell_plain prop_of_def)
next
  have "sublist ''undefined'' (markup (tab_pieces name) (map (cell E name kvs) (tab_columns name)))
      \<longleftrightarrow> (\<exists>c \<in> set (map (cell E name kvs) (tab_columns name)). sublist ''undefined'' c)"
    by (rule sublist_markup [OF _ tab_pieces_fenced(2,1,3) [OF assms]]) simp
  then show "sublist ''undefined'' (markup (tab_pieces name) (map (cell E name kvs) (tab_columns name)))
        \<longleftrightarrow> (\<exists>k \<in> set (tab_columns name). sublist ''undefined'' (cell E name kvs k))"
    by simp
next
  assume "\<forall>r \<in> set rs. \<forall>k \<in> set (tab_columns name). converts (prop_of r k)"
  then have "mapE (tab_row E name) (map JObj rs)
      = Inr (map (\<lambda>r. markup (tab_pieces name) (map (cell E name r) (tab_columns name))) rs)"
    by (intro mapE_map tab_row_markup [OF assms]) blast
  then show "map_join (tab_row E name) (JArr (map JObj rs))
          = Inr (concat (map (\<lambda>r. markup (tab_pieces name) (map (cell E name r) (tab_columns name))) rs))"
    by (simp add: map_join_def bindE_def join_empty)
qed

theorem rows_default_absent_optional_fields_witness:
  \<open>onboarding_row (browser [] True) (JObj bare_submission)
      = Inr (''\<newline>          <tr>\<newline>            <td>2026-01-01</td>\<newline>            <td>submitted</td>\<newline>            <td></td>\<newline>            <td></td>\<newline>            <td>2</td>\<newline>            <td><button class="btn btn-outline-light btn-sm" onclick="openOnboarding('' @ [CHR 0x27] @ ''7'' @ [CHR 0x27] @ '')">Open</button></td>\<newline>          </tr>\<newline>        '')
   \<and> (\<exists>html. onboarding_row (browser [] True) (JObj bare_submission) = Inr html
          \<and> \<not> sublist ''undefined'' html)
   \<and> onboarding_row (browser [] True) (JObj bare_submission)
       = onboarding_row (browser [] True) (JObj (bare_submission @ [(''owner_name'', JStr [])]))
   \<and> map_join (onboarding_row (browser [] True)) (JArr [JObj bare_submission, JObj bare_submission])
       = Inr ((''\<newline>          <tr>\<newline>            <td>2026-01-01</td>\<newline>            <td>submitted</td>\<newline>            <td></td>\<newline>            <td></td>\<newline>            <td>2</td>\<newline>            <td><button class="btn btn-outline-light btn-sm" onclick="openOnboarding('' @ [CHR 0x27] @ ''7'' @ [CHR 0x27] @ '')">Open</button></td>\<newline>          </tr>\<newline>        '')
              @ (''\<newline>          <tr>\<newline>            <td>2026-01-01</td>\<newline>            <td>submitted</td>\<newline>            <td></td>\<newline>            <td></td>\<newline>            <td>2</td>\<newline>            <td><button class="btn btn-outline-light btn-sm" onclick="openOnboarding('' @ [CHR 0x27] @ ''7'' @ [CHR 0x27] @ '')">Open</button></td>\<newline>          </tr>\<newline>        ''))
   \<and> cell (browser [] True) ''assets'' untitled_asset ''title'' = ''undefined''
   \<and> cell (browser [] True) ''assets'' untitled_asset ''owner_name'' = []
   \<and> (\<exists>html. assets_row (browser [] True) (JObj untitled_asset) = Inr html \<and> sublist ''undefined'' html)
   \<and> owners_row (browser [] True) (JObj odd_owner) = Inl (TypeError ''Cannot convert object to primitive value'')\<close>
proof -
  let ?E = "browser [] True"
  let ?row = \<open>''\<newline>          <tr>\<newline>            <td>2026-01-01</td>\<newline>            <td>submitted</td>\<newline>            <td></td>\<newline>            <td></td>\<newline>            <td>2</td>\<newline>            <td><button class="btn btn-outline-light btn-sm" onclick="openOnboarding('' @ [CHR 0x27] @ ''7'' @ [CHR 0x27] @ '')">Open</button></td>\<newline>          </tr>\<newline>        ''\<close>
  have n: "''onboarding'' \<in> set tab_names" "''assets'' \<in> set tab_names" "''owners'' \<in> set tab_names"
    by (simp_all add: tab_names_def)
  have r: "tab_row ?E ''onboarding'' = onboarding_row ?E" "tab_row ?E ''assets'' = assets_row ?E"
    "tab_row ?E ''owners'' = owners_row ?E"
    by (simp_all add: tab_row_def)
  have e: "\<exists>k \<in> set (tab_columns ''owners''). \<not> converts (prop_of odd_owner k)"
    by (simp add: tab_columns_def prop_of_def odd_owner_def)
  have c: "\<forall>k \<in> set (tab_columns ''onboarding''). converts (prop_of bare_submission k)"
    by (simp add: tab_columns_def prop_of_def bare_submission_def)
  have c': "\<forall>r \<in> set [bare_submission, bare_submission].
      \<forall>k \<in> set (tab_columns ''onboarding''). converts (prop_of r k)"
    using c by simp
  have d: "\<forall>k \<in> set (tab_columns ''assets''). converts (prop_of untitled_asset k)"
    by (simp add: tab_columns_def prop_of_def untitled_asset_def)
  have m: "markup (tab_pieces ''onboarding'') (map (cell ?E ''onboarding'' bare_submission) (tab_columns ''onboarding''))
      = ?row"
    by (simp add: markup_def weave_def tab_pieces_def onboarding_pieces_def tab_columns_def cell_def
        optional_columns_def prop_of_def bare_submission_def browser_def or_else_def show_int_def digits_2)
  have u: "\<not> (\<exists>k \<in> set (tab_columns ''onboarding''). sublist ''undefined'' (cell ?E ''onboarding'' bare_submission k))"
    by (simp add: tab_columns_def cell_def optional_columns_def prop_of_def bare_submission_def browser_def
        or_else_def show_int_def digits_2 sublist_code)
  have a: "''owner_name'' \<in> set (optional_columns ''onboarding'')" "map_of bare_submission ''owner_name'' = None"
    "''owner_name'' \<in> set (optional_columns ''assets'')" "\<not> truthy (prop_of untitled_asset ''owner_name'')"
    "''title'' \<in> set (plain_columns ''assets'')" "map_of untitled_asset ''title'' = None"
    "''title'' \<in> set (tab_columns ''assets'')"
    by (simp_all add: optional_columns_def plain_columns_def tab_columns_def bare_submission_def
        untitled_asset_def prop_of_def)
  note t = rows_default_absent_optional_fields [OF n(1), where E = ?E and kvs = bare_submission
      and rs = "[bare_submission, bare_submission]", unfolded r]
  note s = rows_default_absent_optional_fields [OF n(2), where E = ?E and kvs = untitled_asset, unfolded r]
  note o = rows_default_absent_optional_fields [OF n(3), where E = ?E and kvs = odd_owner, unfolded r]
  note t1 = t [THEN conjunct1, THEN mp, OF c]
  note t4 = t [THEN conjunct2, THEN conjunct2, THEN conjunct2, THEN conjunct2, THEN conjunct1, rule_format, OF a(1,2)]
  note t6 = t [THEN conjunct2, THEN conjunct2, THEN conjunct2, THEN conjunct2, THEN conjunct2, THEN conjunct2,
      THEN conjunct1]
  note t7 = t [THEN conjunct2, THEN conjunct2, THEN conjunct2, THEN conjunct2, THEN conjunct2, THEN conjunct2,
      THEN conjunct2, THEN mp, OF c']
  note s1 = s [THEN conjunct1, THEN mp, OF d]
  note s3 = s [THEN conjunct2, THEN conjunct2, THEN conjunct2, THEN conjunct1, rule_format, OF a(3,4)]
  note s5 = s [THEN conjunct2, THEN conjunct2, THEN conjunct2, THEN conjunct2, THEN conjunct2, THEN conjunct1,
      rule_format, OF a(5,6)]
  note s6 = s [THEN conjunct2, THEN conjunct2, THEN conjunct2, THEN conjunct2, THEN conjunct2, THEN conjunct2,
      THEN conjunct1]
  note 8 = o [THEN conjunct2, THEN conjunct1, THEN mp, OF e, unfolded not_primitive_def]
  from t1 have 1: "onboarding_row ?E (JObj bare_submission) = Inr ?row"
    unfolding m .
  from t6 u have "\<not> sublist ''undefined'' (markup (tab_pieces ''onboarding'')
      (map (cell ?E ''onboarding'' bare_submission) (tab_columns ''onboarding'')))"
    by (rule ssubst)
  then have 2: "\<not> sublist ''undefined'' ?row"
    unfolding m .
  have 2: "\<exists>html. onboarding_row ?E (JObj bare_submission) = Inr html \<and> \<not> sublist ''undefined'' html"
    by (rule exI [where x = ?row]) (rule conjI [OF 1 2])
  note 3 = t4
  from t7 have 4: "map_join (onboarding_row ?E) (JArr [JObj bare_submission, JObj bare_submission]) = Inr (?row @ ?row)"
    by (simp add: m)
  note 5 = s5
  note 6 = s3
  have "sublist ''undefined'' (cell ?E ''assets'' untitled_asset ''title'')"
    unfolding s5 by simp
  with a(7) have "\<exists>k \<in> set (tab_columns ''assets''). sublist ''undefined'' (cell ?E ''assets'' untitled_asset k)"
    by (rule bexI [rotated])
  with s6 have s7: "sublist ''undefined'' (markup (tab_pieces ''assets'')
      (map (cell ?E ''assets'' untitled_asset) (tab_columns ''assets'')))"
    by (rule iffD2)
  have 7: "\<exists>html. assets_row ?E (JObj untitled_asset) = Inr html \<and> sublist ''undefined'' html"
    by (rule exI [where x = "markup (tab_pieces ''assets'')
          (map (cell ?E ''assets'' untitled_asset) (tab_columns ''assets''))"])
       (rule conjI [OF s1 s7])
  show ?thesis
    by (intro conjI) (fact 1 2 3 4 5 6 7 8)+
qed

text \<open>
  C3 as stated fails: a record of the assets list without \<^verbatim>\<open>title\<close>, and a record of the
  onboarding list without \<^verbatim>\<open>ip_assets_count\<close>, render a cell with the text "undefined".
\<close>

theorem absent_plain_field_prints_undefined:
  \<open>assets_row (browser [] True) (JObj untitled_asset)
      = Inr ''\<newline>        <tr>\<newline>          <td>2026-01-01</td>\<newline>          <td>undefined</td>\<newline>          <td></td>\<newline>          <td></td>\<newline>          <td></td>\<newline>          <td></td>\<newline>          <td class="mono">a-1</td>\<newline>        </tr>''
   \<and> onboarding_row (browser [] True)
        (JObj [(''id'', JStr ''7''), (''created_at'', JStr ''2026-01-01''), (''status'', JStr ''submitted'')])
      = Inr (''\<newline>          <tr>\<newline>            <td>2026-01-01</td>\<newline>            <td>submitted</td>\<newline>            <td></td>\<newline>            <td></td>\<newline>            <td>undefined</td>\<newline>            <td><button class="btn btn-outline-light btn-sm" onclick="openOnboarding('' @ [CHR 0x27] @ ''7'' @ [CHR 0x27] @ '')">Open</button></td>\<newline>          </tr>\<newline>        '')\<close>
  by (simp add: assets_row_def onboarding_row_def untitled_asset_def bindE_def browser_def or_else_def
      localeString_def ToString_def)

subsection \<open>The requests sent after a mutation\<close>

lemma tryCatch_log:
  assumes "m w = (r, w1)"
  shows "log (snd (tryCatch m (\<lambda>e. setInner i (g e) []) w)) = log w1"
  using assms by (cases r) (simp_all add: tryCatch_def setInner_def split: option.splits)

lemma submit_log:
  assumes "answers E w rq j" "getProp j ''id'' = Inr i" "converts i" "dom w m = Some el"
  shows "log (snd (submit E rq m c (list_view E path row t h f) w)) = log w @ [Fetched rq, Fetched (GET path)]"
proof -
  let ?w1 = "assignInner m (success (c @ toStr i)) [] (sent rq w)"
  obtain r w2 where l: "list_view E path row t h f ?w1 = (r, w2)"
    by (cases "list_view E path row t h f ?w1")
  with list_view_log [of E path row t h f ?w1] have "log w2 = log w @ [Fetched rq, Fetched (GET path)]"
    by simp
  with tryCatch_log [where m = "list_view E path row t h f" and w = ?w1, OF l] show ?thesis
    by (simp add: submit_ok [OF assms])
qed

lemma vaultUpload_log:
  assumes v: "vault_form w" "chosen w = f # fs"
    and a: "answers E w (ingest_request w f) j" "getProp j ''object_id'' = Inr a" "getProp j ''sha256'' = Inr b"
      "converts a" "converts b"
  shows "log (snd (vaultUpload E w)) = log w @ [Fetched (ingest_request w f), Fetched (GET vault_list)]"
proof -
  from v(1) obtain m where m: "dom w ''v_msg'' = Some m"
    by (auto elim: vault_formD)
  let ?rq = "ingest_request w f"
  let ?w0 = "assignInner ''v_msg'' [] [] w"
  let ?w1 = "assignInner ''v_msg'' (ingested (toStr a) (toStr b)) [] (sent ?rq ?w0)"
  let ?h = "\<lambda>e. setInner ''v_msg'' (danger (String_exn e)) []"
  have i: "ingest E ?rq ?w0 = (Inr j, sent ?rq ?w0)"
    using a(1) by (rule ingest_answers) simp
  have m0: "dom (sent ?rq ?w0) ''v_msg'' = Some (m\<lparr>innerHTML := []\<rparr>)"
    using m by (simp add: dom_assignInner)
  have s: "vaultUpload E w = tryCatch (refreshVaultList E) ?h ?w1"
    unfolding vaultUpload_with_file [OF v]
    by (simp add: tryCatch_ingest i a(2,3))
       (simp add: tryCatch_def andThen_def lift_def a(4,5) ToString_converts setInner_Some [OF m0])
  obtain r w2 where l: "refreshVaultList E ?w1 = (r, w2)"
    by (cases "refreshVaultList E ?w1")
  with list_view_log [of E vault_list "vault_row E" "''v_table''" vault_head vault_foot ?w1]
  have "log w2 = log w @ [Fetched ?rq, Fetched (GET vault_list)]"
    by (simp add: refreshVaultList_view)
  with tryCatch_log [where m = "refreshVaultList E" and w = ?w1, OF l] show ?thesis
    by (simp add: s)
qed

lemma setOnboardingStatus_sent:
  assumes p: "present w [''set_status'', ''set_notes'', ''tab_onboarding'']"
    and a: "answers E w (status_request w sub_id) j"
  shows "setOnboardingStatus E sub_id w
      = andThen (renderOnboarding E) (\<lambda>_. openOnboarding E sub_id) (sent (status_request w sub_id) w)"
proof -
  let ?rq = "status_request w sub_id"
  from p obtain e1 e2 where e: "dom w ''set_status'' = Some e1" "dom w ''set_notes'' = Some e2"
    by (auto simp: present_def)
  have rq: "?rq = POST_json (''/api/admin/onboarding/'' @ sub_id @ ''/status'')
          (JObj [(''status'', JStr (val e1)), (''notes'', JStr (val e2))])"
    by (simp add: status_request_def field_def e)
  have ap: "api E ?rq w = (Inr j, sent ?rq w)"
    using a by (rule api_answers) simp
  show ?thesis
    unfolding setOnboardingStatus_def
    by (simp only: andThen_valueOf [OF e(1)] andThen_valueOf [OF e(2)] rq [symmetric] andThen_api ap
        fst_conv sum.case)
qed

lemma setOnboardingStatus_log:
  assumes p: "present w [''set_status'', ''set_notes'', ''tab_onboarding'']"
    and a: "answers E w (status_request w sub_id) j"
  shows "\<exists>rest. log (snd (setOnboardingStatus E sub_id w))
           = log w @ [Fetched (status_request w sub_id), Fetched (GET onboarding_list)] @ rest"
proof -
  from p obtain el where "dom w ''tab_onboarding'' = Some el"
    by (auto simp: present_def)
  then have "dom (sent (status_request w sub_id) w) ''tab_onboarding'' = Some el"
    by simp
  from refresh_requests_list [OF this, of E sub_id] show ?thesis
    by (simp add: setOnboardingStatus_sent [OF p a])
qed

lemma approveOnboarding_log:
  assumes y: "answer E approve_question" and tab: "dom w ''tab_onboarding'' \<noteq> None"
    and a: "answers E w (approve_request sub_id) j"
      "getProp j ''user_email'' = Inr em" "getProp j ''temp_password'' = Inr pw"
      "converts em" "converts pw"
  shows "\<exists>rest. log (snd (approveOnboarding E sub_id w))
           = log w @ [Confirmed approve_question True, Fetched (approve_request sub_id),
                      Alerted (credentials (toStr em) (toStr pw)), Fetched (GET onboarding_list)] @ rest"
proof -
  from tab obtain el where "dom w ''tab_onboarding'' = Some el"
    by blast
  then have "dom (alerted (credentials (toStr em) (toStr pw)) (sent (approve_request sub_id) (asked approve_question True w)))
          ''tab_onboarding'' = Some el"
    by simp
  from refresh_requests_list [OF this, of E sub_id] show ?thesis
    by (simp add: approveOnboarding_alerted [OF y a])
qed

subsection \<open>What a failed refresh leaves\<close>

lemma shown_sent [simp]: "shown (sent rq w) i = shown w i"
  by (simp add: shown_def)

lemma shown_assign_other:
  "i \<noteq> t \<Longrightarrow> i \<notin> set (below t) \<Longrightarrow> shown (assignInner t h [] w) i = shown w i"
  by (simp add: shown_def dom_assignInner)

lemma submit_refresh_failed:
  assumes a: "answers E w rq j" "getProp j ''id'' = Inr i" "converts i" and m: "dom w m = Some el"
    and t: "t \<noteq> m" "t \<notin> set (below m)"
    and f: "fst (api E (GET path) (sent rq w)) = Inl e"
  shows "fst (submit E rq m c (list_view E path row t h f') w) = Inr ()"
    and "shown (snd (submit E rq m c (list_view E path row t h f') w)) t = shown w t"
    and "shown (snd (submit E rq m c (list_view E path row t h f') w)) m = Some (danger (String_exn e))"
proof -
  let ?w1 = "assignInner m (success (c @ toStr i)) [] (sent rq w)"
  let ?w2 = "sent (GET path) ?w1"
  have "fst (api E (GET path) ?w1) = Inl e"
    using f by (simp add: api_fst_assign)
  then have lv: "list_view E path row t h f' ?w1 = (Inl e, ?w2)"
    by (rule list_view_failed)
  have d: "dom ?w2 m = Some (el\<lparr>innerHTML := success (c @ toStr i)\<rparr>)"
    using m by (simp add: dom_assignInner)
  have s: "submit E rq m c (list_view E path row t h f') w
      = (Inr (), assignInner m (danger (String_exn e)) [] ?w2)"
    by (simp add: submit_ok [OF a m] tryCatch_def lv setInner_Some [OF d])
  show "fst (submit E rq m c (list_view E path row t h f') w) = Inr ()"
    by (simp add: s)
  show "shown (snd (submit E rq m c (list_view E path row t h f') w)) t = shown w t"
    using t by (simp add: s shown_assign_other)
  show "shown (snd (submit E rq m c (list_view E path row t h f') w)) m = Some (danger (String_exn e))"
    using d by (simp add: s shown_assign)
qed

lemma vaultUpload_refresh_failed:
  assumes v: "vault_form w" "chosen w = f # fs"
    and a: "answers E w (ingest_request w f) j" "getProp j ''object_id'' = Inr a" "getProp j ''sha256'' = Inr b"
      "converts a" "converts b"
    and l: "fst (api E (GET vault_list) (sent (ingest_request w f) w)) = Inl e"
  shows "fst (vaultUpload E w) = Inr ()"
    and "shown (snd (vaultUpload E w)) ''v_table'' = shown w ''v_table''"
    and "shown (snd (vaultUpload E w)) ''v_msg'' = Some (danger (String_exn e))"
proof -
  from v(1) obtain m where m: "dom w ''v_msg'' = Some m"
    by (auto elim: vault_formD)
  let ?rq = "ingest_request w f"
  let ?w0 = "assignInner ''v_msg'' [] [] w"
  let ?w1 = "assignInner ''v_msg'' (ingested (toStr a) (toStr b)) [] (sent ?rq ?w0)"
  let ?w2 = "sent (GET vault_list) ?w1"
  have i: "ingest E ?rq ?w0 = (Inr j, sent ?rq ?w0)"
    using a(1) by (rule ingest_answers) simp
  have m0: "dom (sent ?rq ?w0) ''v_msg'' = Some (m\<lparr>innerHTML := []\<rparr>)"
    using m by (simp add: dom_assignInner)
  have "fst (api E (GET vault_list) ?w1) = fst (api E (GET vault_list) (sent ?rq w))"
    by (rule api_fst_cong) simp
  with l have "fst (api E (GET vault_list) ?w1) = Inl e"
    by simp
  then have lv: "refreshVaultList E ?w1 = (Inl e, ?w2)"
    unfolding refreshVaultList_view by (rule list_view_failed)
  have d: "dom ?w2 ''v_msg'' = Some (m\<lparr>innerHTML := ingested (toStr a) (toStr b)\<rparr>)"
    using m by (simp add: dom_assignInner)
  have s: "vaultUpload E w = (Inr (), assignInner ''v_msg'' (danger (String_exn e)) [] ?w2)"
    unfolding vaultUpload_with_file [OF v]
    by (simp add: tryCatch_ingest i a(2,3))
       (simp add: tryCatch_def andThen_def lift_def a(4,5) ToString_converts setInner_Some [OF m0] lv setInner_Some [OF d])
  show "fst (vaultUpload E w) = Inr ()"
    by (simp add: s)
  show "shown (snd (vaultUpload E w)) ''v_table'' = shown w ''v_table''"
    by (simp add: s shown_assign_other below_def)
  show "shown (snd (vaultUpload E w)) ''v_msg'' = Some (danger (String_exn e))"
    using d by (simp add: s shown_assign)
qed

lemma vaultUpload_not_json:
  assumes v: "vault_form w" "chosen w = f # fs"
    and n: "net E (reqs w) (ingest_request w f) = Response st (Unparseable e)"
  shows "fst (vaultUpload E w) = Inr ()"
    and "log (snd (vaultUpload E w)) = log w @ [Fetched (ingest_request w f)]"
    and "shown (snd (vaultUpload E w)) ''v_table'' = shown w ''v_table''"
    and "shown (snd (vaultUpload E w)) ''v_msg'' = Some (danger (String_exn e))"
proof -
  from v(1) obtain m where m: "dom w ''v_msg'' = Some m"
    by (auto elim: vault_formD)
  let ?rq = "ingest_request w f"
  let ?w0 = "assignInner ''v_msg'' [] [] w"
  have "fst (ingest E ?rq ?w0) = Inl e"
    using n by (simp add: ingest_def fetch_def)
  then have i: "fst (ingest E ?rq ?w0) = Inl e" .
  have d: "dom (sent ?rq ?w0) ''v_msg'' = Some (m\<lparr>innerHTML := []\<rparr>)"
    using m by (simp add: dom_assignInner)
  have s: "vaultUpload E w = (Inr (), assignInner ''v_msg'' (danger (String_exn e)) [] (sent ?rq ?w0))"
    unfolding vaultUpload_with_file [OF v]
    by (simp add: tryCatch_ingest i setInner_Some [OF d])
  show "fst (vaultUpload E w) = Inr ()"
    by (simp add: s)
  show "log (snd (vaultUpload E w)) = log w @ [Fetched ?rq]"
    by (simp add: s)
  show "shown (snd (vaultUpload E w)) ''v_table'' = shown w ''v_table''"
    by (simp add: s shown_assign_other below_def)
  show "shown (snd (vaultUpload E w)) ''v_msg'' = Some (danger (String_exn e))"
    using d by (simp add: s shown_assign)
qed

lemma onboarding_refresh_failed:
  assumes tab: "dom w ''tab_onboarding'' = Some el"
    and f: "fst (api E (GET onboarding_list) w) = Inl e"
  shows "fst (andThen (renderOnboarding E) (\<lambda>_. openOnboarding E sub_id) w) = Inl e"
    and "log (snd (andThen (renderOnboarding E) (\<lambda>_. openOnboarding E sub_id) w))
           = log w @ [Fetched (GET onboarding_list)]"
    and "shown (snd (andThen (renderOnboarding E) (\<lambda>_. openOnboarding E sub_id) w)) ''ob_table'' = Some []"
    and "shown (snd (andThen (renderOnboarding E) (\<lambda>_. openOnboarding E sub_id) w)) ''ob_detail'' = Some []"
proof -
  let ?w1 = "assignInner ''tab_onboarding'' onboarding_shell
          [(''ob_status'', input ''submitted''), (''ob_table'', blank), (''ob_detail'', blank)] w"
  have "fst (api E (GET onboarding_list) ?w1) = Inl e"
    using f by (simp add: api_fst_assign)
  then have r: "renderOnboarding E w = (Inl e, sent (GET onboarding_list) ?w1)"
    by (simp add: renderOnboarding_view [OF tab] list_view_failed)
  then have s: "andThen (renderOnboarding E) (\<lambda>_. openOnboarding E sub_id) w
      = (Inl e, sent (GET onboarding_list) ?w1)"
    by (simp add: andThen_def)
  show "fst (andThen (renderOnboarding E) (\<lambda>_. openOnboarding E sub_id) w) = Inl e"
    by (simp add: s)
  show "log (snd (andThen (renderOnboarding E) (\<lambda>_. openOnboarding E sub_id) w))
           = log w @ [Fetched (GET onboarding_list)]"
    by (simp add: s)
  show "shown (snd (andThen (renderOnboarding E) (\<lambda>_. openOnboarding E sub_id) w)) ''ob_table'' = Some []"
    by (simp add: s shown_def dom_assignInner blank_def)
  show "shown (snd (andThen (renderOnboarding E) (\<lambda>_. openOnboarding E sub_id) w)) ''ob_detail'' = Some []"
    by (simp add: s shown_def dom_assignInner blank_def)
qed

subsection \<open>The lists after a mutation\<close>

lemma api_rejected: "net E (reqs w) rq = Rejected e \<Longrightarrow> fst (api E rq w) = Inl e"
  by (simp add: api_def fetch_def)

lemma api_no_detail:
  "net E (reqs w) rq = Response st (Parsed (JObj [])) \<Longrightarrow> \<not> ok st \<Longrightarrow>
   fst (api E rq w) = Inl (Error (''HTTP '' @ digits st))"
  by (simp add: api_response or_else_def)

lemma listed_pages:
  "owners_form owners_page_listed" "reqs owners_page_listed = []" "log owners_page_listed = []"
  "shown owners_page_listed ''o_table'' = Some old_rows"
  "shown (assets_page x y) ''a_table'' = Some []" "shown (vault_page fs) ''v_table'' = Some []"
  by (simp_all add: owners_page_listed_def owners_page_def assets_page_def vault_page_def page_def
      reqs_def owners_form_def present_def shown_def blank_def)

text \<open>
  C4, as amended. After a mutating action whose request got a 2xx reply with a JSON body
  (from which the action could read, and convert to text, what it shows), the next request
  sent is the list request of the affected table: after \<^verbatim>\<open>createOwner\<close>, \<^verbatim>\<open>createAsset\<close> and \<^verbatim>\<open>vaultUpload\<close> for the
  owners, assets and vault tables, after \<^verbatim>\<open>setOnboardingStatus\<close> and \<^verbatim>\<open>approveOnboarding\<close> for
  the onboarding table. The table is rendered again only when that list request succeeds: it
  then shows exactly the rows returned, and for the two onboarding actions the submission is
  requested next and, when that succeeds, shown in the detail view. When the list request
  fails, the three forms leave the table as it was, so the rows from before the action stay,
  and show the error in their message area; the two onboarding actions have emptied the
  onboarding tab by then, and throw the error. \<^verbatim>\<open>vaultUpload\<close> with a reply that is not JSON,
  whatever its status, shows the parse error and sends no list request.
\<close>

theorem mutations_refetch_lists:
  "(owners_form w \<and> answers E w (owner_request w) j \<and> getProp j ''id'' = Inr i \<and> converts i \<longrightarrow>
      log (snd (createOwner E w)) = log w @ [Fetched (owner_request w), Fetched (GET owners_list)]
      \<and> (dom w ''o_table'' \<noteq> None
          \<and> listed E (sent (owner_request w) w) owners_list (owners_row E) trs \<longrightarrow>
            shown (snd (createOwner E w)) ''o_table'' = Some (owners_head @ concat trs @ owners_foot))
      \<and> (fst (api E (GET owners_list) (sent (owner_request w) w)) = Inl e \<longrightarrow>
            shown (snd (createOwner E w)) ''o_table'' = shown w ''o_table''
            \<and> shown (snd (createOwner E w)) ''o_msg'' = Some (danger (String_exn e))))
   \<and> (assets_form w \<and> answers E w (asset_request w) j \<and> getProp j ''id'' = Inr i \<and> converts i \<longrightarrow>
      log (snd (createAsset E w)) = log w @ [Fetched (asset_request w), Fetched (GET assets_list)]
      \<and> (dom w ''a_table'' \<noteq> None
          \<and> listed E (sent (asset_request w) w) assets_list (assets_row E) trs \<longrightarrow>
            shown (snd (createAsset E w)) ''a_table'' = Some (assets_head @ concat trs @ assets_foot))
      \<and> (fst (api E (GET assets_list) (sent (asset_request w) w)) = Inl e \<longrightarrow>
            shown (snd (createAsset E w)) ''a_table'' = shown w ''a_table''
            \<and> shown (snd (createAsset E w)) ''a_msg'' = Some (danger (String_exn e))))
   \<and> (vault_form w \<and> chosen w = f # fs \<and> answers E w (ingest_request w f) j
      \<and> getProp j ''object_id'' = Inr a \<and> getProp j ''sha256'' = Inr b
      \<and> converts a \<and> converts b \<longrightarrow>
      log (snd (vaultUpload E w)) = log w @ [Fetched (ingest_request w f), Fetched (GET vault_list)]
      \<and> (dom w ''v_table'' \<noteq> None
          \<and> listed E (sent (ingest_request w f) w) vault_list (vault_row E) trs \<longrightarrow>
            shown (snd (vaultUpload E w)) ''v_table'' = Some (vault_head @ concat trs @ vault_foot))
      \<and> (fst (api E (GET vault_list) (sent (ingest_request w f) w)) = Inl e \<longrightarrow>
            shown (snd (vaultUpload E w)) ''v_table'' = shown w ''v_table''
            \<and> shown (snd (vaultUpload E w)) ''v_msg'' = Some (danger (String_exn e))))
   \<and> (vault_form w \<and> chosen w = f # fs
      \<and> net E (reqs w) (ingest_request w f) = Response st (Unparseable e) \<longrightarrow>
      log (snd (vaultUpload E w)) = log w @ [Fetched (ingest_request w f)]
      \<and> shown (snd (vaultUpload E w)) ''v_table'' = shown w ''v_table''
      \<and> shown (snd (vaultUpload E w)) ''v_msg'' = Some (danger (String_exn e)))
   \<and> (present w [''set_status'', ''set_notes'', ''tab_onboarding'']
      \<and> answers E w (status_request w sub_id) j \<longrightarrow>
      (\<exists>rest. log (snd (setOnboardingStatus E sub_id w))
          = log w @ [Fetched (status_request w sub_id), Fetched (GET onboarding_list)] @ rest)
      \<and> (listed E (sent (status_request w sub_id) w) onboarding_list (onboarding_row E) trs
          \<and> answers E (sent (GET onboarding_list) (sent (status_request w sub_id) w)) (detail_request sub_id) data
          \<and> getProp data ''submission'' = Inr s \<and> detail_html E sub_id s = Inr (html, kids) \<longrightarrow>
            log (snd (setOnboardingStatus E sub_id w)) =
              log w @ [Fetched (status_request w sub_id), Fetched (GET onboarding_list),
                       Fetched (detail_request sub_id)]
            \<and> shown (snd (setOnboardingStatus E sub_id w)) ''ob_table''
                = Some (onboarding_head @ concat trs @ onboarding_foot)
            \<and> shown (snd (setOnboardingStatus E sub_id w)) ''ob_detail'' = Some html)
      \<and> (fst (api E (GET onboarding_list) (sent (status_request w sub_id) w)) = Inl e \<longrightarrow>
            fst (setOnboardingStatus E sub_id w) = Inl e
            \<and> log (snd (setOnboardingStatus E sub_id w)) =
                log w @ [Fetched (status_request w sub_id), Fetched (GET onboarding_list)]
            \<and> shown (snd (setOnboardingStatus E sub_id w)) ''ob_table'' = Some []
            \<and> shown (snd (setOnboardingStatus E sub_id w)) ''ob_detail'' = Some []))
   \<and> (answer E approve_question \<and> dom w ''tab_onboarding'' \<noteq> None
      \<and> answers E w (approve_request sub_id) j
      \<and> getProp j ''user_email'' = Inr a \<and> getProp j ''temp_password'' = Inr b
      \<and> converts a \<and> converts b \<longrightarrow>
      (\<exists>rest. log (snd (approveOnboarding E sub_id w))
          = log w @ [Confirmed approve_question True, Fetched (approve_request sub_id),
                     Alerted (credentials (toStr a) (toStr b)), Fetched (GET onboarding_list)] @ rest)
      \<and> (listed E (sent (approve_request sub_id) w) onboarding_list (onboarding_row E) trs
          \<and> answers E (sent (GET onboarding_list) (sent (approve_request sub_id) w)) (detail_request sub_id) data
          \<and> getProp data ''submission'' = Inr s \<and> detail_html E sub_id s = Inr (html, kids) \<longrightarrow>
            log (snd (approveOnboarding E sub_id w)) =
              log w @ [Confirmed approve_question True, Fetched (approve_request sub_id),
                       Alerted (credentials (toStr a) (toStr b)), Fetched (GET onboarding_list), Fetched (detail_request sub_id)]
            \<and> shown (snd (approveOnboarding E sub_id w)) ''ob_table''
                = Some (onboarding_head @ concat trs @ onboarding_foot)
            \<and> shown (snd (approveOnboarding E sub_id w)) ''ob_detail'' = Some html)
      \<and> (fst (api E (GET onboarding_list) (sent (approve_request sub_id) w)) = Inl e \<longrightarrow>
            fst (approveOnboarding E sub_id w) = Inl e
            \<and> log (snd (approveOnboarding E sub_id w)) =
                log w @ [Confirmed approve_question True, Fetched (approve_request sub_id),
                         Alerted (credentials (toStr a) (toStr b)), Fetched (GET onboarding_list)]
            \<and> shown (snd (approveOnboarding E sub_id w)) ''ob_table'' = Some []
            \<and> shown (snd (approveOnboarding E sub_id w)) ''ob_detail'' = Some []))"
proof (intro conjI impI)
  assume h: "owners_form w \<and> answers E w (owner_request w) j \<and> getProp j ''id'' = Inr i \<and> converts i"
  then obtain m where m: "dom w ''o_msg'' = Some m"
    by (auto elim: owners_formD)
  from h have a: "answers E w (owner_request w) j" "getProp j ''id'' = Inr i" "converts i" and f: "owners_form w"
    by blast+
  show "log (snd (createOwner E w)) = log w @ [Fetched (owner_request w), Fetched (GET owners_list)]"
    unfolding createOwner_submit [OF f] refreshOwners_view using a m by (rule submit_log)
  {
    assume "dom w ''o_table'' \<noteq> None \<and> listed E (sent (owner_request w) w) owners_list (owners_row E) trs"
    then obtain te where te: "dom w ''o_table'' = Some te"
      and l: "listed E (sent (owner_request w) w) owners_list (owners_row E) trs"
      by blast
    note r = created_and_listed [OF a m te _ _ _ l, where c = "''Created owner ''"
        and h = owners_head and f = owners_foot]
    show "shown (snd (createOwner E w)) ''o_table'' = Some (owners_head @ concat trs @ owners_foot)"
      unfolding createOwner_submit [OF f] refreshOwners_view by (rule r(3)) (simp_all add: below_def)
  }
  assume l: "fst (api E (GET owners_list) (sent (owner_request w) w)) = Inl e"
  note r = submit_refresh_failed [OF a m _ _ l, where t = "''o_table''" and c = "''Created owner ''"
      and row = "owners_row E" and h = owners_head and f' = owners_foot]
  show "shown (snd (createOwner E w)) ''o_table'' = shown w ''o_table''"
    unfolding createOwner_submit [OF f] refreshOwners_view by (rule r(2)) (simp_all add: below_def)
  show "shown (snd (createOwner E w)) ''o_msg'' = Some (danger (String_exn e))"
    unfolding createOwner_submit [OF f] refreshOwners_view by (rule r(3)) (simp_all add: below_def)
next
  assume h: "assets_form w \<and> answers E w (asset_request w) j \<and> getProp j ''id'' = Inr i \<and> converts i"
  then obtain m where m: "dom w ''a_msg'' = Some m"
    by (auto elim: assets_formD)
  from h have a: "answers E w (asset_request w) j" "getProp j ''id'' = Inr i" "converts i" and f: "assets_form w"
    by blast+
  show "log (snd (createAsset E w)) = log w @ [Fetched (asset_request w), Fetched (GET assets_list)]"
    unfolding createAsset_submit [OF f] refreshAssets_view using a m by (rule submit_log)
  {
    assume "dom w ''a_table'' \<noteq> None \<and> listed E (sent (asset_request w) w) assets_list (assets_row E) trs"
    then obtain te where te: "dom w ''a_table'' = Some te"
      and l: "listed E (sent (asset_request w) w) assets_list (assets_row E) trs"
      by blast
    note r = created_and_listed [OF a m te _ _ _ l, where c = "''Created asset ''"
        and h = assets_head and f = assets_foot]
    show "shown (snd (createAsset E w)) ''a_table'' = Some (assets_head @ concat trs @ assets_foot)"
      unfolding createAsset_submit [OF f] refreshAssets_view by (rule r(3)) (simp_all add: below_def)
  }
  assume l: "fst (api E (GET assets_list) (sent (asset_request w) w)) = Inl e"
  note r = submit_refresh_failed [OF a m _ _ l, where t = "''a_table''" and c = "''Created asset ''"
      and row = "assets_row E" and h = assets_head and f' = assets_foot]
  show "shown (snd (createAsset E w)) ''a_table'' = shown w ''a_table''"
    unfolding createAsset_submit [OF f] refreshAssets_view by (rule r(2)) (simp_all add: below_def)
  show "shown (snd (createAsset E w)) ''a_msg'' = Some (danger (String_exn e))"
    unfolding createAsset_submit [OF f] refreshAssets_view by (rule r(3)) (simp_all add: below_def)
next
  assume h: "vault_form w \<and> chosen w = f # fs \<and> answers E w (ingest_request w f) j
      \<and> getProp j ''object_id'' = Inr a \<and> getProp j ''sha256'' = Inr b
      \<and> converts a \<and> converts b"
  then have v: "vault_form w" "chosen w = f # fs"
    and a: "answers E w (ingest_request w f) j" "getProp j ''object_id'' = Inr a" "getProp j ''sha256'' = Inr b"
      "converts a" "converts b"
    by blast+
  show "log (snd (vaultUpload E w)) = log w @ [Fetched (ingest_request w f), Fetched (GET vault_list)]"
    using v a by (rule vaultUpload_log)
  {
    assume "dom w ''v_table'' \<noteq> None \<and> listed E (sent (ingest_request w f) w) vault_list (vault_row E) trs"
    then obtain te where te: "dom w ''v_table'' = Some te"
      and l: "listed E (sent (ingest_request w f) w) vault_list (vault_row E) trs"
      by blast
    show "shown (snd (vaultUpload E w)) ''v_table'' = Some (vault_head @ concat trs @ vault_foot)"
      using v te a l by (rule ingested_and_listed(3))
  }
  assume l: "fst (api E (GET vault_list) (sent (ingest_request w f) w)) = Inl e"
  show "shown (snd (vaultUpload E w)) ''v_table'' = shown w ''v_table''"
    using v a l by (rule vaultUpload_refresh_failed(2))
  show "shown (snd (vaultUpload E w)) ''v_msg'' = Some (danger (String_exn e))"
    using v a l by (rule vaultUpload_refresh_failed(3))
next
  assume h: "vault_form w \<and> chosen w = f # fs
      \<and> net E (reqs w) (ingest_request w f) = Response st (Unparseable e)"
  then have v: "vault_form w" "chosen w = f # fs"
    and n: "net E (reqs w) (ingest_request w f) = Response st (Unparseable e)"
    by blast+
  show "log (snd (vaultUpload E w)) = log w @ [Fetched (ingest_request w f)]"
    using v n by (rule vaultUpload_not_json(2))
  show "shown (snd (vaultUpload E w)) ''v_table'' = shown w ''v_table''"
    using v n by (rule vaultUpload_not_json(3))
  show "shown (snd (vaultUpload E w)) ''v_msg'' = Some (danger (String_exn e))"
    using v n by (rule vaultUpload_not_json(4))
next
  assume h: "present w [''set_status'', ''set_notes'', ''tab_onboarding''] \<and> answers E w (status_request w sub_id) j"
  then have p: "present w [''set_status'', ''set_notes'', ''tab_onboarding'']"
    and a: "answers E w (status_request w sub_id) j"
    by blast+
  show "\<exists>rest. log (snd (setOnboardingStatus E sub_id w))
          = log w @ [Fetched (status_request w sub_id), Fetched (GET onboarding_list)] @ rest"
    using p a by (rule setOnboardingStatus_log)
  {
    assume "listed E (sent (status_request w sub_id) w) onboarding_list (onboarding_row E) trs
          \<and> answers E (sent (GET onboarding_list) (sent (status_request w sub_id) w)) (detail_request sub_id) data
          \<and> getProp data ''submission'' = Inr s \<and> detail_html E sub_id s = Inr (html, kids)"
    then have l: "listed E (sent (status_request w sub_id) w) onboarding_list (onboarding_row E) trs"
      and d: "answers E (sent (GET onboarding_list) (sent (status_request w sub_id) w)) (detail_request sub_id) data"
      and s: "getProp data ''submission'' = Inr s" "detail_html E sub_id s = Inr (html, kids)"
      by blast+
    note r = setOnboardingStatus_ok [OF p a l d s]
    from r show "log (snd (setOnboardingStatus E sub_id w)) =
              log w @ [Fetched (status_request w sub_id), Fetched (GET onboarding_list),
                       Fetched (detail_request sub_id)]"
      by blast
    from r show "shown (snd (setOnboardingStatus E sub_id w)) ''ob_table''
                = Some (onboarding_head @ concat trs @ onboarding_foot)"
      by blast
    from r show "shown (snd (setOnboardingStatus E sub_id w)) ''ob_detail'' = Some html"
      by blast
  }
  assume l: "fst (api E (GET onboarding_list) (sent (status_request w sub_id) w)) = Inl e"
  from p obtain el where "dom w ''tab_onboarding'' = Some el"
    by (auto simp: present_def)
  then have el: "dom (sent (status_request w sub_id) w) ''tab_onboarding'' = Some el"
    by simp
  note r = onboarding_refresh_failed [OF el l, of sub_id, folded setOnboardingStatus_sent [OF p a]]
  from r(1) show "fst (setOnboardingStatus E sub_id w) = Inl e" .
  from r(2) show "log (snd (setOnboardingStatus E sub_id w)) =
                log w @ [Fetched (status_request w sub_id), Fetched (GET onboarding_list)]"
    by simp
  from r(3) show "shown (snd (setOnboardingStatus E sub_id w)) ''ob_table'' = Some []" .
  from r(4) show "shown (snd (setOnboardingStatus E sub_id w)) ''ob_detail'' = Some []" .
next
  assume h: "answer E approve_question \<and> dom w ''tab_onboarding'' \<noteq> None
      \<and> answers E w (approve_request sub_id) j
      \<and> getProp j ''user_email'' = Inr a \<and> getProp j ''temp_password'' = Inr b
      \<and> converts a \<and> converts b"
  then have y: "answer E approve_question" and t: "dom w ''tab_onboarding'' \<noteq> None"
    and a: "answers E w (approve_request sub_id) j" "getProp j ''user_email'' = Inr a"
      "getProp j ''temp_password'' = Inr b" "converts a" "converts b"
    by blast+
  show "\<exists>rest. log (snd (approveOnboarding E sub_id w))
          = log w @ [Confirmed approve_question True, Fetched (approve_request sub_id),
                     Alerted (credentials (toStr a) (toStr b)), Fetched (GET onboarding_list)] @ rest"
    using y t a by (rule approveOnboarding_log)
  {
    assume "listed E (sent (approve_request sub_id) w) onboarding_list (onboarding_row E) trs
          \<and> answers E (sent (GET onboarding_list) (sent (approve_request sub_id) w)) (detail_request sub_id) data
          \<and> getProp data ''submission'' = Inr s \<and> detail_html E sub_id s = Inr (html, kids)"
    then have l: "listed E (sent (approve_request sub_id) w) onboarding_list (onboarding_row E) trs"
      and d: "answers E (sent (GET onboarding_list) (sent (approve_request sub_id) w)) (detail_request sub_id) data"
      and s: "getProp data ''submission'' = Inr s" "detail_html E sub_id s = Inr (html, kids)"
      by blast+
    note r = approveOnboarding_ok [OF y t a l d s]
    from r show "log (snd (approveOnboarding E sub_id w)) =
              log w @ [Confirmed approve_question True, Fetched (approve_request sub_id),
                       Alerted (credentials (toStr a) (toStr b)), Fetched (GET onboarding_list), Fetched (detail_request sub_id)]"
      by blast
    from r show "shown (snd (approveOnboarding E sub_id w)) ''ob_table''
                = Some (onboarding_head @ concat trs @ onboarding_foot)"
      by blast
    from r show "shown (snd (approveOnboarding E sub_id w)) ''ob_detail'' = Some html"
      by blast
  }
  assume l: "fst (api E (GET onboarding_list) (sent (approve_request sub_id) w)) = Inl e"
  let ?w2 = "alerted (credentials (toStr a) (toStr b)) (sent (approve_request sub_id) (asked approve_question True w))"
  from t obtain el where "dom w ''tab_onboarding'' = Some el"
    by blast
  then have el: "dom ?w2 ''tab_onboarding'' = Some el"
    by simp
  have "fst (api E (GET onboarding_list) ?w2) = fst (api E (GET onboarding_list) (sent (approve_request sub_id) w))"
    by (rule api_fst_cong) (simp add: reqs_def)
  with l have l2: "fst (api E (GET onboarding_list) ?w2) = Inl e"
    by simp
  note r = onboarding_refresh_failed [OF el l2, of sub_id, folded approveOnboarding_alerted [OF y a]]
  from r(1) show "fst (approveOnboarding E sub_id w) = Inl e" .
  from r(2) show "log (snd (approveOnboarding E sub_id w)) =
                log w @ [Confirmed approve_question True, Fetched (approve_request sub_id),
                         Alerted (credentials (toStr a) (toStr b)), Fetched (GET onboarding_list)]"
    by simp
  from r(3) show "shown (snd (approveOnboarding E sub_id w)) ''ob_table'' = Some []" .
  from r(4) show "shown (snd (approveOnboarding E sub_id w)) ''ob_detail'' = Some []" .
qed

theorem mutations_refetch_lists_witness:
  \<open>(\<exists>t. owners_row (browser [created_reply, one_owner_reply] True) owner_record = Inr t
        \<and> shown (snd (createOwner (browser [created_reply, one_owner_reply] True) owners_page)) ''o_table''
            = Some (owners_head @ t @ owners_foot))
   \<and> log (snd (createAsset (browser [created_reply] True) (assets_page ''  '' '' My Patent  '')))
       = [Fetched (asset_request (assets_page ''  '' '' My Patent  '')), Fetched (GET assets_list)]
   \<and> shown (snd (createAsset (browser [created_reply] True) (assets_page ''  '' '' My Patent  ''))) ''a_table''
       = Some []
   \<and> shown (snd (createAsset (browser [created_reply] True) (assets_page ''  '' '' My Patent  ''))) ''a_msg''
       = Some ''<div class="alert alert-danger">TypeError: Failed to fetch</div>''
   \<and> log (snd (vaultUpload (browser [ingested_reply, empty_list_reply] True) (vault_page [bundle_zip])))
       = [Fetched (ingest_request (vault_page [bundle_zip]) bundle_zip), Fetched (GET vault_list)]
   \<and> log (snd (vaultUpload (browser [empty_body_reply] True) (vault_page [bundle_zip])))
       = [Fetched (ingest_request (vault_page [bundle_zip]) bundle_zip)]
   \<and> log (snd (setOnboardingStatus (browser [created_reply, empty_list_reply, submission_reply] True) ''7'' detail_page))
       = [Fetched (status_request detail_page ''7''), Fetched (GET onboarding_list), Fetched (detail_request ''7'')]
   \<and> shown (snd (approveOnboarding (browser [approved_reply, empty_list_reply, submission_reply] True) ''7'' detail_page))
        ''ob_table'' = Some (onboarding_head @ onboarding_foot)
   \<and> fst (approveOnboarding (browser [approved_reply, failed_reply] True) ''7'' detail_page)
       = Inl (Error ''HTTP 500'')
   \<and> shown (snd (approveOnboarding (browser [approved_reply, failed_reply] True) ''7'' detail_page)) ''ob_table''
       = Some []\<close>
proof -
  let ?new = "JObj [(''id'', JStr ''new-1'')]"
  let ?data = "JObj [(''submission'', submission_7)]"
  let ?E1 = "browser [created_reply, one_owner_reply] True"
  let ?rq1 = "owner_request owners_page"
  obtain t where t: "owners_row ?E1 owner_record = Inr t"
    using owners_row_total by blast
  have m: "mapE (owners_row ?E1) [owner_record] = Inr [t]"
    by (simp add: bindE_def t)
  have "answers ?E1 owners_page ?rq1 ?new"
    by (rule answersI [where st = 201]) (simp_all add: serve_nth owners_page_form created_reply_def ok_2xx)
  then have h1: "owners_form owners_page \<and> answers ?E1 owners_page ?rq1 ?new
      \<and> getProp ?new ''id'' = Inr (JStr ''new-1'') \<and> converts (JStr ''new-1'')"
    by (simp add: owners_page_form)
  have "listed ?E1 (sent ?rq1 owners_page) owners_list (owners_row ?E1) [t]"
    by (rule listedI [where st = 200 and kvs = "[(''items'', JArr [owner_record])]" and rs = "[owner_record]",
          OF _ _ _ m])
       (simp_all add: serve_nth owners_page_form one_owner_reply_def ok_2xx)
  then have l1: "dom owners_page ''o_table'' \<noteq> None
      \<and> listed ?E1 (sent ?rq1 owners_page) owners_list (owners_row ?E1) [t]"
    by (simp add: form_pages)
  note r1 = mutations_refetch_lists [where E = ?E1 and w = owners_page and j = ?new and i = "JStr ''new-1''"
      and trs = "[t]", THEN conjunct1, THEN mp, OF h1, THEN conjunct2, THEN conjunct1, THEN mp, OF l1]
  let ?E2 = "browser [created_reply] True"
  let ?w2 = "assets_page ''  '' '' My Patent  ''"
  have "answers ?E2 ?w2 (asset_request ?w2) ?new"
    by (rule answersI [where st = 201]) (simp_all add: serve_nth form_pages created_reply_def ok_2xx)
  then have h2: "assets_form ?w2 \<and> answers ?E2 ?w2 (asset_request ?w2) ?new
      \<and> getProp ?new ''id'' = Inr (JStr ''new-1'') \<and> converts (JStr ''new-1'')"
    by (simp add: assets_page_form)
  have f2: "fst (api ?E2 (GET assets_list) (sent (asset_request ?w2) ?w2)) = Inl (TypeError ''Failed to fetch'')"
    by (rule api_rejected) (simp add: form_pages browser_def serve_def)
  note t2 = mutations_refetch_lists [where E = ?E2 and w = ?w2 and j = ?new and i = "JStr ''new-1''"
      and e = "TypeError ''Failed to fetch''", THEN conjunct2, THEN conjunct1, THEN mp, OF h2]
  note r2 = t2 [THEN conjunct1] t2 [THEN conjunct2, THEN conjunct2, THEN mp, OF f2]
  let ?E3 = "browser [ingested_reply, empty_list_reply] True"
  let ?w3 = "vault_page [bundle_zip]"
  let ?rq3 = "ingest_request ?w3 bundle_zip"
  let ?j3 = "JObj [(''object_id'', JStr ''obj-1''), (''sha256'', JStr ''ab12'')]"
  have "answers ?E3 ?w3 ?rq3 ?j3"
    by (rule answersI [where st = 200]) (simp_all add: serve_nth reqs_vault_page ingested_reply_def ok_2xx)
  then have h3: "vault_form ?w3 \<and> chosen ?w3 = bundle_zip # [] \<and> answers ?E3 ?w3 ?rq3 ?j3
      \<and> getProp ?j3 ''object_id'' = Inr (JStr ''obj-1'') \<and> getProp ?j3 ''sha256'' = Inr (JStr ''ab12'')
      \<and> converts (JStr ''obj-1'') \<and> converts (JStr ''ab12'')"
    by (simp add: vault_page_form)
  note r3 = mutations_refetch_lists [where E = ?E3 and w = ?w3 and j = ?j3 and f = bundle_zip and fs = "[]"
      and a = "JStr ''obj-1''" and b = "JStr ''ab12''",
      THEN conjunct2, THEN conjunct2, THEN conjunct1, THEN mp, OF h3, THEN conjunct1]
  let ?E3n = "browser [empty_body_reply] True"
  have h3n: "vault_form ?w3 \<and> chosen ?w3 = bundle_zip # []
      \<and> net ?E3n (reqs ?w3) ?rq3 = Response 200 (Unparseable (SyntaxError ''Unexpected end of JSON input''))"
    by (simp add: vault_page_form reqs_vault_page serve_first empty_body_reply_def)
  note r3n = mutations_refetch_lists [where E = ?E3n and w = ?w3 and f = bundle_zip and fs = "[]"
      and st = 200 and e = "SyntaxError ''Unexpected end of JSON input''",
      THEN conjunct2, THEN conjunct2, THEN conjunct2, THEN conjunct1, THEN mp, OF h3n, THEN conjunct1]
  let ?E4 = "browser [created_reply, empty_list_reply, submission_reply] True"
  let ?rq4 = "status_request detail_page ''7''"
  obtain html4 kids4 where dh4: "detail_html ?E4 ''7'' submission_7 = Inr (html4, kids4)"
    using detail_html_7 by blast
  have "answers ?E4 detail_page ?rq4 ?new"
    by (rule answersI [where st = 201]) (simp_all add: serve_nth detail_page_form created_reply_def ok_2xx)
  with detail_page_tab(2) have h4: "present detail_page [''set_status'', ''set_notes'', ''tab_onboarding'']
      \<and> answers ?E4 detail_page ?rq4 ?new"
    by simp
  have "listed ?E4 (sent ?rq4 detail_page) onboarding_list (onboarding_row ?E4) []"
    by (rule listedI [where st = 200 and kvs = "[(''items'', JArr [])]" and rs = "[]"])
       (simp_all add: serve_nth detail_page_form empty_list_reply_def ok_2xx)
  moreover have "answers ?E4 (sent (GET onboarding_list) (sent ?rq4 detail_page)) (detail_request ''7'') ?data"
    by (rule answersI [where st = 200]) (simp_all add: serve_nth detail_page_form submission_reply_def ok_2xx)
  moreover note dh4
  ultimately have l4: "listed ?E4 (sent ?rq4 detail_page) onboarding_list (onboarding_row ?E4) []
      \<and> answers ?E4 (sent (GET onboarding_list) (sent ?rq4 detail_page)) (detail_request ''7'') ?data
      \<and> getProp ?data ''submission'' = Inr submission_7 \<and> detail_html ?E4 ''7'' submission_7 = Inr (html4, kids4)"
    by simp
  note r4 = mutations_refetch_lists [where E = ?E4 and w = detail_page and j = ?new and sub_id = "''7''"
      and trs = "[]" and data = ?data and s = submission_7 and html = html4 and kids = kids4,
      THEN conjunct2, THEN conjunct2, THEN conjunct2, THEN conjunct2, THEN conjunct1, THEN mp, OF h4,
      THEN conjunct2, THEN conjunct1, THEN mp, OF l4]
  let ?E5 = "browser [approved_reply, empty_list_reply, submission_reply] True"
  let ?rq5 = "approve_request ''7''"
  let ?j5 = "JObj [(''user_email'', JStr ''owner@example.org''), (''temp_password'', JStr ''t3mp-pw'')]"
  obtain html5 kids5 where dh5: "detail_html ?E5 ''7'' submission_7 = Inr (html5, kids5)"
    using detail_html_7 by blast
  have "answers ?E5 detail_page ?rq5 ?j5"
    by (rule answersI [where st = 200]) (simp_all add: serve_nth detail_page_form approved_reply_def ok_2xx)
  with detail_page_tab(1) have h5: "answer ?E5 approve_question \<and> dom detail_page ''tab_onboarding'' \<noteq> None
      \<and> answers ?E5 detail_page ?rq5 ?j5
      \<and> getProp ?j5 ''user_email'' = Inr (JStr ''owner@example.org'')
      \<and> getProp ?j5 ''temp_password'' = Inr (JStr ''t3mp-pw'')
      \<and> converts (JStr ''owner@example.org'') \<and> converts (JStr ''t3mp-pw'')"
    by (simp add: answer_browser)
  have "listed ?E5 (sent ?rq5 detail_page) onboarding_list (onboarding_row ?E5) []"
    by (rule listedI [where st = 200 and kvs = "[(''items'', JArr [])]" and rs = "[]"])
       (simp_all add: serve_nth detail_page_form empty_list_reply_def ok_2xx)
  moreover have "answers ?E5 (sent (GET onboarding_list) (sent ?rq5 detail_page)) (detail_request ''7'') ?data"
    by (rule answersI [where st = 200]) (simp_all add: serve_nth detail_page_form submission_reply_def ok_2xx)
  moreover note dh5
  ultimately have l5: "listed ?E5 (sent ?rq5 detail_page) onboarding_list (onboarding_row ?E5) []
      \<and> answers ?E5 (sent (GET onboarding_list) (sent ?rq5 detail_page)) (detail_request ''7'') ?data
      \<and> getProp ?data ''submission'' = Inr submission_7 \<and> detail_html ?E5 ''7'' submission_7 = Inr (html5, kids5)"
    by simp
  note r5 = mutations_refetch_lists [where E = ?E5 and w = detail_page and j = ?j5 and sub_id = "''7''"
      and a = "JStr ''owner@example.org''" and b = "JStr ''t3mp-pw''"
      and trs = "[]" and data = ?data and s = submission_7 and html = html5 and kids = kids5,
      THEN conjunct2, THEN conjunct2, THEN conjunct2, THEN conjunct2, THEN conjunct2, THEN mp, OF h5,
      THEN conjunct2, THEN conjunct1, THEN mp, OF l5]
  let ?E6 = "browser [approved_reply, failed_reply] True"
  have "answers ?E6 detail_page ?rq5 ?j5"
    by (rule answersI [where st = 200]) (simp_all add: serve_nth detail_page_form approved_reply_def ok_2xx)
  with detail_page_tab(1) have h6: "answer ?E6 approve_question \<and> dom detail_page ''tab_onboarding'' \<noteq> None
      \<and> answers ?E6 detail_page ?rq5 ?j5
      \<and> getProp ?j5 ''user_email'' = Inr (JStr ''owner@example.org'')
      \<and> getProp ?j5 ''temp_password'' = Inr (JStr ''t3mp-pw'')
      \<and> converts (JStr ''owner@example.org'') \<and> converts (JStr ''t3mp-pw'')"
    by (simp add: answer_browser)
  have "\<not> ok 500"
    by (simp add: ok_def)
  then have "fst (api ?E6 (GET onboarding_list) (sent ?rq5 detail_page)) = Inl (Error (''HTTP '' @ digits 500))"
    by (intro api_no_detail) (simp_all add: serve_nth detail_page_form failed_reply_def)
  then have f6: "fst (api ?E6 (GET onboarding_list) (sent ?rq5 detail_page)) = Inl (Error ''HTTP 500'')"
    by (simp add: digits_500)
  note r6 = mutations_refetch_lists [where E = ?E6 and w = detail_page and j = ?j5 and sub_id = "''7''"
      and a = "JStr ''owner@example.org''" and b = "JStr ''t3mp-pw''" and e = "Error ''HTTP 500''",
      THEN conjunct2, THEN conjunct2, THEN conjunct2, THEN conjunct2, THEN conjunct2, THEN mp, OF h6,
      THEN conjunct2, THEN conjunct2, THEN mp, OF f6]
  from r1 t have "\<exists>t. owners_row ?E1 owner_record = Inr t
        \<and> shown (snd (createOwner ?E1 owners_page)) ''o_table'' = Some (owners_head @ t @ owners_foot)"
    by auto
  with r2 r3 r3n r4 r5 r6 show ?thesis
    by (simp add: form_pages listed_pages detail_page_log danger_def with_name_def)
qed

text \<open>
  C4 as stated fails. The owner is created (201) and the list request is answered 500:
  \<^verbatim>\<open>createOwner\<close> returns, and the owners table still shows the rows it showed before. An
  ingest answered 200 with an empty body is followed by no list request at all.
\<close>

theorem failed_refetch_leaves_old_rows:
  \<open>fst (createOwner (browser [created_reply, failed_reply] True) owners_page_listed) = Inr ()
   \<and> log (snd (createOwner (browser [created_reply, failed_reply] True) owners_page_listed))
       = [Fetched (owner_request owners_page_listed), Fetched (GET owners_list)]
   \<and> shown (snd (createOwner (browser [created_reply, failed_reply] True) owners_page_listed)) ''o_table''
       = Some old_rows
   \<and> shown (snd (createOwner (browser [created_reply, failed_reply] True) owners_page_listed)) ''o_msg''
       = Some ''<div class="alert alert-danger">Error: HTTP 500</div>''
   \<and> log (snd (vaultUpload (browser [empty_body_reply, empty_list_reply] True) (vault_page [bundle_zip])))
       = [Fetched (ingest_request (vault_page [bundle_zip]) bundle_zip)]\<close>
proof -
  let ?E = "browser [created_reply, failed_reply] True"
  let ?w = "owners_page_listed"
  let ?rq = "owner_request ?w"
  let ?new = "JObj [(''id'', JStr ''new-1'')]"
  have a: "answers ?E ?w ?rq ?new"
    by (rule answersI [where st = 201]) (simp_all add: serve_nth listed_pages created_reply_def ok_2xx)
  have i: "getProp ?new ''id'' = Inr (JStr ''new-1'')"
    by simp
  obtain m where m: "dom ?w ''o_msg'' = Some m"
    using listed_pages(1) by (auto elim: owners_formD)
  have "\<not> ok 500"
    by (simp add: ok_def)
  then have "fst (api ?E (GET owners_list) (sent ?rq ?w)) = Inl (Error (''HTTP '' @ digits 500))"
    by (intro api_no_detail) (simp_all add: serve_nth listed_pages failed_reply_def)
  then have f: "fst (api ?E (GET owners_list) (sent ?rq ?w)) = Inl (Error ''HTTP 500'')"
    by (simp add: digits_500)
  note s = createOwner_submit [OF listed_pages(1), of ?E] refreshOwners_view
  note r = submit_refresh_failed [OF a i _ m _ _ f, where t = "''o_table''" and c = "''Created owner ''"
      and row = "owners_row ?E" and h = owners_head and f' = owners_foot]
  have 1: "fst (createOwner ?E ?w) = Inr ()"
    unfolding s by (rule r(1)) (simp_all add: below_def)
  have "shown (snd (createOwner ?E ?w)) ''o_table'' = shown ?w ''o_table''"
    unfolding s by (rule r(2)) (simp_all add: below_def)
  then have 2: "shown (snd (createOwner ?E ?w)) ''o_table'' = Some old_rows"
    by (simp add: listed_pages)
  have 3: "shown (snd (createOwner ?E ?w)) ''o_msg'' = Some (danger (String_exn (Error ''HTTP 500'')))"
    unfolding s by (rule r(3)) (simp_all add: below_def)
  have 4: "log (snd (createOwner ?E ?w)) = log ?w @ [Fetched ?rq, Fetched (GET owners_list)]"
    unfolding s by (rule submit_log [OF a i _ m]) simp
  let ?V = "browser [empty_body_reply, empty_list_reply] True"
  have "net ?V (reqs (vault_page [bundle_zip])) (ingest_request (vault_page [bundle_zip]) bundle_zip)
      = Response 200 (Unparseable (SyntaxError ''Unexpected end of JSON input''))"
    by (simp add: reqs_vault_page serve_first empty_body_reply_def)
  with vault_page_form [of "[bundle_zip]"]
  have 5: "log (snd (vaultUpload ?V (vault_page [bundle_zip])))
      = log (vault_page [bundle_zip]) @ [Fetched (ingest_request (vault_page [bundle_zip]) bundle_zip)]"
    by (intro vaultUpload_not_json(2)) simp_all
  from 1 2 3 4 5 show ?thesis
    by (simp add: listed_pages form_pages danger_def with_name_def)
qed

end
